theory Spec2Isabelle
  imports Complex_Main
begin

section \<open>JavaScript values and strings\<close>

text \<open>
  A JavaScript string is the list of its UTF-16 code units. A code unit is a natural number
  (below \<open>65536\<close>; nothing here depends on the bound), so a string may hold any character.
  The texts the program itself writes are ASCII: \<open>js\<close> gives the code units of such a text.
  Values that reach the code untyped (the decoded JSON of the provider's
  answer, the body of an HTTP request) are \<open>jsval\<close>s. An object is the list of its own
  properties; a number is kept as its exact value (\<open>JSON.parse\<close> never yields \<open>NaN\<close>).
\<close>

type_synonym code_unit = nat

type_synonym jstring = "code_unit list"

definition js :: "string \<Rightarrow> jstring" where
  "js s = map of_char s"

datatype jsval =
    JUndefined
  | JNull
  | JBool bool
  | JNum rat
  | JStr jstring
  | JArr "jsval list"
  | JObj "(jstring \<times> jsval) list"

text \<open>What a \<open>throw\<close> carries: an \<open>Error\<close> with its message, the engine's own \<open>SyntaxError\<close>
  and \<open>TypeError\<close> (both \<open>instanceof Error\<close>; their message text is chosen by the engine and
  is not modelled), or a value that is not an \<open>Error\<close> at all.\<close>

datatype thrown = Error jstring | SyntaxError | TypeError | NonError

text \<open>ToBoolean, as used by \<open>!x\<close>, \<open>x || y\<close> and \<open>x ? a : b\<close>.\<close>

fun truthy :: "jsval \<Rightarrow> bool" where
  "truthy JUndefined = False"
| "truthy JNull = False"
| "truthy (JBool b) = b"
| "truthy (JNum n) = (n \<noteq> 0)"
| "truthy (JStr s) = (s \<noteq> [])"
| "truthy (JArr _) = True"
| "truthy (JObj _) = True"

text \<open>The property read \<open>v.p\<close>. Reading from \<open>undefined\<close> or \<open>null\<close> throws a \<open>TypeError\<close>;
  an object without the property, and every primitive or array, gives \<open>undefined\<close> (the
  property names read by this program are not defined on any prototype).\<close>

fun getProp :: "jsval \<Rightarrow> jstring \<Rightarrow> thrown + jsval" where
  "getProp JUndefined p = Inl TypeError"
| "getProp JNull p = Inl TypeError"
| "getProp (JObj kvs) p = Inr (case map_of kvs p of None \<Rightarrow> JUndefined | Some v \<Rightarrow> v)"
| "getProp _ p = Inr JUndefined"

definition startsWith :: "jstring \<Rightarrow> jstring \<Rightarrow> bool" where
  "startsWith s p = (take (length p) s = p)"

text \<open>\<open>String.prototype.trim\<close> removes white space and line terminators from both ends:
  TAB, LF, VT, FF, CR, the space, the no-break space, the other space separators
  (U+1680, U+2000 to U+200A, U+202F, U+205F, U+3000), the line and paragraph separators
  (U+2028, U+2029) and the byte order mark (U+FEFF).\<close>

definition isWhiteSpace :: "code_unit \<Rightarrow> bool" where
  "isWhiteSpace c =
     ((0x09 \<le> c \<and> c \<le> 0x0D) \<or> c = 0x20 \<or> c = 0xA0 \<or> c = 0x1680 \<or>
      (0x2000 \<le> c \<and> c \<le> 0x200A) \<or> c = 0x2028 \<or> c = 0x2029 \<or> c = 0x202F \<or>
      c = 0x205F \<or> c = 0x3000 \<or> c = 0xFEFF)"

definition trim :: "jstring \<Rightarrow> jstring" where
  "trim s = rev (dropWhile isWhiteSpace (rev (dropWhile isWhiteSpace s)))"

text \<open>The engine built-ins the generation code calls are parameters of the model:
  \<open>JSON.parse\<close> (\<open>Inr v\<close> the decoded value, \<open>Inl ()\<close> a thrown \<open>SyntaxError\<close>) and the
  string conversion that a template literal applies to a value that is not a string.\<close>

record engine =
  JSON_parse :: "jstring \<Rightarrow> unit + jsval"
  ToString :: "jsval \<Rightarrow> jstring"


section \<open>Types shared by both generation paths (types.ts, constants.ts)\<close>

record UploadedMedia =
  base64 :: jstring
  mimeType :: jstring

datatype Platform = LinkedIn | Facebook | Twitter | Instagram

datatype media_type = Image_type | Video_type

record Media =
  url :: jstring
  type :: media_type

text \<open>A \<open>SocialPost\<close> object as the code builds it. Nothing checks the decoded text at run
  time, so \<open>text\<close> is whatever value the response holds. \<open>hashtags\<close> is \<open>None\<close> when the
  object literal has no such key and \<open>Some v\<close> when it has the key with value \<open>v\<close>.\<close>

record SocialPost =
  platform :: Platform
  post_text :: jsval
  hashtags :: "jsval option"
  media :: Media

text \<open>\<open>Object.values(PLATFORMS)\<close>, in insertion order.\<close>

definition PLATFORMS :: "Platform list" where
  "PLATFORMS = [LinkedIn, Facebook, Twitter, Instagram]"

text \<open>constants.ts\<close>

fun PLATFORM_ASPECT_RATIOS :: "Platform \<Rightarrow> jstring" where
  "PLATFORM_ASPECT_RATIOS LinkedIn = js ''4:3''"
| "PLATFORM_ASPECT_RATIOS Facebook = js ''1:1''"
| "PLATFORM_ASPECT_RATIOS Twitter = js ''16:9''"
| "PLATFORM_ASPECT_RATIOS Instagram = js ''1:1''"

text \<open>api/generate.ts keeps its own copy of the table.\<close>

fun PLATFORM_ASPECT_RATIOS_api :: "Platform \<Rightarrow> jstring" where
  "PLATFORM_ASPECT_RATIOS_api LinkedIn = js ''1:1''"
| "PLATFORM_ASPECT_RATIOS_api Facebook = js ''1:1''"
| "PLATFORM_ASPECT_RATIOS_api Twitter = js ''16:9''"
| "PLATFORM_ASPECT_RATIOS_api Instagram = js ''1:1''"

record BrandVoice =
  websiteUrl :: jstring
  description :: jstring
  brand_keywords :: jstring
  phrasesToUse :: jstring
  phrasesToAvoid :: jstring

definition PNP_PIZZA_BRAND_VOICE :: BrandVoice where
  "PNP_PIZZA_BRAND_VOICE = \<lparr>
     websiteUrl = js ''https://pnpizza.com/'',
     description = js ''A family-owned neighborhood pizzeria in Natick, MA, serving authentic Italian food like pizza, subs, and pasta for over 40 years. The tone is friendly, welcoming, and focuses on fresh, quality ingredients and community.'',
     brand_keywords = js ''P&P Pizza, Natick MA, pizza, subs, pasta, authentic Italian, family-owned, fresh ingredients, homemade'',
     phrasesToUse = js ''Come on in!, Family-owned and operated, Authentic Italian recipes, Made with fresh, quality ingredients, Your neighborhood pizzeria, Daily specials'',
     phrasesToAvoid = js ''gourmet, artisanal, cheap, fast food, corporate jargon'' \<rparr>"

text \<open>The declared output schema (the same constant in both files).\<close>

datatype schema =
    STRING jstring
  | ARRAY schema jstring
  | OBJECT "(jstring \<times> schema) list" "jstring list"

definition responseSchema :: schema where
  "responseSchema = OBJECT
     [(js ''linkedin'', STRING (js ''A professional, long-form post for LinkedIn, including relevant hashtags.'')),
      (js ''facebook'', STRING (js ''An engaging post for Facebook, including relevant hashtags.'')),
      (js ''twitter'', STRING (js ''A short, punchy post for Twitter/X, under 280 characters, with hashtags.'')),
      (js ''instagram'', OBJECT
         [(js ''caption'', STRING (js ''A visually-focused caption for an Instagram post.'')),
          (js ''hashtags'', ARRAY (STRING []) (js ''An array of 3-5 relevant hashtags for Instagram, without the # symbol.'')),
          (js ''image_prompt'', STRING (js ''A detailed, creative prompt for an AI image generator to create a visually appealing image for this post.''))]
         [js ''caption'', js ''hashtags'', js ''image_prompt''])]
     [js ''linkedin'', js ''facebook'', js ''twitter'', js ''instagram'']"

fun media_type_str :: "media_type \<Rightarrow> jstring" where
  "media_type_str Image_type = js ''image''"
| "media_type_str Video_type = js ''video''"


section \<open>The provider and the requests sent to it\<close>

datatype part = Text jstring | InlineData jstring jsval

record content_request =
  model :: jstring
  parts :: "part list"
  responseMimeType :: jstring
  schema_of :: schema

record images_request =
  image_model :: jstring
  prompt :: jsval
  numberOfImages :: nat
  outputMimeType :: jstring
  aspectRatio :: jstring

text \<open>Modelled from the spec: the SDK's response types are not part of the sources. The spec
  says a text response is a JSON string and an image response carries base64 image bytes per
  call. The code reads \<open>textResult.text\<close> and \<open>res.generatedImages[0].image.imageBytes\<close>, and
  guards against a missing or empty \<open>generatedImages\<close>; every member is optional here, so a
  missing one is a branch of the model.\<close>

record sdk_image =
  imageBytes :: "jstring option"

record generated_image =
  image_of :: "sdk_image option"

record images_response =
  generatedImages :: "generated_image list option"

text \<open>The provider is a script of outcomes: what the text call settles with, what the
  \<open>i\<close>-th image call settles with (\<open>Inl\<close> a rejection), and the order in which the image
  calls settle, as the list of their indices (a call that is not listed settles after the
  listed ones, in index order). The requests are recorded as events, together with reads of
  the configured key.\<close>

record provider =
  generateContent :: "thrown + jstring option"
  generateImages :: "nat \<Rightarrow> thrown + images_response"
  settle_order :: "nat list"

datatype event =
    Read_key
  | Generate_content content_request
  | Generate_images images_request

text \<open>The argument of \<open>JSON.parse(textResult.text)\<close>: a missing text is converted to the string
  \<open>undefined\<close>.\<close>

definition response_text :: "jstring option \<Rightarrow> jstring" where
  "response_text t = (case t of None \<Rightarrow> js ''undefined'' | Some s \<Rightarrow> s)"

text \<open>The image requests among the recorded events, in the order they were issued.\<close>

fun image_requests :: "event list \<Rightarrow> images_request list" where
  "image_requests [] = []"
| "image_requests (Generate_images r # es) = r # image_requests es"
| "image_requests (_ # es) = image_requests es"

fun content_requests :: "event list \<Rightarrow> content_request list" where
  "content_requests [] = []"
| "content_requests (Generate_content r # es) = r # content_requests es"
| "content_requests (_ # es) = content_requests es"

text \<open>Sequencing of steps that may throw: the first \<open>Inl\<close> is the result.\<close>

definition bindE :: "'e + 'a \<Rightarrow> ('a \<Rightarrow> 'e + 'b) \<Rightarrow> 'e + 'b" where
  "bindE m f = (case m of Inl e \<Rightarrow> Inl e | Inr x \<Rightarrow> f x)"

text \<open>\<open>xs.map(f)\<close> for a callback that may throw: the elements are visited in index order
  and the first throw ends the loop.\<close>

fun mapE :: "('a \<Rightarrow> 'e + 'b) \<Rightarrow> 'a list \<Rightarrow> 'e + 'b list" where
  "mapE f [] = Inr []"
| "mapE f (x # xs) = bindE (f x) (\<lambda>y. bindE (mapE f xs) (\<lambda>ys. Inr (y # ys)))"

text \<open>\<open>await Promise.all(ps)\<close>: the list of results when every promise is fulfilled;
  otherwise the rejection of the promise that rejects first. \<open>order\<close> lists the promises
  by index in the order in which they settle; a promise that is not listed settles after
  the listed ones, in index order.\<close>

definition Promise_all :: "nat list \<Rightarrow> ('e + 'a) list \<Rightarrow> 'e + 'a list" where
  "Promise_all order ps =
     (case find (\<lambda>i. i < length ps \<and> isl (ps ! i)) order of
        Some i \<Rightarrow> (case ps ! i of Inl e \<Rightarrow> Inl e | Inr _ \<Rightarrow> mapE (\<lambda>p. p) ps)
      | None \<Rightarrow> mapE (\<lambda>p. p) ps)"


section \<open>Prompt builder\<close>

text \<open>services/geminiService.ts\<close>

definition buildPrompt :: "jstring \<Rightarrow> media_type option \<Rightarrow> jstring" where
  \<open>buildPrompt idea mediaType =
     (js ''You are the social media manager for P&P Pizza, a beloved family-owned pizzeria. Based on the following idea, generate social media posts for LinkedIn, Facebook, Twitter/X, and Instagram.'')
     @ (case mediaType of
          None \<Rightarrow> []
        | Some t \<Rightarrow> js ''\<newline>\<newline>A user-provided '' @ media_type_str t @ js '' is included. Analyze it carefully. The generated text content (captions, posts) MUST be directly related to and complementary to THIS specific '' @ media_type_str t @ js ''. The goal is to create text that would be posted alongside this '' @ media_type_str t @ js ''.'')
     @ js ''\<newline>    \<newline>    Idea: "'' @ idea @ js ''"\<newline>    ''
     @ js ''\<newline>\<newline>Adhere to the P&P Pizza brand voice guidelines strictly:''
     @ js ''\<newline>- **Primary Source for Brand Voice**: Analyze their website: "'' @ websiteUrl PNP_PIZZA_BRAND_VOICE @ js ''"''
     @ js ''\<newline>- **Brand Description**: '' @ description PNP_PIZZA_BRAND_VOICE
     @ js ''\<newline>- **Keywords to Include**: '' @ brand_keywords PNP_PIZZA_BRAND_VOICE
     @ js ''\<newline>- **Phrases to Use**: '' @ phrasesToUse PNP_PIZZA_BRAND_VOICE
     @ js ''\<newline>- **Phrases to Avoid**: '' @ phrasesToAvoid PNP_PIZZA_BRAND_VOICE
     @ (case mediaType of
          Some t \<Rightarrow> js ''\<newline>\<newline>For the 'image_prompt' field for Instagram, just return a brief, one-sentence description of the provided '' @ media_type_str t @ js ''. Do not generate a new image prompt.''
        | None \<Rightarrow> js ''\<newline>\<newline>For Instagram, create a compelling image generation prompt based on the core idea and brand voice. The image should look like authentic, delicious food from a classic neighborhood pizzeria.'')
     @ js ''\<newline>\<newline>Provide the output in the requested JSON format.''\<close>

text \<open>api/generate.ts: the same text, except that the line before the idea is empty here
  and holds four spaces in the service.\<close>

definition buildPrompt_api :: "jstring \<Rightarrow> media_type option \<Rightarrow> jstring" where
  \<open>buildPrompt_api idea mediaType =
     (js ''You are the social media manager for P&P Pizza, a beloved family-owned pizzeria. Based on the following idea, generate social media posts for LinkedIn, Facebook, Twitter/X, and Instagram.'')
     @ (case mediaType of
          None \<Rightarrow> []
        | Some t \<Rightarrow> js ''\<newline>\<newline>A user-provided '' @ media_type_str t @ js '' is included. Analyze it carefully. The generated text content (captions, posts) MUST be directly related to and complementary to THIS specific '' @ media_type_str t @ js ''. The goal is to create text that would be posted alongside this '' @ media_type_str t @ js ''.'')
     @ js ''\<newline>\<newline>    Idea: "'' @ idea @ js ''"\<newline>    ''
     @ js ''\<newline>\<newline>Adhere to the P&P Pizza brand voice guidelines strictly:''
     @ js ''\<newline>- **Primary Source for Brand Voice**: Analyze their website: "'' @ websiteUrl PNP_PIZZA_BRAND_VOICE @ js ''"''
     @ js ''\<newline>- **Brand Description**: '' @ description PNP_PIZZA_BRAND_VOICE
     @ js ''\<newline>- **Keywords to Include**: '' @ brand_keywords PNP_PIZZA_BRAND_VOICE
     @ js ''\<newline>- **Phrases to Use**: '' @ phrasesToUse PNP_PIZZA_BRAND_VOICE
     @ js ''\<newline>- **Phrases to Avoid**: '' @ phrasesToAvoid PNP_PIZZA_BRAND_VOICE
     @ (case mediaType of
          Some t \<Rightarrow> js ''\<newline>\<newline>For the 'image_prompt' field for Instagram, just return a brief, one-sentence description of the provided '' @ media_type_str t @ js ''. Do not generate a new image prompt.''
        | None \<Rightarrow> js ''\<newline>\<newline>For Instagram, create a compelling image generation prompt based on the core idea and brand voice. The image should look like authentic, delicious food from a classic neighborhood pizzeria.'')
     @ js ''\<newline>\<newline>Provide the output in the requested JSON format.''\<close>


section \<open>Result assembly (the same code in both paths)\<close>

text \<open>\<open>res => { if (!res.generatedImages || res.generatedImages.length === 0) throw ...;
  return `data:image/jpeg;base64,${res.generatedImages[0].image.imageBytes}` }\<close>\<close>

definition imageUrl :: "images_response \<Rightarrow> thrown + jstring" where
  "imageUrl res =
     (case generatedImages res of
        None \<Rightarrow> Inl (Error (js ''Image generation failed to return an image.''))
      | Some [] \<Rightarrow> Inl (Error (js ''Image generation failed to return an image.''))
      | Some (g # _) \<Rightarrow>
          (case image_of g of
             None \<Rightarrow> Inl TypeError
           | Some im \<Rightarrow>
               Inr (js ''data:image/jpeg;base64,''
                    @ (case imageBytes im of None \<Rightarrow> js ''undefined'' | Some b \<Rightarrow> b))))"

text \<open>\<open>textData.instagram.image_prompt || `A visually stunning image representing: ${idea}.`\<close>\<close>

definition imagePrompt :: "jsval \<Rightarrow> jstring \<Rightarrow> thrown + jsval" where
  "imagePrompt textData idea =
     bindE (getProp textData (js ''instagram'')) (\<lambda>ig.
     bindE (getProp ig (js ''image_prompt'')) (\<lambda>ip.
       Inr (if truthy ip then ip
            else JStr (js ''A visually stunning image representing: '' @ idea @ js ''.''))))"

text \<open>The array literal \<open>finalPosts\<close>; its members are evaluated in source order.\<close>

definition finalPosts :: "jsval \<Rightarrow> Media list \<Rightarrow> thrown + SocialPost list" where
  "finalPosts textData mediaData =
     bindE (getProp textData (js ''linkedin'')) (\<lambda>li.
     bindE (getProp textData (js ''facebook'')) (\<lambda>fb.
     bindE (getProp textData (js ''twitter'')) (\<lambda>tw.
     bindE (getProp textData (js ''instagram'')) (\<lambda>ig.
     bindE (getProp ig (js ''caption'')) (\<lambda>cap.
     bindE (getProp ig (js ''hashtags'')) (\<lambda>tags.
       Inr [\<lparr> platform = LinkedIn, post_text = li, hashtags = None, media = mediaData ! 0 \<rparr>,
            \<lparr> platform = Facebook, post_text = fb, hashtags = None, media = mediaData ! 1 \<rparr>,
            \<lparr> platform = Twitter, post_text = tw, hashtags = None, media = mediaData ! 2 \<rparr>,
            \<lparr> platform = Instagram, post_text = cap, hashtags = Some tags,
              media = mediaData ! 3 \<rparr>]))))))"

text \<open>\<open>Array(4).fill({ url: `data:${mimeType};base64,${base64}`, type })\<close>\<close>

definition uploadedMediaData :: "jstring \<Rightarrow> jstring \<Rightarrow> media_type \<Rightarrow> Media list" where
  "uploadedMediaData mime b64 t =
     replicate 4 \<lparr> url = js ''data:'' @ mime @ js '';base64,'' @ b64, type = t \<rparr>"

text \<open>\<open>imageResults.map(...)\<close> followed by \<open>imageUrls.map(url => ({ url, type: 'image' }))\<close>\<close>

definition generatedMediaData :: "images_response list \<Rightarrow> thrown + Media list" where
  "generatedMediaData imageResults =
     bindE (mapE imageUrl imageResults) (\<lambda>imageUrls.
       Inr (map (\<lambda>u. \<lparr> url = u, type = Image_type \<rparr>) imageUrls))"


section \<open>Direct-call mode (services/geminiService.ts)\<close>

text \<open>The module variable \<open>ai\<close> (the cached client, here the key it was created with) and
  the record of what was read and sent.\<close>

record world =
  ai :: "jstring option"
  events :: "event list"

record env =
  API_KEY :: "jstring option"

definition getAIClient :: "env \<Rightarrow> world \<Rightarrow> (thrown + jstring) \<times> world" where
  "getAIClient ev w =
     (case ai w of
        Some c \<Rightarrow> (Inr c, w)
      | None \<Rightarrow>
          (let w' = w\<lparr> events := events w @ [Read_key] \<rparr> in
           case API_KEY ev of
             None \<Rightarrow> (Inl (Error (js ''API key is not configured. Please set GEMINI_API_KEY in your environment.'')), w')
           | Some k \<Rightarrow>
               if k = [] then (Inl (Error (js ''API key is not configured. Please set GEMINI_API_KEY in your environment.'')), w')
               else (Inr k, w'\<lparr> ai := Some k \<rparr>)))"

text \<open>\<open>Object.values(PLATFORMS).map(platform => getAIClient().models.generateImages(...))\<close>:
  the calls are issued one after the other, the \<open>i\<close>-th promise settles as the script says.\<close>

fun imagePromises ::
  "env \<Rightarrow> provider \<Rightarrow> jsval \<Rightarrow> nat \<Rightarrow> Platform list \<Rightarrow> world
     \<Rightarrow> (thrown + (thrown + images_response) list) \<times> world" where
  "imagePromises ev P pr i [] w = (Inr [], w)"
| "imagePromises ev P pr i (p # ps) w =
     (case getAIClient ev w of
        (Inl e, w1) \<Rightarrow> (Inl e, w1)
      | (Inr c, w1) \<Rightarrow>
          (let w2 = w1\<lparr> events := events w1 @
                      [Generate_images \<lparr> image_model = js ''imagen-4.0-generate-001'', prompt = pr,
                         numberOfImages = 1, outputMimeType = js ''image/jpeg'',
                         aspectRatio = PLATFORM_ASPECT_RATIOS p \<rparr>] \<rparr> in
           case imagePromises ev P pr (Suc i) ps w2 of
             (Inl e, w3) \<Rightarrow> (Inl e, w3)
           | (Inr rs, w3) \<Rightarrow> (Inr (generateImages P i # rs), w3)))"

definition mediaType_of :: "UploadedMedia option \<Rightarrow> media_type option" where
  "mediaType_of uploadedMedia =
     (case uploadedMedia of
        None \<Rightarrow> None
      | Some m \<Rightarrow> Some (if startsWith (mimeType m) (js ''video'') then Video_type else Image_type))"

text \<open>The body of the \<open>try\<close> block.\<close>

definition generateSocialPosts_try ::
  "engine \<Rightarrow> env \<Rightarrow> provider \<Rightarrow> jstring \<Rightarrow> UploadedMedia option \<Rightarrow> world
     \<Rightarrow> (thrown + SocialPost list) \<times> world" where
  "generateSocialPosts_try E ev P idea uploadedMedia w =
     (let mediaType = mediaType_of uploadedMedia;
          textPrompt = buildPrompt idea mediaType;
          parts = (case uploadedMedia of
                     None \<Rightarrow> []
                   | Some m \<Rightarrow> [InlineData (mimeType m) (JStr (base64 m))]) @ [Text textPrompt]
      in
      case getAIClient ev w of
        (Inl e, w1) \<Rightarrow> (Inl e, w1)
      | (Inr c, w1) \<Rightarrow>
          (let w2 = w1\<lparr> events := events w1 @
                      [Generate_content \<lparr> model = js ''gemini-2.5-pro'', parts = parts,
                         responseMimeType = js ''application/json'',
                         schema_of = responseSchema \<rparr>] \<rparr> in
           case generateContent P of
             Inl e \<Rightarrow> (Inl e, w2)
           | Inr textResult \<Rightarrow>
               (case JSON_parse E (response_text textResult) of
                  Inl _ \<Rightarrow> (Inl SyntaxError, w2)
                | Inr textData \<Rightarrow>
                    (case uploadedMedia of
                       Some m \<Rightarrow>
                         (finalPosts textData
                            (uploadedMediaData (mimeType m) (base64 m)
                               (if startsWith (mimeType m) (js ''video'') then Video_type else Image_type)), w2)
                     | None \<Rightarrow>
                         (case imagePrompt textData idea of
                            Inl e \<Rightarrow> (Inl e, w2)
                          | Inr pr \<Rightarrow>
                              (case imagePromises ev P pr 0 PLATFORMS w2 of
                                 (Inl e, w3) \<Rightarrow> (Inl e, w3)
                               | (Inr promises, w3) \<Rightarrow>
                                   (bindE (Promise_all (settle_order P) promises) (\<lambda>imageResults.
                                    bindE (generatedMediaData imageResults) (\<lambda>mediaData.
                                      finalPosts textData mediaData)), w3)))))))"

text \<open>What the call rejects with: \<open>Failed_to_generate e\<close> is
  \<open>new Error(`Failed to generate content: ${e.message}`)\<close>, \<open>Unknown_failure\<close> is
  \<open>new Error('An unknown error occurred during content generation.')\<close>.\<close>

datatype failure = Failed_to_generate thrown | Unknown_failure

fun catch_wrap :: "thrown \<Rightarrow> failure" where
  "catch_wrap NonError = Unknown_failure"
| "catch_wrap e = Failed_to_generate e"

definition generateSocialPosts ::
  "engine \<Rightarrow> env \<Rightarrow> provider \<Rightarrow> jstring \<Rightarrow> UploadedMedia option \<Rightarrow> world
     \<Rightarrow> (failure + SocialPost list) \<times> world" where
  "generateSocialPosts E ev P idea uploadedMedia w =
     (case generateSocialPosts_try E ev P idea uploadedMedia w of
        (Inl e, w') \<Rightarrow> (Inl (catch_wrap e), w')
      | (Inr posts, w') \<Rightarrow> (Inr posts, w'))"


section \<open>Proxied mode (api/generate.ts)\<close>

record request =
  http_method :: jstring
  body :: jsval

record env_api =
  GEMINI_API_KEY :: "jstring option"

text \<open>What the handler passes to \<open>res.json\<close>: an error object, whose message is a literal
  or \<open>`Failed to generate content: ${errorMessage}`\<close> for a caught value, or the posts.
  \<open>No_body\<close> is \<open>res.end()\<close>.\<close>

datatype error_text = Message jstring | Failed_to_generate_content thrown

datatype sent = No_body | Error_json error_text | Posts_json "SocialPost list"

record response =
  headers :: "(jstring \<times> jstring) list"
  status :: nat
  sent_body :: sent

definition cors_headers :: "(jstring \<times> jstring) list" where
  "cors_headers =
     [(js ''Access-Control-Allow-Credentials'', js ''true''),
      (js ''Access-Control-Allow-Origin'', js ''*''),
      (js ''Access-Control-Allow-Methods'', js ''GET,OPTIONS,PATCH,DELETE,POST,PUT''),
      (js ''Access-Control-Allow-Headers'', js ''X-CSRF-Token, X-Requested-With, Accept, Accept-Version, Content-Length, Content-MD5, Content-Type, Date, X-Api-Version'')]"

definition respond :: "nat \<Rightarrow> sent \<Rightarrow> response" where
  "respond st b = \<lparr> headers = cors_headers, status = st, sent_body = b \<rparr>"

text \<open>\<open>ai.models.generateImages\<close> for each platform, with this file's table.\<close>

fun imagePromises_api ::
  "provider \<Rightarrow> jsval \<Rightarrow> nat \<Rightarrow> Platform list \<Rightarrow> event list
     \<Rightarrow> (thrown + images_response) list \<times> event list" where
  "imagePromises_api P pr i [] evs = ([], evs)"
| "imagePromises_api P pr i (p # ps) evs =
     (let evs2 = evs @
                   [Generate_images \<lparr> image_model = js ''imagen-4.0-generate-001'', prompt = pr,
                      numberOfImages = 1, outputMimeType = js ''image/jpeg'',
                      aspectRatio = PLATFORM_ASPECT_RATIOS_api p \<rparr>] in
      case imagePromises_api P pr (Suc i) ps evs2 of
        (rs, evs3) \<Rightarrow> (generateImages P i # rs, evs3))"

text \<open>The value of a template literal hole.\<close>

definition template_str :: "engine \<Rightarrow> jsval \<Rightarrow> jstring" where
  "template_str E v = (case v of JStr s \<Rightarrow> s | _ \<Rightarrow> ToString E v)"

text \<open>The part of the \<open>try\<close> block after the key check, with a fresh client. A truthy
  \<open>uploadedMedia\<close> whose \<open>mimeType\<close> is not a string has no \<open>startsWith\<close> to call, which
  throws a \<open>TypeError\<close>.\<close>

definition handler_generate ::
  "engine \<Rightarrow> provider \<Rightarrow> jstring \<Rightarrow> jsval \<Rightarrow> event list
     \<Rightarrow> (thrown + SocialPost list) \<times> event list" where
  "handler_generate E P idea uploadedMedia evs =
     (if truthy uploadedMedia then
        (case bindE (getProp uploadedMedia (js ''mimeType''))
                (\<lambda>mt. case mt of JStr s \<Rightarrow> Inr s | _ \<Rightarrow> Inl TypeError) of
           Inl e \<Rightarrow> (Inl e, evs)
         | Inr mime \<Rightarrow>
             (case getProp uploadedMedia (js ''base64'') of
                Inl e \<Rightarrow> (Inl e, evs)
              | Inr b64 \<Rightarrow>
                  (let mediaType = (if startsWith mime (js ''video'') then Video_type else Image_type);
                       textPrompt = buildPrompt_api idea (Some mediaType);
                       evs2 = evs @
                         [Generate_content \<lparr> model = js ''gemini-2.5-pro'',
                            parts = [InlineData mime b64, Text textPrompt],
                            responseMimeType = js ''application/json'',
                            schema_of = responseSchema \<rparr>]
                   in
                   case generateContent P of
                     Inl e \<Rightarrow> (Inl e, evs2)
                   | Inr textResult \<Rightarrow>
                       (case JSON_parse E (response_text textResult) of
                          Inl _ \<Rightarrow> (Inl SyntaxError, evs2)
                        | Inr textData \<Rightarrow>
                            (finalPosts textData
                               (uploadedMediaData mime (template_str E b64) mediaType), evs2)))))
      else
        (let textPrompt = buildPrompt_api idea None;
             evs2 = evs @
               [Generate_content \<lparr> model = js ''gemini-2.5-pro'', parts = [Text textPrompt],
                  responseMimeType = js ''application/json'', schema_of = responseSchema \<rparr>]
         in
         case generateContent P of
           Inl e \<Rightarrow> (Inl e, evs2)
         | Inr textResult \<Rightarrow>
             (case JSON_parse E (response_text textResult) of
                Inl _ \<Rightarrow> (Inl SyntaxError, evs2)
              | Inr textData \<Rightarrow>
                  (case imagePrompt textData idea of
                     Inl e \<Rightarrow> (Inl e, evs2)
                   | Inr pr \<Rightarrow>
                       (case imagePromises_api P pr 0 PLATFORMS evs2 of
                          (promises, evs3) \<Rightarrow>
                            (bindE (Promise_all (settle_order P) promises) (\<lambda>imageResults.
                             bindE (generatedMediaData imageResults) (\<lambda>mediaData.
                               finalPosts textData mediaData)), evs3))))))"

text \<open>The handler. \<open>body\<close> is \<open>req.body\<close> as the platform decoded it (\<open>JUndefined\<close> when the
  request has none); destructuring \<open>undefined\<close> or \<open>null\<close> throws inside the \<open>try\<close>.
  The test \<open>!idea || typeof idea !== 'string' || !idea.trim()\<close> holds for every value that
  is not a string, for the empty string and for a string that trims to the empty string.
  A caught value that is not an \<open>Error\<close> is reported with the message
  \<open>'An unknown error occurred'\<close>; \<open>Failed_to_generate_content NonError\<close> stands for it.\<close>

definition handler :: "engine \<Rightarrow> env_api \<Rightarrow> provider \<Rightarrow> request \<Rightarrow> response \<times> event list" where
  "handler E ev P req =
     (if http_method req = js ''OPTIONS'' then (respond 200 No_body, [])
      else if http_method req \<noteq> js ''POST'' then (respond 405 (Error_json (Message (js ''Method not allowed''))), [])
      else
        (case bindE (getProp (body req) (js ''idea'')) (\<lambda>idea.
              bindE (getProp (body req) (js ''uploadedMedia'')) (\<lambda>uploadedMedia.
                Inr (idea, uploadedMedia))) of
           Inl e \<Rightarrow> (respond 500 (Error_json (Failed_to_generate_content e)), [])
         | Inr (idea, uploadedMedia) \<Rightarrow>
             (case idea of
                JStr s \<Rightarrow>
                  if s = [] \<or> trim s = [] then
                    (respond 400 (Error_json (Message (js ''Idea is required''))), [])
                  else
                    (case GEMINI_API_KEY ev of
                       None \<Rightarrow> (respond 500 (Error_json (Message (js ''API key not configured on server''))), [Read_key])
                     | Some apiKey \<Rightarrow>
                         if apiKey = [] then
                           (respond 500 (Error_json (Message (js ''API key not configured on server''))), [Read_key])
                         else
                           (case handler_generate E P s uploadedMedia [Read_key] of
                              (Inl e, evs) \<Rightarrow> (respond 500 (Error_json (Failed_to_generate_content e)), evs)
                            | (Inr posts, evs) \<Rightarrow> (respond 200 (Posts_json posts), evs)))
              | _ \<Rightarrow> (respond 400 (Error_json (Message (js ''Idea is required''))), []))))"


section \<open>Example inputs\<close>

text \<open>A conforming response and a provider that returns one image per call, used to
  evaluate the definitions at concrete inputs.\<close>

definition example_text :: jstring where
  \<open>example_text = js ''{"linkedin":"L","facebook":"F","twitter":"T","instagram":{"caption":"C","hashtags":["pizza","natick","friday"],"image_prompt":"A pepperoni pizza"}}''\<close>

definition example_textData :: jsval where
  "example_textData = JObj
     [(js ''linkedin'', JStr (js ''L'')), (js ''facebook'', JStr (js ''F'')), (js ''twitter'', JStr (js ''T'')),
      (js ''instagram'', JObj
         [(js ''caption'', JStr (js ''C'')),
          (js ''hashtags'', JArr [JStr (js ''pizza''), JStr (js ''natick''), JStr (js ''friday'')]),
          (js ''image_prompt'', JStr (js ''A pepperoni pizza''))])]"

text \<open>A response that is valid JSON but lacks the required \<open>linkedin\<close> member.\<close>

definition example_text_no_linkedin :: jstring where
  \<open>example_text_no_linkedin = js ''{"facebook":"F","twitter":"T","instagram":{"caption":"C","hashtags":["pizza","natick","friday"],"image_prompt":"A pepperoni pizza"}}''\<close>

definition example_textData_no_linkedin :: jsval where
  "example_textData_no_linkedin = JObj
     [(js ''facebook'', JStr (js ''F'')), (js ''twitter'', JStr (js ''T'')),
      (js ''instagram'', JObj
         [(js ''caption'', JStr (js ''C'')),
          (js ''hashtags'', JArr [JStr (js ''pizza''), JStr (js ''natick''), JStr (js ''friday'')]),
          (js ''image_prompt'', JStr (js ''A pepperoni pizza''))])]"

text \<open>A response that is valid JSON and holds nothing but an empty \<open>instagram\<close> object.\<close>

definition example_text_bare :: jstring where
  \<open>example_text_bare = js ''{"instagram":{}}''\<close>

definition example_textData_bare :: jsval where
  "example_textData_bare = JObj [(js ''instagram'', JObj [])]"

text \<open>An engine that decodes the three example texts and rejects every other one.\<close>

definition example_engine :: engine where
  "example_engine =
     \<lparr> JSON_parse = (\<lambda>s. if s = example_text then Inr example_textData
                          else if s = example_text_no_linkedin then Inr example_textData_no_linkedin
                          else if s = example_text_bare then Inr example_textData_bare
                          else Inl ()),
       ToString = (\<lambda>v. (js ''null'')) \<rparr>"

definition example_image :: images_response where
  "example_image = \<lparr> generatedImages = Some [\<lparr> image_of = Some \<lparr> imageBytes = Some (js ''AAAA'') \<rparr> \<rparr>] \<rparr>"

definition example_provider :: provider where
  "example_provider = \<lparr> generateContent = Inr (Some example_text),
                         generateImages = (\<lambda>i. Inr example_image),
       settle_order = [0, 1, 2, 3] \<rparr>"

definition example_posts :: "SocialPost list" where
  "example_posts =
     [\<lparr> platform = LinkedIn, post_text = JStr (js ''L''), hashtags = None,
        media = \<lparr> url = js ''data:image/jpeg;base64,AAAA'', type = Image_type \<rparr> \<rparr>,
      \<lparr> platform = Facebook, post_text = JStr (js ''F''), hashtags = None,
        media = \<lparr> url = js ''data:image/jpeg;base64,AAAA'', type = Image_type \<rparr> \<rparr>,
      \<lparr> platform = Twitter, post_text = JStr (js ''T''), hashtags = None,
        media = \<lparr> url = js ''data:image/jpeg;base64,AAAA'', type = Image_type \<rparr> \<rparr>,
      \<lparr> platform = Instagram, post_text = JStr (js ''C''),
        hashtags = Some (JArr [JStr (js ''pizza''), JStr (js ''natick''), JStr (js ''friday'')]),
        media = \<lparr> url = js ''data:image/jpeg;base64,AAAA'', type = Image_type \<rparr> \<rparr>]"

definition example_request :: "jsval \<Rightarrow> request" where
  "example_request uploadedMedia =
     \<lparr> http_method = js ''POST'',
       body = JObj [(js ''idea'', JStr (js ''Friday pizza special'')), (js ''uploadedMedia'', uploadedMedia)] \<rparr>"

definition empty_image_provider :: provider where
  "empty_image_provider = \<lparr> generateContent = Inr (Some example_text),
      generateImages = (\<lambda>i. if i = 2 then Inr \<lparr> generatedImages = Some [] \<rparr> else Inr example_image),
      settle_order = [3, 2, 1, 0] \<rparr>"

definition example_media :: UploadedMedia where
  "example_media = \<lparr> base64 = js ''QUJD'', mimeType = js ''image/png'' \<rparr>"

definition example_video :: UploadedMedia where
  "example_video = \<lparr> base64 = js ''QUJD'', mimeType = js ''video/mp4'' \<rparr>"

definition example_world :: world where
  "example_world = \<lparr> ai = None, events = [] \<rparr>"

definition example_env :: env where
  "example_env = \<lparr> API_KEY = Some (js ''key'') \<rparr>"

definition example_media_posts :: "Media \<Rightarrow> SocialPost list" where
  "example_media_posts md =
     [\<lparr> platform = LinkedIn, post_text = JStr (js ''L''), hashtags = None, media = md \<rparr>,
      \<lparr> platform = Facebook, post_text = JStr (js ''F''), hashtags = None, media = md \<rparr>,
      \<lparr> platform = Twitter, post_text = JStr (js ''T''), hashtags = None, media = md \<rparr>,
      \<lparr> platform = Instagram, post_text = JStr (js ''C''),
        hashtags = Some (JArr [JStr (js ''pizza''), JStr (js ''natick''), JStr (js ''friday'')]), media = md \<rparr>]"

definition provider_no_linkedin :: provider where
  "provider_no_linkedin = \<lparr> generateContent = Inr (Some example_text_no_linkedin),
                             generateImages = (\<lambda>i. Inr example_image),
       settle_order = [0, 1, 2, 3] \<rparr>"

definition provider_bare :: provider where
  "provider_bare = \<lparr> generateContent = Inr (Some example_text_bare),
                      generateImages = (\<lambda>i. Inr example_image),
                      settle_order = [0, 1, 2, 3] \<rparr>"

definition provider_malformed :: provider where
  \<open>provider_malformed = \<lparr> generateContent = Inr (Some (js ''{"linkedin":'')),
                           generateImages = (\<lambda>i. Inr example_image),
       settle_order = [0, 1, 2, 3] \<rparr>\<close>

text \<open>services/apiService.ts: the body \<open>JSON.stringify({ idea, uploadedMedia })\<close> as the
  handler receives it.\<close>

definition api_body :: "jstring \<Rightarrow> UploadedMedia option \<Rightarrow> jsval" where
  "api_body idea uploadedMedia =
     JObj [(js ''idea'', JStr idea),
           (js ''uploadedMedia'',
              (case uploadedMedia of
                 None \<Rightarrow> JNull
               | Some m \<Rightarrow> JObj [(js ''base64'', JStr (base64 m)), (js ''mimeType'', JStr (mimeType m))]))]"


section \<open>JavaScript numbers\<close>

text \<open>
  A JavaScript number is an IEEE 754 double. The finite doubles are rationals, and an
  arithmetic operation returns the exact result rounded to the nearest double, ties to the
  one with an even significand. \<open>fl\<close> is this rounding for values of magnitude below \<open>2^53\<close>
  (all that occur here): the value is scaled by a power of two until it lies in
  \<open>[2^52, 2^53)\<close>, at most \<open>1074\<close> times (the subnormal range), rounded to an integer and
  scaled back.
\<close>

fun scale_up :: "nat \<Rightarrow> rat \<Rightarrow> nat \<Rightarrow> rat \<times> nat" where
  "scale_up 0 x k = (x, k)"
| "scale_up (Suc n) x k = (if 2 ^ 52 \<le> x then (x, k) else scale_up n (2 * x) (Suc k))"

definition round_half_even :: "rat \<Rightarrow> int" where
  "round_half_even y =
     (let f = \<lfloor>y\<rfloor>; d = y - of_int f in
      if d < 1 / 2 then f else if 1 / 2 < d then f + 1 else if even f then f else f + 1)"

definition fl_pos :: "rat \<Rightarrow> rat" where
  "fl_pos x = (case scale_up 1074 x 0 of (y, k) \<Rightarrow> of_int (round_half_even y) / 2 ^ k)"

definition fl :: "rat \<Rightarrow> rat" where
  "fl x = (if x = 0 then 0 else if x < 0 then - fl_pos (- x) else fl_pos x)"


section \<open>Media preparation (components/InputSection.tsx)\<close>

record File =
  file_size :: nat
  file_type :: jstring

text \<open>The state the component acts on: the \<open>uploadedMedia\<close> prop, kept by the parent and
  replaced through \<open>setUploadedMedia\<close>, and the record of the effects in call order.\<close>

datatype ui_event =
    Alert jstring
  | Set_uploaded_media UploadedMedia
  | Prevent_default

record ui_state =
  uploadedMedia :: "UploadedMedia option"
  ui_log :: "ui_event list"

definition alert :: "jstring \<Rightarrow> ui_state \<Rightarrow> ui_state" where
  "alert msg st = st\<lparr> ui_log := ui_log st @ [Alert msg] \<rparr>"

definition setUploadedMedia :: "UploadedMedia \<Rightarrow> ui_state \<Rightarrow> ui_state" where
  "setUploadedMedia m st =
     st\<lparr> uploadedMedia := Some m, ui_log := ui_log st @ [Set_uploaded_media m] \<rparr>"

text \<open>The browser is a parameter: what \<open>FileReader.readAsDataURL\<close> yields (\<open>None\<close> when
  reading fails), the size of the decoded image (\<open>None\<close> when \<open>img.onerror\<close> fires), whether
  \<open>getContext('2d')\<close> gives a context, and the data URL \<open>canvas.toDataURL('image/jpeg', q)\<close>
  for the image drawn on a canvas of the given size.\<close>

record browser =
  readAsDataURL :: "File \<Rightarrow> jstring option"
  loadImage :: "jstring \<Rightarrow> (nat \<times> nat) option"
  getContext2d :: bool
  toDataURL :: "jstring \<Rightarrow> nat \<times> nat \<Rightarrow> rat \<Rightarrow> jstring"

text \<open>\<open>s.split(',')\<close>\<close>

fun split_comma :: "jstring \<Rightarrow> jstring list" where
  "split_comma [] = [[]]"
| "split_comma (c # cs) =
     (if c = of_char (CHR '','') then [] # split_comma cs
      else (case split_comma cs of p # ps \<Rightarrow> (c # p) # ps | [] \<Rightarrow> [[c]]))"

text \<open>\<open>url.split(',')[1]\<close> for a data URL: the text after the first comma, up to the next
  one. A data URL always has a comma; for a string without one JavaScript gives
  \<open>undefined\<close>, which is outside what \<open>FileReader\<close> and \<open>toDataURL\<close> return and is
  represented by the empty string here.\<close>

definition payload :: "jstring \<Rightarrow> jstring" where
  "payload dataUrl = (case split_comma dataUrl of _ # p # _ \<Rightarrow> p | _ \<Rightarrow> [])"

definition MAX_DIMENSION :: rat where
  "MAX_DIMENSION = 2048"

definition TARGET_SIZE_MB :: rat where
  "TARGET_SIZE_MB = 10"

text \<open>The resize step: \<open>width\<close> and \<open>height\<close> after the \<open>if\<close>, as JavaScript numbers.\<close>

definition scaled_size :: "nat \<Rightarrow> nat \<Rightarrow> rat \<times> rat" where
  "scaled_size w h =
     (let width = of_nat w; height = of_nat h in
      if MAX_DIMENSION < width \<or> MAX_DIMENSION < height then
        (if height < width then (MAX_DIMENSION, fl (fl (height / width) * MAX_DIMENSION))
         else (fl (fl (width / height) * MAX_DIMENSION), MAX_DIMENSION))
      else (width, height))"

text \<open>\<open>canvas.width = width; canvas.height = height\<close>: the attributes are unsigned
  integers, the assignment drops the fraction (the values are at most \<open>2048\<close> or the
  image's own size).\<close>

definition canvas_size :: "nat \<Rightarrow> nat \<Rightarrow> nat \<times> nat" where
  "canvas_size w h = (case scaled_size w h of (width, height) \<Rightarrow> (nat \<lfloor>width\<rfloor>, nat \<lfloor>height\<rfloor>))"

text \<open>\<open>TARGET_SIZE_MB * 1024 * 1024 * 1.37\<close>, evaluated from the left.\<close>

definition size_limit :: rat where
  "size_limit = fl (fl (fl (TARGET_SIZE_MB * 1024) * 1024) * fl (137 / 100))"

text \<open>The \<open>while\<close> loop. \<open>encode q\<close> is \<open>canvas.toDataURL('image/jpeg', q).split(',')[1]\<close>.
  The result is the encoding kept, the quality it was made with and the number of times the
  body ran; \<open>None\<close> is a loop that does not end.\<close>

partial_function (option) reduce_quality ::
  "(rat \<Rightarrow> jstring) \<Rightarrow> rat \<Rightarrow> jstring \<Rightarrow> nat \<Rightarrow> (jstring \<times> rat \<times> nat) option" where
  "reduce_quality encode quality b64 n =
     (if size_limit < of_nat (length b64) \<and> 1 / 2 < quality then
        (let quality' = fl (quality - fl (1 / 10)) in
         reduce_quality encode quality' (encode quality') (Suc n))
      else Some (b64, quality, n))"

text \<open>How an awaited promise ends. \<open>Pending\<close>: it never settles.\<close>

datatype 'a settled = Resolved 'a | Rejected jstring | Pending

definition compressImage :: "browser \<Rightarrow> File \<Rightarrow> UploadedMedia settled" where
  "compressImage B file =
     (case readAsDataURL B file of
        None \<Rightarrow> Rejected (js ''Failed to read file'')
      | Some src \<Rightarrow>
          (case loadImage B src of
             None \<Rightarrow> Rejected (js ''Failed to load image'')
           | Some (w, h) \<Rightarrow>
               if \<not> getContext2d B then Rejected (js ''Could not get canvas context'')
               else
                 (let encode = (\<lambda>q. payload (toDataURL B src (canvas_size w h) q));
                      quality = fl (9 / 10)
                  in
                  case reduce_quality encode quality (encode quality) 0 of
                    None \<Rightarrow> Pending
                  | Some (b64, _, _) \<Rightarrow> Resolved \<lparr> base64 = b64, mimeType = js ''image/jpeg'' \<rparr>)))"

definition acceptedTypes :: "jstring list" where
  "acceptedTypes = [js ''image/png'', js ''image/jpeg'', js ''image/webp'', js ''image/heic'', js ''image/heif'',
                    (js ''video/mp4''), js ''video/webm'']"

text \<open>\<open>processFile\<close>, with the state after its callbacks have run. A failed read of a
  video leaves \<open>reader.result\<close> null, and the \<open>split\<close> in \<open>onloadend\<close> throws: nothing
  changes.\<close>

definition processFile :: "browser \<Rightarrow> File option \<Rightarrow> ui_state \<Rightarrow> ui_state" where
  "processFile B file st =
     (case file of
        None \<Rightarrow> st
      | Some f \<Rightarrow>
          if 100 * 1024 * 1024 < file_size f then
            alert (js ''File is too large. Please select a file under 100MB.'') st
          else if file_type f \<notin> set acceptedTypes then
            alert (js ''Unsupported file type: '' @ file_type f
                   @ js ''. Please use PNG, JPG, WEBP, HEIC, MP4, or WEBM.'') st
          else if startsWith (file_type f) (js ''image/'') then
            (case compressImage B f of
               Resolved compressed \<Rightarrow> setUploadedMedia compressed st
             | Rejected _ \<Rightarrow> alert (js ''Failed to process image. Please try a different file.'') st
             | Pending \<Rightarrow> st)
          else
            (case readAsDataURL B f of
               None \<Rightarrow> st
             | Some base64String \<Rightarrow>
                 setUploadedMedia \<lparr> base64 = payload base64String, mimeType = file_type f \<rparr> st))"

text \<open>The other variant of the component (the second \<open>InputSection\<close> in the sources): a
  20MB ceiling, no HEIC, no compression.\<close>

definition acceptedTypes_20MB :: "jstring list" where
  "acceptedTypes_20MB = [js ''image/png'', js ''image/jpeg'', js ''image/webp'', js ''video/mp4'', js ''video/webm'']"

definition processFile_20MB :: "browser \<Rightarrow> File option \<Rightarrow> ui_state \<Rightarrow> ui_state" where
  "processFile_20MB B file st =
     (case file of
        None \<Rightarrow> st
      | Some f \<Rightarrow>
          if 20 * 1024 * 1024 < file_size f then
            alert (js ''File is too large. Please select a file under 20MB.'') st
          else if file_type f \<notin> set acceptedTypes_20MB then
            alert (js ''Unsupported file type: '' @ file_type f
                   @ js ''. Please use PNG, JPG, WEBP, MP4, or WEBM.'') st
          else
            (case readAsDataURL B f of
               None \<Rightarrow> st
             | Some base64String \<Rightarrow>
                 setUploadedMedia \<lparr> base64 = payload base64String, mimeType = file_type f \<rparr> st))"

text \<open>An item of \<open>event.clipboardData.items\<close>.\<close>

record DataTransferItem =
  kind :: jstring
  item_type :: jstring
  getAsFile :: "File option"

text \<open>The \<open>for\<close> loop of \<open>handlePaste\<close>: the file of the first item, in index order, that is
  a file, has an image type and yields a file.\<close>

fun first_image_file :: "DataTransferItem list \<Rightarrow> File option" where
  "first_image_file [] = None"
| "first_image_file (item # items) =
     (if kind item = js ''file'' \<and> startsWith (item_type item) (js ''image/'') then
        (case getAsFile item of
           Some file \<Rightarrow> Some file
         | None \<Rightarrow> first_image_file items)
      else first_image_file items)"

text \<open>\<open>handlePaste\<close>; \<open>clipboardData\<close> is \<open>None\<close> when the event has none.\<close>

definition handlePaste ::
  "browser \<Rightarrow> bool \<Rightarrow> DataTransferItem list option \<Rightarrow> ui_state \<Rightarrow> ui_state" where
  "handlePaste B isLoading clipboardData st =
     (if isLoading then st
      else
        (case clipboardData of
           None \<Rightarrow> st
         | Some items \<Rightarrow>
             (case first_image_file items of
                None \<Rightarrow> st
              | Some file \<Rightarrow>
                  processFile B (Some file) (st\<lparr> ui_log := ui_log st @ [Prevent_default] \<rparr>))))"

text \<open>Counts the \<open>setUploadedMedia\<close> calls in a record of effects.\<close>

fun updates :: "ui_event list \<Rightarrow> nat" where
  "updates [] = 0"
| "updates (Set_uploaded_media _ # es) = Suc (updates es)"
| "updates (_ # es) = updates es"


section \<open>Example inputs for media preparation\<close>

text \<open>A browser that decodes every file as a 4000 by 3000 image and encodes it in four
  characters, files of several sizes and types, and an encoding that is still above the size
  target.\<close>

definition example_browser :: browser where
  "example_browser =
     \<lparr> readAsDataURL = (\<lambda>f. Some (js ''data:image/png;base64,QUJD'')),
       loadImage = (\<lambda>src. Some (4000, 3000)),
       getContext2d = True,
       toDataURL = (\<lambda>src dims q. (js ''data:image/jpeg;base64,SlBH'')) \<rparr>"

text \<open>A browser that decodes every file as an image of the given size, and whose encoder
  tells a canvas of the expected size from every other one.\<close>

definition sized_browser :: "nat \<times> nat \<Rightarrow> nat \<times> nat \<Rightarrow> browser" where
  "sized_browser image_size expected =
     \<lparr> readAsDataURL = (\<lambda>f. Some (js ''data:image/png;base64,QUJD'')),
       loadImage = (\<lambda>src. Some image_size),
       getContext2d = True,
       toDataURL = (\<lambda>src dims q. if dims = expected then js ''data:image/jpeg;base64,TUFUQ0g=''
                                else js ''data:image/jpeg;base64,T1RIRVI='') \<rparr>"

definition example_state :: ui_state where
  "example_state = \<lparr> uploadedMedia = Some example_media, ui_log = [] \<rparr>"

definition huge_file :: File where
  "huge_file = \<lparr> file_size = 200 * 1024 * 1024, file_type = js ''image/png'' \<rparr>"

definition medium_file :: File where
  "medium_file = \<lparr> file_size = 50 * 1024 * 1024, file_type = js ''image/png'' \<rparr>"

definition gif_file :: File where
  "gif_file = \<lparr> file_size = 1024, file_type = js ''image/gif'' \<rparr>"

definition png_file :: File where
  "png_file = \<lparr> file_size = 2048, file_type = js ''image/png'' \<rparr>"

definition jpeg_file :: File where
  "jpeg_file = \<lparr> file_size = 4096, file_type = js ''image/jpeg'' \<rparr>"

definition oversized :: jstring where
  "oversized = replicate 14365492 (of_char (CHR ''A''))"

definition png_item :: DataTransferItem where
  "png_item = \<lparr> kind = js ''file'', item_type = js ''image/png'', getAsFile = Some png_file \<rparr>"

definition jpeg_item :: DataTransferItem where
  "jpeg_item = \<lparr> kind = js ''file'', item_type = js ''image/jpeg'', getAsFile = Some jpeg_file \<rparr>"

text \<open>An image item whose \<open>getAsFile()\<close> gives \<open>null\<close>.\<close>

definition empty_png_item :: DataTransferItem where
  "empty_png_item = \<lparr> kind = js ''file'', item_type = js ''image/png'', getAsFile = None \<rparr>"

definition text_item :: DataTransferItem where
  "text_item = \<lparr> kind = js ''string'', item_type = js ''text/plain'', getAsFile = None \<rparr>"



section \<open>Properties\<close>

subsection \<open>Generation: what a successful call looks like\<close>

lemma js_eq_iff [simp]: "js a = js b \<longleftrightarrow> a = b"
  by (simp add: js_def inj_map_eq_map inj_of_char)

lemma js_Nil [simp]: "js [] = []"
  by (simp add: js_def)

lemma js_eq_Nil [simp]: "js s = [] \<longleftrightarrow> s = []" "[] = js s \<longleftrightarrow> s = []"
  by (auto simp: js_def)

lemma length_js [simp]: "length (js s) = length s"
  by (simp add: js_def)

lemma take_js [simp]: "take n (js s) = js (take n s)"
  by (simp add: js_def take_map)

lemma js_append: "js a @ js b = js (a @ b)" "js a @ js b @ r = js (a @ b) @ r"
  by (simp_all add: js_def)

lemma js_Cons: "js (c # cs) = of_char c # js cs"
  by (simp add: js_def)

lemma trim_example: "trim (js ''Friday pizza special'') \<noteq> []"
  by (simp add: trim_def isWhiteSpace_def js_def)

lemma trim_blank: "trim (js ''   '') = []"
  by (simp add: trim_def isWhiteSpace_def js_def)

lemma bindE_Inr: "bindE m f = Inr y \<longleftrightarrow> (\<exists>x. m = Inr x \<and> f x = Inr y)"
  by (cases m) (simp_all add: bindE_def)

lemma bindE_Inl: "bindE m f = Inl e \<longleftrightarrow> (m = Inl e \<or> (\<exists>x. m = Inr x \<and> f x = Inl e))"
  by (cases m) (simp_all add: bindE_def)

lemma finalPosts_Inr:
  "finalPosts td md = Inr posts \<longleftrightarrow>
     (\<exists>li fb tw ig cap tags.
        getProp td (js ''linkedin'') = Inr li \<and> getProp td (js ''facebook'') = Inr fb \<and>
        getProp td (js ''twitter'') = Inr tw \<and> getProp td (js ''instagram'') = Inr ig \<and>
        getProp ig (js ''caption'') = Inr cap \<and> getProp ig (js ''hashtags'') = Inr tags \<and>
        posts = [\<lparr> platform = LinkedIn, post_text = li, hashtags = None, media = md ! 0 \<rparr>,
            \<lparr> platform = Facebook, post_text = fb, hashtags = None, media = md ! 1 \<rparr>,
            \<lparr> platform = Twitter, post_text = tw, hashtags = None, media = md ! 2 \<rparr>,
            \<lparr> platform = Instagram, post_text = cap, hashtags = Some tags,
              media = md ! 3 \<rparr>])"
  unfolding finalPosts_def bindE_Inr by auto

lemma mapE_Inr: "mapE f xs = Inr ys \<longleftrightarrow> map f xs = map Inr ys"
  by (induction xs arbitrary: ys) (auto simp: bindE_Inr)

lemma Promise_all_Inr: "Promise_all order ps = Inr rs \<longleftrightarrow> ps = map Inr rs"
proof
  assume "Promise_all order ps = Inr rs"
  then have "mapE (\<lambda>p. p) ps = Inr rs"
    by (auto simp: Promise_all_def split: option.splits sum.splits)
  then show "ps = map Inr rs" by (simp add: mapE_Inr)
next
  assume ps: "ps = map Inr rs"
  then have "find (\<lambda>i. i < length ps \<and> isl (ps ! i)) order = None"
    by (simp add: find_None_iff)
  with ps show "Promise_all order ps = Inr rs"
    by (simp add: Promise_all_def mapE_Inr)
qed

text \<open>Of two rejections, the one that settles first is reported.\<close>

lemma Promise_all_order:
  "Promise_all [1, 0] [Inl a, Inl b] = Inl b" "Promise_all [0, 1] [Inl a, Inl b] = Inl a"
  by (simp_all add: Promise_all_def)

lemma imageUrl_Inr:
  "imageUrl r = Inr u \<Longrightarrow> generatedImages r \<noteq> None \<and> generatedImages r \<noteq> Some []"
  by (auto simp: imageUrl_def split: option.splits list.splits)

lemma mapE_imageUrl_Inr:
  "mapE imageUrl rs = Inr us \<Longrightarrow>
     length us = length rs \<and> (\<forall>r \<in> set rs. generatedImages r \<noteq> None \<and> generatedImages r \<noteq> Some [])"
proof (induction rs arbitrary: us)
  case Nil
  then show ?case by simp
next
  case (Cons r rs)
  from Cons.prems obtain u us' where u: "imageUrl r = Inr u" and us': "mapE imageUrl rs = Inr us'"
    and eq: "us = u # us'"
    by (auto simp: bindE_Inr)
  from Cons.IH [OF us'] imageUrl_Inr [OF u] eq show ?case by simp
qed

lemma generatedMediaData_Inr:
  "generatedMediaData rs = Inr md \<Longrightarrow>
     length md = length rs \<and> (\<forall>r \<in> set rs. generatedImages r \<noteq> None \<and> generatedImages r \<noteq> Some [])
     \<and> (\<forall>m \<in> set md. type m = Image_type)"
  unfolding generatedMediaData_def bindE_Inr
  using mapE_imageUrl_Inr by fastforce

lemma getAIClient_cached: "ai w = Some c \<Longrightarrow> getAIClient ev w = (Inr c, w)"
  by (simp add: getAIClient_def)

lemma getAIClient_Inr:
  "getAIClient ev w = (Inr c, w1) \<Longrightarrow>
     ai w1 = Some c \<and> (events w1 = events w \<or> events w1 = events w @ [Read_key])"
  by (auto simp: getAIClient_def Let_def split: option.splits if_splits)

lemma getAIClient_Inl:
  "getAIClient ev w = (Inl e, w1) \<Longrightarrow> events w1 = events w @ [Read_key]"
  by (auto simp: getAIClient_def Let_def split: option.splits if_splits)

lemma imagePromises_cached:
  "ai w = Some c \<Longrightarrow>
     imagePromises ev P pr i ps w =
       (Inr (map (generateImages P) [i ..< i + length ps]),
        w\<lparr> events := events w @ map (\<lambda>p. Generate_images \<lparr> image_model = js ''imagen-4.0-generate-001'', prompt = pr,
                         numberOfImages = 1, outputMimeType = js ''image/jpeg'',
                         aspectRatio = PLATFORM_ASPECT_RATIOS p \<rparr>) ps \<rparr>)"
proof (induction ps arbitrary: i w)
  case Nil
  then show ?case by simp
next
  case (Cons p ps)
  let ?w2 = "w\<lparr> events := events w @
                      [Generate_images \<lparr> image_model = js ''imagen-4.0-generate-001'', prompt = pr,
                         numberOfImages = 1, outputMimeType = js ''image/jpeg'',
                         aspectRatio = PLATFORM_ASPECT_RATIOS p \<rparr>] \<rparr>"
  have "ai ?w2 = Some c" using Cons.prems by simp
  moreover have "[i ..< Suc (i + length ps)] = i # [Suc i ..< Suc (i + length ps)]"
    by (rule upt_conv_Cons) simp
  ultimately show ?case
    using Cons.IH [of ?w2 "Suc i"] Cons.prems
    by (simp add: getAIClient_cached Let_def del: upt_Suc)
qed

lemma imagePromises_api_eq:
  "imagePromises_api P pr i ps evs =
       (map (generateImages P) [i ..< i + length ps],
        evs @ map (\<lambda>p. Generate_images \<lparr> image_model = js ''imagen-4.0-generate-001'', prompt = pr,
                         numberOfImages = 1, outputMimeType = js ''image/jpeg'',
                         aspectRatio = PLATFORM_ASPECT_RATIOS_api p \<rparr>) ps)"
proof (induction ps arbitrary: i evs)
  case Nil
  then show ?case by simp
next
  case (Cons p ps)
  have "[i ..< Suc (i + length ps)] = i # [Suc i ..< Suc (i + length ps)]"
    by (rule upt_conv_Cons) simp
  then show ?case
    by (simp add: Cons.IH Let_def del: upt_Suc)
qed

lemma example_direct:
  "fst (generateSocialPosts example_engine \<lparr> API_KEY = Some (js ''key'') \<rparr> example_provider
          (js ''Friday pizza special'') None \<lparr> ai = None, events = [] \<rparr>) = Inr example_posts"
  by (simp add: generateSocialPosts_def generateSocialPosts_try_def getAIClient_def Let_def
      example_engine_def example_provider_def response_text_def example_text_def
      example_textData_def imagePrompt_def bindE_def PLATFORMS_def Promise_all_def
      generatedMediaData_def imageUrl_def js_append example_image_def finalPosts_def example_posts_def
      mediaType_of_def)

lemma example_proxied:
  "fst (handler example_engine \<lparr> GEMINI_API_KEY = Some (js ''key'') \<rparr> example_provider
          (example_request JNull)) = respond 200 (Posts_json example_posts)"
  by (simp add: handler_def handler_generate_def Let_def example_request_def
      example_engine_def example_provider_def response_text_def example_text_def
      example_textData_def imagePrompt_def bindE_def PLATFORMS_def Promise_all_def
      generatedMediaData_def imageUrl_def js_append example_image_def finalPosts_def example_posts_def
      trim_example trim_blank)

lemma map_upt_eq:
  "map f [0 ..< n] = map g rs \<longleftrightarrow> length rs = n \<and> (\<forall>i < n. f i = g (rs ! i))"
  by (auto simp: list_eq_iff_nth_eq)

lemma length_PLATFORMS: "length PLATFORMS = 4"
  by (simp add: PLATFORMS_def)

lemma try_no_media_Inr:
  assumes "fst (generateSocialPosts_try E ev P idea None w) = Inr posts"
  shows "\<exists>t td rs md. generateContent P = Inr t \<and> JSON_parse E (response_text t) = Inr td \<and>
           length rs = 4 \<and> (\<forall>i < 4. generateImages P i = Inr (rs ! i)) \<and>
           generatedMediaData rs = Inr md \<and> finalPosts td md = Inr posts"
proof -
  obtain r1 w1 where g: "getAIClient ev w = (r1, w1)" by (cases "getAIClient ev w")
  show ?thesis
  proof (cases r1)
    case (Inl e)
    with g assms show ?thesis
      by (simp add: generateSocialPosts_try_def Let_def)
  next
    case (Inr c)
    with g have c: "ai w1 = Some c" using getAIClient_Inr by blast
    let ?w2 = "\<lambda>evs. w1\<lparr> events := events w1 @ evs \<rparr>"
    have c2: "\<And>evs. ai (?w2 evs) = Some c" using c by simp
    show ?thesis
      using assms g Inr
      by (auto simp: generateSocialPosts_try_def Let_def imagePromises_cached [OF c2]
          bindE_Inr Promise_all_Inr map_upt_eq length_PLATFORMS
          split: sum.splits option.splits prod.splits)
  qed
qed

lemma handler_no_media_Inr:
  assumes "\<not> truthy um" "fst (handler_generate E P idea um evs) = Inr posts"
  shows "\<exists>t td rs md. generateContent P = Inr t \<and> JSON_parse E (response_text t) = Inr td \<and>
           length rs = 4 \<and> (\<forall>i < 4. generateImages P i = Inr (rs ! i)) \<and>
           generatedMediaData rs = Inr md \<and> finalPosts td md = Inr posts"
  using assms
  by (auto simp: handler_generate_def Let_def imagePromises_api_eq
          bindE_Inr Promise_all_Inr map_upt_eq length_PLATFORMS
          split: sum.splits option.splits prod.splits)

lemma handler_posts:
  assumes "fst (handler E ev P req) = respond 200 (Posts_json posts)"
  shows "\<exists>s um evs. getProp (body req) (js ''idea'') = Inr (JStr s) \<and>
           getProp (body req) (js ''uploadedMedia'') = Inr um \<and>
           fst (handler_generate E P s um [Read_key]) = Inr posts"
  using assms
  by (auto simp: handler_def respond_def bindE_Inr
      split: if_splits sum.splits prod.splits jsval.splits option.splits)

lemma generate_fst:
  "fst (generateSocialPosts E ev P idea um w) = Inr posts \<longleftrightarrow>
   fst (generateSocialPosts_try E ev P idea um w) = Inr posts"
  by (auto simp: generateSocialPosts_def split: prod.splits sum.splits)

lemma finalPosts_shape:
  assumes "finalPosts td md = Inr posts"
  shows "\<exists>ig tags. getProp td (js ''instagram'') = Inr ig \<and> getProp ig (js ''hashtags'') = Inr tags \<and>
           map platform posts = [LinkedIn, Facebook, Twitter, Instagram] \<and>
           map hashtags posts = [None, None, None, Some tags] \<and>
           map media posts = [md ! 0, md ! 1, md ! 2, md ! 3]"
  using assms unfolding finalPosts_Inr by auto

text \<open>
  C1. A generation call without uploaded media that succeeds returns exactly four posts, for
  LinkedIn, Facebook, Twitter and Instagram in this order; the first three have no
  \<open>hashtags\<close> key, and the Instagram post carries the \<open>instagram.hashtags\<close> value of the
  decoded response. This holds for the direct call and for the proxy handler (a \<open>200\<close>
  answer to a request whose \<open>uploadedMedia\<close> is falsy).
\<close>

theorem C1_four_posts_in_platform_order:
  "(fst (generateSocialPosts E ev P idea None w) = Inr posts \<longrightarrow>
      (\<exists>t td ig tags.
         generateContent P = Inr t \<and> JSON_parse E (response_text t) = Inr td \<and>
         getProp td (js ''instagram'') = Inr ig \<and> getProp ig (js ''hashtags'') = Inr tags \<and>
         map platform posts = [LinkedIn, Facebook, Twitter, Instagram] \<and>
         map hashtags posts = [None, None, None, Some tags]))
   \<and>
   (fst (handler E ev' P req) = respond 200 (Posts_json posts') \<and>
    getProp (body req) (js ''uploadedMedia'') = Inr um \<and> \<not> truthy um \<longrightarrow>
      (\<exists>t td ig tags.
         generateContent P = Inr t \<and> JSON_parse E (response_text t) = Inr td \<and>
         getProp td (js ''instagram'') = Inr ig \<and> getProp ig (js ''hashtags'') = Inr tags \<and>
         map platform posts' = [LinkedIn, Facebook, Twitter, Instagram] \<and>
         map hashtags posts' = [None, None, None, Some tags]))"
proof (intro conjI impI)
  assume "fst (generateSocialPosts E ev P idea None w) = Inr posts"
  then have "fst (generateSocialPosts_try E ev P idea None w) = Inr posts"
    by (simp add: generate_fst)
  from try_no_media_Inr [OF this] obtain t td md where
    "generateContent P = Inr t" "JSON_parse E (response_text t) = Inr td"
    "finalPosts td md = Inr posts"
    by blast
  moreover from finalPosts_shape [OF this(3)] obtain ig tags where
    "getProp td (js ''instagram'') = Inr ig" "getProp ig (js ''hashtags'') = Inr tags"
    "map platform posts = [LinkedIn, Facebook, Twitter, Instagram]"
    "map hashtags posts = [None, None, None, Some tags]"
    by auto
  ultimately show "\<exists>t td ig tags.
         generateContent P = Inr t \<and> JSON_parse E (response_text t) = Inr td \<and>
         getProp td (js ''instagram'') = Inr ig \<and> getProp ig (js ''hashtags'') = Inr tags \<and>
         map platform posts = [LinkedIn, Facebook, Twitter, Instagram] \<and>
         map hashtags posts = [None, None, None, Some tags]"
    by auto
next
  assume a: "fst (handler E ev' P req) = respond 200 (Posts_json posts') \<and>
    getProp (body req) (js ''uploadedMedia'') = Inr um \<and> \<not> truthy um"
  from handler_posts [of E ev' P req posts'] a obtain s evs where
    "fst (handler_generate E P s um [Read_key]) = Inr posts'"
    by auto
  from handler_no_media_Inr [OF _ this] a obtain t td md where
    "generateContent P = Inr t" "JSON_parse E (response_text t) = Inr td"
    "finalPosts td md = Inr posts'"
    by blast
  moreover from finalPosts_shape [OF this(3)] obtain ig tags where
    "getProp td (js ''instagram'') = Inr ig" "getProp ig (js ''hashtags'') = Inr tags"
    "map platform posts' = [LinkedIn, Facebook, Twitter, Instagram]"
    "map hashtags posts' = [None, None, None, Some tags]"
    by auto
  ultimately show "\<exists>t td ig tags.
         generateContent P = Inr t \<and> JSON_parse E (response_text t) = Inr td \<and>
         getProp td (js ''instagram'') = Inr ig \<and> getProp ig (js ''hashtags'') = Inr tags \<and>
         map platform posts' = [LinkedIn, Facebook, Twitter, Instagram] \<and>
         map hashtags posts' = [None, None, None, Some tags]"
    by auto
qed

theorem C1_witness:
  "fst (generateSocialPosts example_engine \<lparr> API_KEY = Some (js ''key'') \<rparr> example_provider
          (js ''Friday pizza special'') None \<lparr> ai = None, events = [] \<rparr>) = Inr example_posts
   \<and> fst (handler example_engine \<lparr> GEMINI_API_KEY = Some (js ''key'') \<rparr> example_provider
          (example_request JNull)) = respond 200 (Posts_json example_posts)
   \<and> getProp (body (example_request JNull)) (js ''uploadedMedia'') = Inr JNull \<and> \<not> truthy JNull
   \<and> length example_posts = 4
   \<and> map platform example_posts = [LinkedIn, Facebook, Twitter, Instagram]
   \<and> map hashtags example_posts =
        [None, None, None, Some (JArr [JStr (js ''pizza''), JStr (js ''natick''), JStr (js ''friday'')])]"
proof -
  have d: "fst (generateSocialPosts example_engine \<lparr> API_KEY = Some (js ''key'') \<rparr> example_provider
          (js ''Friday pizza special'') None \<lparr> ai = None, events = [] \<rparr>) = Inr example_posts"
    by (rule example_direct)
  have p: "fst (handler example_engine \<lparr> GEMINI_API_KEY = Some (js ''key'') \<rparr> example_provider
          (example_request JNull)) = respond 200 (Posts_json example_posts)"
    by (rule example_proxied)
  have u: "getProp (body (example_request JNull)) (js ''uploadedMedia'') = Inr JNull \<and> \<not> truthy JNull"
    by (simp add: example_request_def)
  from C1_four_posts_in_platform_order
    [of example_engine "\<lparr> API_KEY = Some (js ''key'') \<rparr>" example_provider
        "js ''Friday pizza special''" "\<lparr> ai = None, events = [] \<rparr>" example_posts
        "\<lparr> GEMINI_API_KEY = Some (js ''key'') \<rparr>" "example_request JNull" example_posts JNull]
    d p u
  have "map platform example_posts = [LinkedIn, Facebook, Twitter, Instagram]"
    by blast
  moreover have "length example_posts = 4"
    and "map hashtags example_posts =
        [None, None, None, Some (JArr [JStr (js ''pizza''), JStr (js ''natick''), JStr (js ''friday'')])]"
    by (simp_all add: example_posts_def)
  ultimately show ?thesis using d p u by blast
qed


subsection \<open>Generation: empty image results\<close>

lemma no_images_not_Inr:
  assumes "i < 4" "generateImages P i = Inr r"
    "generatedImages r = None \<or> generatedImages r = Some []"
    "length rs = 4" "\<forall>i < 4. generateImages P i = Inr (rs ! i)"
  shows "generatedMediaData rs \<noteq> Inr md"
proof
  assume "generatedMediaData rs = Inr md"
  from generatedMediaData_Inr [OF this]
  have "\<forall>r \<in> set rs. generatedImages r \<noteq> None \<and> generatedImages r \<noteq> Some []" by simp
  moreover have "r = rs ! i" using assms(1,2,5) by auto
  then have "r \<in> set rs" using assms(1,4) by simp
  ultimately show False using assms(3) by blast
qed

lemma handler_POST_cases:
  assumes "http_method req = js ''POST''"
  shows "(\<exists>e. fst (handler E ev P req) = respond 400 (Error_json e))
       \<or> (\<exists>e. fst (handler E ev P req) = respond 500 (Error_json e))
       \<or> (\<exists>posts. fst (handler E ev P req) = respond 200 (Posts_json posts))"
  using assms
  by (auto simp: handler_def split: sum.splits prod.splits jsval.splits option.splits)

text \<open>
  C2. Without uploaded media, if one of the four image results holds no image
  (\<open>generatedImages\<close> missing or empty), the direct call rejects, and the proxy handler
  answers a \<open>POST\<close> with an error object and a status other than \<open>200\<close>: no post list,
  complete or partial, is returned.
\<close>

theorem C2_empty_image_result_fails:
  assumes "i < 4" and "generateImages P i = Inr r"
    and "generatedImages r = None \<or> generatedImages r = Some []"
  shows "isl (fst (generateSocialPosts E ev P idea None w))
    \<and> (http_method req = js ''POST'' \<and> getProp (body req) (js ''uploadedMedia'') = Inr um \<and> \<not> truthy um \<longrightarrow>
         status (fst (handler E ev' P req)) \<noteq> 200 \<and>
         (\<exists>e. sent_body (fst (handler E ev' P req)) = Error_json e))"
proof (intro conjI impI)
  show "isl (fst (generateSocialPosts E ev P idea None w))"
  proof (rule ccontr)
    assume "\<not> isl (fst (generateSocialPosts E ev P idea None w))"
    then obtain posts where "fst (generateSocialPosts E ev P idea None w) = Inr posts"
      by (cases "fst (generateSocialPosts E ev P idea None w)") auto
    then have "fst (generateSocialPosts_try E ev P idea None w) = Inr posts"
      by (simp add: generate_fst)
    from try_no_media_Inr [OF this] no_images_not_Inr [OF assms]
    show False by blast
  qed
next
  assume a: "http_method req = js ''POST'' \<and> getProp (body req) (js ''uploadedMedia'') = Inr um \<and> \<not> truthy um"
  have no: "fst (handler E ev' P req) \<noteq> respond 200 (Posts_json posts)" for posts
  proof
    assume "fst (handler E ev' P req) = respond 200 (Posts_json posts)"
    from handler_posts [OF this] a obtain s where
      "fst (handler_generate E P s um [Read_key]) = Inr posts"
      by auto
    from handler_no_media_Inr [OF _ this] a no_images_not_Inr [OF assms]
    show False by blast
  qed
  with handler_POST_cases [of req E ev' P] a
  show "status (fst (handler E ev' P req)) \<noteq> 200"
    by (auto simp: respond_def)
  from no handler_POST_cases [of req E ev' P] a
  show "\<exists>e. sent_body (fst (handler E ev' P req)) = Error_json e"
    by (auto simp: respond_def)
qed

theorem C2_witness:
  "(2::nat) < 4 \<and> generateImages empty_image_provider 2 = Inr \<lparr> generatedImages = Some [] \<rparr>
   \<and> http_method (example_request JNull) = js ''POST''
   \<and> getProp (body (example_request JNull)) (js ''uploadedMedia'') = Inr JNull \<and> \<not> truthy JNull
   \<and> fst (generateSocialPosts example_engine \<lparr> API_KEY = Some (js ''key'') \<rparr> empty_image_provider
          (js ''Friday pizza special'') None \<lparr> ai = None, events = [] \<rparr>)
       = Inl (Failed_to_generate (Error (js ''Image generation failed to return an image.'')))
   \<and> fst (handler example_engine \<lparr> GEMINI_API_KEY = Some (js ''key'') \<rparr> empty_image_provider
          (example_request JNull))
       = respond 500 (Error_json (Failed_to_generate_content
            (Error (js ''Image generation failed to return an image.''))))"
proof -
  have h: "(2::nat) < 4" "generateImages empty_image_provider 2 = Inr \<lparr> generatedImages = Some [] \<rparr>"
    "generatedImages \<lparr> generatedImages = Some [] \<rparr> = None \<or>
     generatedImages \<lparr> generatedImages = Some [] \<rparr> = Some []"
    by (simp_all add: empty_image_provider_def)
  have u: "http_method (example_request JNull) = js ''POST'' \<and>
     getProp (body (example_request JNull)) (js ''uploadedMedia'') = Inr JNull \<and> \<not> truthy JNull"
    by (simp add: example_request_def)
  note C2_empty_image_result_fails [OF h, of example_engine "\<lparr> API_KEY = Some (js ''key'') \<rparr>"
      "js ''Friday pizza special''" "\<lparr> ai = None, events = [] \<rparr>" "example_request JNull" JNull
      "\<lparr> GEMINI_API_KEY = Some (js ''key'') \<rparr>"]
  then have "isl (fst (generateSocialPosts example_engine \<lparr> API_KEY = Some (js ''key'') \<rparr> empty_image_provider
          (js ''Friday pizza special'') None \<lparr> ai = None, events = [] \<rparr>))" by blast
  moreover have "fst (generateSocialPosts example_engine \<lparr> API_KEY = Some (js ''key'') \<rparr> empty_image_provider
          (js ''Friday pizza special'') None \<lparr> ai = None, events = [] \<rparr>)
       = Inl (Failed_to_generate (Error (js ''Image generation failed to return an image.'')))"
    by (simp add: generateSocialPosts_def generateSocialPosts_try_def getAIClient_def Let_def
      example_engine_def empty_image_provider_def response_text_def example_text_def
      example_textData_def imagePrompt_def bindE_def PLATFORMS_def Promise_all_def
      generatedMediaData_def imageUrl_def js_append example_image_def finalPosts_def
      mediaType_of_def)
  moreover have "fst (handler example_engine \<lparr> GEMINI_API_KEY = Some (js ''key'') \<rparr> empty_image_provider
          (example_request JNull))
       = respond 500 (Error_json (Failed_to_generate_content
            (Error (js ''Image generation failed to return an image.''))))"
    by (simp add: handler_def handler_generate_def Let_def example_request_def
      example_engine_def empty_image_provider_def response_text_def example_text_def
      example_textData_def imagePrompt_def bindE_def PLATFORMS_def Promise_all_def
      generatedMediaData_def imageUrl_def js_append example_image_def finalPosts_def
      trim_example trim_blank)
  ultimately show ?thesis using h(1,2) u by blast
qed


subsection \<open>Generation: uploaded media\<close>

lemma image_requests_append: "image_requests (xs @ ys) = image_requests xs @ image_requests ys"
  by (induction xs rule: image_requests.induct) simp_all

lemma image_requests_map [simp]: "image_requests (map (\<lambda>p. Generate_images (f p)) ps) = map f ps"
  by (induction ps) simp_all

lemma content_requests_map [simp]: "content_requests (map (\<lambda>p. Generate_images (f p)) ps) = []"
  by (induction ps) simp_all

lemma getAIClient_image_requests:
  "getAIClient ev w = (r, w1) \<Longrightarrow> image_requests (events w1) = image_requests (events w)"
  by (auto simp: getAIClient_def Let_def image_requests_append split: option.splits if_splits)

lemma try_media:
  assumes "generateSocialPosts_try E ev P idea (Some m) w = (res, w')"
  shows "image_requests (events w') = image_requests (events w) \<and>
     (\<forall>posts. res = Inr posts \<longrightarrow>
        (\<exists>td. finalPosts td (uploadedMediaData (mimeType m) (base64 m)
                 (if startsWith (mimeType m) (js ''video'') then Video_type else Image_type)) = Inr posts))"
proof -
  obtain r1 w1 where g: "getAIClient ev w = (r1, w1)" by (cases "getAIClient ev w")
  from getAIClient_image_requests [OF g] assms g show ?thesis
    by (auto simp: generateSocialPosts_try_def Let_def image_requests_append
        split: sum.splits option.splits)
qed

text \<open>
  C3. A direct call with uploaded media issues no image request, and when it returns posts,
  each of the four carries the same media: the data URL
  \<open>data:<mimeType>;base64,<base64>\<close> of the upload, typed \<open>video\<close> exactly when the MIME type
  starts with \<open>video\<close> and \<open>image\<close> otherwise.
\<close>

theorem C3_uploaded_media_reused:
  assumes "generateSocialPosts E ev P idea (Some m) w = (res, w')"
  shows "image_requests (events w') = image_requests (events w) \<and>
     (\<forall>posts. res = Inr posts \<longrightarrow>
        map media posts =
          replicate 4 \<lparr> url = js ''data:'' @ mimeType m @ js '';base64,'' @ base64 m,
                        type = (if startsWith (mimeType m) (js ''video'') then Video_type else Image_type) \<rparr>)"
proof -
  obtain r0 w0 where t: "generateSocialPosts_try E ev P idea (Some m) w = (r0, w0)"
    by (cases "generateSocialPosts_try E ev P idea (Some m) w")
  with assms have w: "w' = w0" and r: "\<And>posts. res = Inr posts \<Longrightarrow> r0 = Inr posts"
    by (auto simp: generateSocialPosts_def split: sum.splits)
  from try_media [OF t] w have "image_requests (events w') = image_requests (events w)" by simp
  moreover have "map media posts =
          replicate 4 \<lparr> url = js ''data:'' @ mimeType m @ js '';base64,'' @ base64 m,
                        type = (if startsWith (mimeType m) (js ''video'') then Video_type else Image_type) \<rparr>"
    if "res = Inr posts" for posts
  proof -
    from try_media [OF t] r [OF that] obtain td where
      "finalPosts td (uploadedMediaData (mimeType m) (base64 m)
                 (if startsWith (mimeType m) (js ''video'') then Video_type else Image_type)) = Inr posts"
      by blast
    from finalPosts_shape [OF this] show ?thesis
      by (auto simp: uploadedMediaData_def numeral_eq_Suc)
  qed
  ultimately show ?thesis by blast
qed

lemma example_upload:
  "generateSocialPosts example_engine example_env example_provider (js ''Friday pizza special'')
        (Some example_media) example_world
   = (Inr (example_media_posts \<lparr> url = js ''data:image/png;base64,QUJD'', type = Image_type \<rparr>),
      \<lparr> ai = Some (js ''key''),
        events = [Read_key,
          Generate_content \<lparr> model = js ''gemini-2.5-pro'',
            parts = [InlineData (js ''image/png'') (JStr (js ''QUJD'')),
                     Text (buildPrompt (js ''Friday pizza special'') (Some Image_type))],
            responseMimeType = js ''application/json'', schema_of = responseSchema \<rparr>] \<rparr>)"
  by (simp add: generateSocialPosts_def generateSocialPosts_try_def getAIClient_def Let_def
      example_engine_def example_provider_def response_text_def example_text_def
      example_textData_def bindE_def finalPosts_def example_media_posts_def
      mediaType_of_def example_media_def example_world_def example_env_def
      uploadedMediaData_def js_append startsWith_def numeral_eq_Suc)

lemma example_upload_video:
  "generateSocialPosts example_engine example_env example_provider (js ''Friday pizza special'')
        (Some example_video) example_world
   = (Inr (example_media_posts \<lparr> url = js ''data:video/mp4;base64,QUJD'', type = Video_type \<rparr>),
      \<lparr> ai = Some (js ''key''),
        events = [Read_key,
          Generate_content \<lparr> model = js ''gemini-2.5-pro'',
            parts = [InlineData (js ''video/mp4'') (JStr (js ''QUJD'')),
                     Text (buildPrompt (js ''Friday pizza special'') (Some Video_type))],
            responseMimeType = js ''application/json'', schema_of = responseSchema \<rparr>] \<rparr>)"
  by (simp add: generateSocialPosts_def generateSocialPosts_try_def getAIClient_def Let_def
      example_engine_def example_provider_def response_text_def example_text_def
      example_textData_def bindE_def finalPosts_def example_media_posts_def
      mediaType_of_def example_video_def example_world_def example_env_def
      uploadedMediaData_def js_append startsWith_def numeral_eq_Suc)

theorem C3_witness:
  "fst (generateSocialPosts example_engine example_env example_provider (js ''Friday pizza special'')
        (Some example_media) example_world)
     = Inr (example_media_posts \<lparr> url = js ''data:image/png;base64,QUJD'', type = Image_type \<rparr>)
   \<and> fst (generateSocialPosts example_engine example_env example_provider (js ''Friday pizza special'')
        (Some example_video) example_world)
     = Inr (example_media_posts \<lparr> url = js ''data:video/mp4;base64,QUJD'', type = Video_type \<rparr>)
   \<and> map media (example_media_posts \<lparr> url = js ''data:image/png;base64,QUJD'', type = Image_type \<rparr>)
       = replicate 4 \<lparr> url = js ''data:image/png;base64,QUJD'', type = Image_type \<rparr>
   \<and> map media (example_media_posts \<lparr> url = js ''data:video/mp4;base64,QUJD'', type = Video_type \<rparr>)
       = replicate 4 \<lparr> url = js ''data:video/mp4;base64,QUJD'', type = Video_type \<rparr>
   \<and> image_requests (events (snd (generateSocialPosts example_engine example_env example_provider
        (js ''Friday pizza special'') (Some example_media) example_world))) = []"
proof -
  from C3_uploaded_media_reused [OF example_upload]
  have "map media (example_media_posts \<lparr> url = js ''data:image/png;base64,QUJD'', type = Image_type \<rparr>)
       = replicate 4 \<lparr> url = js ''data:'' @ mimeType example_media @ js '';base64,'' @ base64 example_media,
                        type = (if startsWith (mimeType example_media) (js ''video'') then Video_type else Image_type) \<rparr>"
    by blast
  then have i: "map media (example_media_posts \<lparr> url = js ''data:image/png;base64,QUJD'', type = Image_type \<rparr>)
       = replicate 4 \<lparr> url = js ''data:image/png;base64,QUJD'', type = Image_type \<rparr>"
    by (simp add: example_media_def startsWith_def js_append)
  from C3_uploaded_media_reused [OF example_upload_video]
  have "map media (example_media_posts \<lparr> url = js ''data:video/mp4;base64,QUJD'', type = Video_type \<rparr>)
       = replicate 4 \<lparr> url = js ''data:'' @ mimeType example_video @ js '';base64,'' @ base64 example_video,
                        type = (if startsWith (mimeType example_video) (js ''video'') then Video_type else Image_type) \<rparr>"
    by blast
  then have v: "map media (example_media_posts \<lparr> url = js ''data:video/mp4;base64,QUJD'', type = Video_type \<rparr>)
       = replicate 4 \<lparr> url = js ''data:video/mp4;base64,QUJD'', type = Video_type \<rparr>"
    by (simp add: example_video_def startsWith_def js_append)
  have n: "image_requests (events (snd (generateSocialPosts example_engine example_env
        example_provider (js ''Friday pizza special'') (Some example_media) example_world))) = []"
    by (simp add: example_upload)
  from i n v example_upload example_upload_video show ?thesis by simp
qed


subsection \<open>Generation: responses that cannot be decoded\<close>

lemma try_media_Inr:
  assumes "fst (generateSocialPosts_try E ev P idea (Some m) w) = Inr posts"
  shows "\<exists>t td md. generateContent P = Inr t \<and> JSON_parse E (response_text t) = Inr td \<and>
           finalPosts td md = Inr posts"
proof -
  obtain r1 w1 where g: "getAIClient ev w = (r1, w1)" by (cases "getAIClient ev w")
  with assms show ?thesis
    by (auto simp: generateSocialPosts_try_def Let_def split: sum.splits option.splits)
qed

lemma try_Inr:
  assumes "fst (generateSocialPosts_try E ev P idea um w) = Inr posts"
  shows "\<exists>t td md. generateContent P = Inr t \<and> JSON_parse E (response_text t) = Inr td \<and>
           finalPosts td md = Inr posts"
proof (cases um)
  case None
  with try_no_media_Inr [of E ev P idea w posts] assms show ?thesis by blast
next
  case (Some m)
  with try_media_Inr [of E ev P idea m w posts] assms show ?thesis by blast
qed

text \<open>
  C5, as stated, fails: a response that is valid JSON but lacks the required \<open>linkedin\<close>
  member is not refused. The call returns four posts, the first with an undefined text.
\<close>

theorem C5_counterexample:
  "getProp example_textData_no_linkedin (js ''linkedin'') = Inr JUndefined \<and>
   fst (generateSocialPosts example_engine example_env provider_no_linkedin
          (js ''Friday pizza special'') None example_world) =
     Inr [\<lparr> platform = LinkedIn, post_text = JUndefined, hashtags = None,
            media = \<lparr> url = js ''data:image/jpeg;base64,AAAA'', type = Image_type \<rparr> \<rparr>,
          \<lparr> platform = Facebook, post_text = JStr (js ''F''), hashtags = None,
            media = \<lparr> url = js ''data:image/jpeg;base64,AAAA'', type = Image_type \<rparr> \<rparr>,
          \<lparr> platform = Twitter, post_text = JStr (js ''T''), hashtags = None,
            media = \<lparr> url = js ''data:image/jpeg;base64,AAAA'', type = Image_type \<rparr> \<rparr>,
          \<lparr> platform = Instagram, post_text = JStr (js ''C''),
            hashtags = Some (JArr [JStr (js ''pizza''), JStr (js ''natick''), JStr (js ''friday'')]),
            media = \<lparr> url = js ''data:image/jpeg;base64,AAAA'', type = Image_type \<rparr> \<rparr>]"
  by (simp add: generateSocialPosts_def generateSocialPosts_try_def getAIClient_def Let_def
      example_engine_def provider_no_linkedin_def response_text_def example_text_def
      example_text_no_linkedin_def example_textData_no_linkedin_def
      imagePrompt_def bindE_def PLATFORMS_def Promise_all_def
      generatedMediaData_def imageUrl_def js_append example_image_def finalPosts_def
      mediaType_of_def example_env_def example_world_def)

lemma getProp_defined: "v \<noteq> JUndefined \<Longrightarrow> v \<noteq> JNull \<Longrightarrow> \<exists>x. getProp v p = Inr x"
  by (cases v) simp_all

lemma getProp_Inr_defined: "getProp v p = Inr x \<Longrightarrow> v \<noteq> JUndefined \<and> v \<noteq> JNull"
  by (cases v) simp_all

lemma finalPosts_ok:
  assumes "getProp td (js ''instagram'') = Inr ig" and "ig \<noteq> JUndefined" and "ig \<noteq> JNull"
  shows "\<exists>li fb tw cap tags ip.
           getProp td (js ''linkedin'') = Inr li \<and> getProp td (js ''facebook'') = Inr fb \<and>
           getProp td (js ''twitter'') = Inr tw \<and> getProp ig (js ''caption'') = Inr cap \<and>
           getProp ig (js ''hashtags'') = Inr tags \<and> getProp ig (js ''image_prompt'') = Inr ip \<and>
           (\<forall>md. finalPosts td md =
              Inr [\<lparr> platform = LinkedIn, post_text = li, hashtags = None, media = md ! 0 \<rparr>,
                   \<lparr> platform = Facebook, post_text = fb, hashtags = None, media = md ! 1 \<rparr>,
                   \<lparr> platform = Twitter, post_text = tw, hashtags = None, media = md ! 2 \<rparr>,
                   \<lparr> platform = Instagram, post_text = cap, hashtags = Some tags,
                     media = md ! 3 \<rparr>]) \<and>
           imagePrompt td idea =
             Inr (if truthy ip then ip
                  else JStr (js ''A visually stunning image representing: '' @ idea @ js ''.''))"
proof -
  from getProp_Inr_defined [OF assms(1)] have td: "td \<noteq> JUndefined" "td \<noteq> JNull" by simp_all
  from getProp_defined [OF td] obtain li where li: "getProp td (js ''linkedin'') = Inr li" by blast
  from getProp_defined [OF td] obtain fb where fb: "getProp td (js ''facebook'') = Inr fb" by blast
  from getProp_defined [OF td] obtain tw where tw: "getProp td (js ''twitter'') = Inr tw" by blast
  from getProp_defined [OF assms(2,3)] obtain cap where cap: "getProp ig (js ''caption'') = Inr cap" by blast
  from getProp_defined [OF assms(2,3)] obtain tags where tags: "getProp ig (js ''hashtags'') = Inr tags" by blast
  from getProp_defined [OF assms(2,3)] obtain ip where ip: "getProp ig (js ''image_prompt'') = Inr ip" by blast
  from li fb tw cap tags ip assms(1) show ?thesis
    by (simp add: finalPosts_def imagePrompt_def bindE_def)
qed

lemma mapE_imageUrl_ok:
  assumes "\<forall>r \<in> set rs. \<exists>g gs im. generatedImages r = Some (g # gs) \<and> image_of g = Some im"
  shows "\<exists>us. mapE imageUrl rs = Inr us"
  using assms
proof (induction rs)
  case Nil
  then show ?case by simp
next
  case (Cons r rs)
  then obtain us where "mapE imageUrl rs = Inr us" by auto
  moreover from Cons.prems obtain u where "imageUrl r = Inr u"
    by (auto simp: imageUrl_def)
  ultimately show ?case by (simp add: bindE_def)
qed

lemma getAIClient_ready:
  assumes "ai w \<noteq> None \<or> (\<exists>k. API_KEY ev = Some k \<and> k \<noteq> [])"
  shows "\<exists>c w1. getAIClient ev w = (Inr c, w1) \<and> ai w1 = Some c \<and>
           image_requests (events w1) = image_requests (events w)"
  using assms
  by (auto simp: getAIClient_def Let_def image_requests_append split: option.splits)

lemma try_media_ok:
  assumes key: "ai w \<noteq> None \<or> (\<exists>k. API_KEY ev = Some k \<and> k \<noteq> [])"
    and t: "generateContent P = Inr t" and td: "JSON_parse E (response_text t) = Inr td"
  shows "\<exists>md. fst (generateSocialPosts_try E ev P idea (Some m) w) = finalPosts td md"
proof -
  from getAIClient_ready [OF key] obtain c w1 where "getAIClient ev w = (Inr c, w1)" by blast
  with t td show ?thesis
    by (simp add: generateSocialPosts_try_def Let_def) blast
qed

lemma try_no_media_ok:
  assumes key: "ai w \<noteq> None \<or> (\<exists>k. API_KEY ev = Some k \<and> k \<noteq> [])"
    and t: "generateContent P = Inr t" and td: "JSON_parse E (response_text t) = Inr td"
    and pr: "imagePrompt td idea = Inr pr"
    and im: "\<forall>i < 4. \<exists>r g gs im. generateImages P i = Inr r \<and> generatedImages r = Some (g # gs) \<and>
                image_of g = Some im"
  shows "\<exists>md w'. generateSocialPosts_try E ev P idea None w = (finalPosts td md, w') \<and>
           map prompt (image_requests (events w')) =
             map prompt (image_requests (events w)) @ replicate 4 pr"
proof -
  from getAIClient_ready [OF key] obtain c w1 where
    g: "getAIClient ev w = (Inr c, w1)" and c: "ai w1 = Some c"
    and i1: "image_requests (events w1) = image_requests (events w)" by blast
  have c2: "\<And>evs. ai (w1\<lparr> events := events w1 @ evs \<rparr>) = Some c" using c by simp
  define rs where "rs = map (\<lambda>i. projr (generateImages P i)) [0 ..< 4]"
  have ps: "map (generateImages P) [0 ..< 4] = map Inr rs"
    unfolding rs_def using im by (auto simp: map_upt_eq)
  have "\<forall>r \<in> set rs. \<exists>g gs im. generatedImages r = Some (g # gs) \<and> image_of g = Some im"
    unfolding rs_def using im by auto
  from mapE_imageUrl_ok [OF this] obtain us where us: "mapE imageUrl rs = Inr us" by blast
  have pa: "Promise_all (settle_order P) (map (generateImages P) [0 ..< 4]) = Inr rs"
    by (simp only: ps Promise_all_Inr)
  show ?thesis
    using g t td pr pa us i1
    by (simp add: generateSocialPosts_try_def Let_def imagePromises_cached [OF c2]
        length_PLATFORMS generatedMediaData_def bindE_def image_requests_append
        map_replicate_const o_def mediaType_of_def) blast
qed

text \<open>
  C5, amended. The call fails as a whole when the response text is not valid JSON
  (\<open>JSON.parse\<close> throws), when the decoded value is \<open>null\<close>, and when its \<open>instagram\<close> member
  is missing or \<open>null\<close>. Nothing else in the response is checked: when the text decodes to a
  value whose \<open>instagram\<close> member is neither missing nor \<open>null\<close>, a key is configured and,
  without an upload, each of the four image results holds an image, the call returns four
  posts whose texts and hashtags are the values found under \<open>linkedin\<close>, \<open>facebook\<close>,
  \<open>twitter\<close>, \<open>instagram.caption\<close> and \<open>instagram.hashtags\<close> (\<open>undefined\<close> for a member that
  is missing), and an \<open>instagram.image_prompt\<close> that is missing or falsy is replaced by the
  default prompt in each of the four image requests.
\<close>

theorem C5_undecodable_response_fails:
  assumes "generateContent P = Inr t"
  shows "(JSON_parse E (response_text t) = Inl u \<or>
          (\<exists>td. JSON_parse E (response_text t) = Inr td \<and>
                (td = JUndefined \<or> td = JNull \<or>
                 getProp td (js ''instagram'') = Inr JUndefined \<or>
                 getProp td (js ''instagram'') = Inr JNull))
            \<longrightarrow> isl (fst (generateSocialPosts E ev P idea um w)))
    \<and> (JSON_parse E (response_text t) = Inr td \<and>
        getProp td (js ''instagram'') = Inr ig \<and> ig \<noteq> JUndefined \<and> ig \<noteq> JNull \<and>
        (ai w \<noteq> None \<or> (\<exists>k. API_KEY ev = Some k \<and> k \<noteq> [])) \<and>
        (um = None \<longrightarrow>
           (\<forall>i < 4. \<exists>r g gs im. generateImages P i = Inr r \<and>
                       generatedImages r = Some (g # gs) \<and> image_of g = Some im))
          \<longrightarrow> (\<exists>li fb tw cap tags ip posts w'.
                 getProp td (js ''linkedin'') = Inr li \<and> getProp td (js ''facebook'') = Inr fb \<and>
                 getProp td (js ''twitter'') = Inr tw \<and> getProp ig (js ''caption'') = Inr cap \<and>
                 getProp ig (js ''hashtags'') = Inr tags \<and>
                 getProp ig (js ''image_prompt'') = Inr ip \<and>
                 generateSocialPosts E ev P idea um w = (Inr posts, w') \<and>
                 map platform posts = [LinkedIn, Facebook, Twitter, Instagram] \<and>
                 map post_text posts = [li, fb, tw, cap] \<and>
                 map hashtags posts = [None, None, None, Some tags] \<and>
                 (um = None \<longrightarrow>
                    map prompt (image_requests (events w')) =
                      map prompt (image_requests (events w)) @
                      replicate 4 (if truthy ip then ip
                                   else JStr (js ''A visually stunning image representing: ''
                                              @ idea @ js ''.'')))))"
proof (intro conjI impI)
  assume bad: "JSON_parse E (response_text t) = Inl u \<or>
          (\<exists>td. JSON_parse E (response_text t) = Inr td \<and>
                (td = JUndefined \<or> td = JNull \<or>
                 getProp td (js ''instagram'') = Inr JUndefined \<or>
                 getProp td (js ''instagram'') = Inr JNull))"
  show "isl (fst (generateSocialPosts E ev P idea um w))"
  proof (rule ccontr)
    assume "\<not> isl (fst (generateSocialPosts E ev P idea um w))"
    then obtain posts where "fst (generateSocialPosts E ev P idea um w) = Inr posts"
      by (cases "fst (generateSocialPosts E ev P idea um w)") auto
    then have "fst (generateSocialPosts_try E ev P idea um w) = Inr posts"
      by (simp add: generate_fst)
    from try_Inr [OF this] assms obtain td md where
      td: "JSON_parse E (response_text t) = Inr td" and fp: "finalPosts td md = Inr posts"
      by auto
    from finalPosts_shape [OF fp] obtain ig tags where
      ig: "getProp td (js ''instagram'') = Inr ig" "getProp ig (js ''hashtags'') = Inr tags"
      by blast
    then have "td \<noteq> JUndefined" "td \<noteq> JNull" "ig \<noteq> JUndefined" "ig \<noteq> JNull"
      by auto
    with bad td ig show False by auto
  qed
next
  assume good: "JSON_parse E (response_text t) = Inr td \<and>
        getProp td (js ''instagram'') = Inr ig \<and> ig \<noteq> JUndefined \<and> ig \<noteq> JNull \<and>
        (ai w \<noteq> None \<or> (\<exists>k. API_KEY ev = Some k \<and> k \<noteq> [])) \<and>
        (um = None \<longrightarrow>
           (\<forall>i < 4. \<exists>r g gs im. generateImages P i = Inr r \<and>
                       generatedImages r = Some (g # gs) \<and> image_of g = Some im))"
  then have td: "JSON_parse E (response_text t) = Inr td"
    and key: "ai w \<noteq> None \<or> (\<exists>k. API_KEY ev = Some k \<and> k \<noteq> [])"
    by simp_all
  from good finalPosts_ok [of td ig idea] obtain li fb tw cap tags ip where
    props: "getProp td (js ''linkedin'') = Inr li" "getProp td (js ''facebook'') = Inr fb"
      "getProp td (js ''twitter'') = Inr tw" "getProp ig (js ''caption'') = Inr cap"
      "getProp ig (js ''hashtags'') = Inr tags" "getProp ig (js ''image_prompt'') = Inr ip"
    and fp: "\<And>md. finalPosts td md =
              Inr [\<lparr> platform = LinkedIn, post_text = li, hashtags = None, media = md ! 0 \<rparr>,
                   \<lparr> platform = Facebook, post_text = fb, hashtags = None, media = md ! 1 \<rparr>,
                   \<lparr> platform = Twitter, post_text = tw, hashtags = None, media = md ! 2 \<rparr>,
                   \<lparr> platform = Instagram, post_text = cap, hashtags = Some tags,
                     media = md ! 3 \<rparr>]"
    and pr: "imagePrompt td idea =
             Inr (if truthy ip then ip
                  else JStr (js ''A visually stunning image representing: '' @ idea @ js ''.''))"
    by blast
  have "\<exists>posts w'. generateSocialPosts E ev P idea um w = (Inr posts, w') \<and>
                 map platform posts = [LinkedIn, Facebook, Twitter, Instagram] \<and>
                 map post_text posts = [li, fb, tw, cap] \<and>
                 map hashtags posts = [None, None, None, Some tags] \<and>
                 (um = None \<longrightarrow>
                    map prompt (image_requests (events w')) =
                      map prompt (image_requests (events w)) @
                      replicate 4 (if truthy ip then ip
                                   else JStr (js ''A visually stunning image representing: ''
                                              @ idea @ js ''.'')))"
  proof (cases um)
    case None
    with good have im: "\<forall>i < 4. \<exists>r g gs im. generateImages P i = Inr r \<and>
                       generatedImages r = Some (g # gs) \<and> image_of g = Some im"
      by blast
    from try_no_media_ok [OF key assms td pr im] obtain md w' where
      "generateSocialPosts_try E ev P idea None w = (finalPosts td md, w')"
      "map prompt (image_requests (events w')) =
             map prompt (image_requests (events w)) @
             replicate 4 (if truthy ip then ip
                  else JStr (js ''A visually stunning image representing: '' @ idea @ js ''.''))"
      by blast
    with None show ?thesis
      by (simp add: generateSocialPosts_def fp)
  next
    case (Some m)
    from try_media_ok [OF key assms td, of idea m] obtain md where
      "fst (generateSocialPosts_try E ev P idea (Some m) w) = finalPosts td md"
      by blast
    with Some show ?thesis
      by (cases "generateSocialPosts_try E ev P idea (Some m) w")
         (simp add: generateSocialPosts_def fp)
  qed
  then obtain posts w' where
    r: "generateSocialPosts E ev P idea um w = (Inr posts, w')"
      "map platform posts = [LinkedIn, Facebook, Twitter, Instagram]"
      "map post_text posts = [li, fb, tw, cap]"
      "map hashtags posts = [None, None, None, Some tags]"
      "um = None \<longrightarrow>
                    map prompt (image_requests (events w')) =
                      map prompt (image_requests (events w)) @
                      replicate 4 (if truthy ip then ip
                                   else JStr (js ''A visually stunning image representing: ''
                                              @ idea @ js ''.''))"
    by auto
  show "\<exists>li fb tw cap tags ip posts w'.
                 getProp td (js ''linkedin'') = Inr li \<and> getProp td (js ''facebook'') = Inr fb \<and>
                 getProp td (js ''twitter'') = Inr tw \<and> getProp ig (js ''caption'') = Inr cap \<and>
                 getProp ig (js ''hashtags'') = Inr tags \<and>
                 getProp ig (js ''image_prompt'') = Inr ip \<and>
                 generateSocialPosts E ev P idea um w = (Inr posts, w') \<and>
                 map platform posts = [LinkedIn, Facebook, Twitter, Instagram] \<and>
                 map post_text posts = [li, fb, tw, cap] \<and>
                 map hashtags posts = [None, None, None, Some tags] \<and>
                 (um = None \<longrightarrow>
                    map prompt (image_requests (events w')) =
                      map prompt (image_requests (events w)) @
                      replicate 4 (if truthy ip then ip
                                   else JStr (js ''A visually stunning image representing: ''
                                              @ idea @ js ''.'')))"
    by (intro exI [of _ li] exI [of _ fb] exI [of _ tw] exI [of _ cap] exI [of _ tags]
          exI [of _ ip] exI [of _ posts] exI [of _ w'] conjI)
       (fact props r)+
qed


theorem C5_witness:
  \<open>generateContent provider_malformed = Inr (Some (js ''{"linkedin":''))
   \<and> JSON_parse example_engine (response_text (Some (js ''{"linkedin":''))) = Inl ()
   \<and> fst (generateSocialPosts example_engine example_env provider_malformed
          (js ''Friday pizza special'') None example_world) = Inl (Failed_to_generate SyntaxError)
   \<and> generateContent provider_bare = Inr (Some example_text_bare)
   \<and> JSON_parse example_engine (response_text (Some example_text_bare)) = Inr example_textData_bare
   \<and> getProp example_textData_bare (js ''instagram'') = Inr (JObj [])
   \<and> API_KEY example_env = Some (js ''key'')
   \<and> generateImages provider_bare 3 = Inr example_image
   \<and> fst (generateSocialPosts example_engine example_env provider_bare
          (js ''Friday pizza special'') None example_world) =
       Inr [\<lparr> platform = LinkedIn, post_text = JUndefined, hashtags = None,
              media = \<lparr> url = js ''data:image/jpeg;base64,AAAA'', type = Image_type \<rparr> \<rparr>,
            \<lparr> platform = Facebook, post_text = JUndefined, hashtags = None,
              media = \<lparr> url = js ''data:image/jpeg;base64,AAAA'', type = Image_type \<rparr> \<rparr>,
            \<lparr> platform = Twitter, post_text = JUndefined, hashtags = None,
              media = \<lparr> url = js ''data:image/jpeg;base64,AAAA'', type = Image_type \<rparr> \<rparr>,
            \<lparr> platform = Instagram, post_text = JUndefined, hashtags = Some JUndefined,
              media = \<lparr> url = js ''data:image/jpeg;base64,AAAA'', type = Image_type \<rparr> \<rparr>]
   \<and> map prompt (image_requests (events (snd (generateSocialPosts example_engine example_env
          provider_bare (js ''Friday pizza special'') None example_world)))) =
       replicate 4 (JStr (js ''A visually stunning image representing: Friday pizza special.''))\<close>
proof -
  have g: \<open>generateContent provider_malformed = Inr (Some (js ''{"linkedin":''))\<close>
    by (simp add: provider_malformed_def)
  have p: \<open>JSON_parse example_engine (response_text (Some (js ''{"linkedin":''))) = Inl ()\<close>
    by (simp add: example_engine_def response_text_def example_text_def example_text_no_linkedin_def
        example_text_bare_def)
  from C5_undecodable_response_fails [OF g, of example_engine "()" example_env
      "js ''Friday pizza special''" None example_world] p
  have "isl (fst (generateSocialPosts example_engine example_env provider_malformed
          (js ''Friday pizza special'') None example_world))"
    by blast
  have m: "fst (generateSocialPosts example_engine example_env provider_malformed
          (js ''Friday pizza special'') None example_world) = Inl (Failed_to_generate SyntaxError)"
    by (simp add: generateSocialPosts_def generateSocialPosts_try_def getAIClient_def Let_def
      example_engine_def provider_malformed_def response_text_def example_text_def
      example_text_no_linkedin_def example_text_bare_def mediaType_of_def example_env_def
      example_world_def)
  have gb: "generateContent provider_bare = Inr (Some example_text_bare)"
    by (simp add: provider_bare_def)
  have pb: "JSON_parse example_engine (response_text (Some example_text_bare)) = Inr example_textData_bare"
    by (simp add: example_engine_def response_text_def example_text_def example_text_no_linkedin_def
        example_text_bare_def)
  have ib: "getProp example_textData_bare (js ''instagram'') = Inr (JObj [])"
    "JObj [] \<noteq> JUndefined" "JObj [] \<noteq> JNull"
    by (simp_all add: example_textData_bare_def)
  have kb: "API_KEY example_env = Some (js ''key'')" "js ''key'' \<noteq> []"
    by (simp_all add: example_env_def)
  have im: "\<forall>i < 4. \<exists>r g gs im. generateImages provider_bare i = Inr r \<and>
                       generatedImages r = Some (g # gs) \<and> image_of g = Some im"
    by (simp add: provider_bare_def example_image_def)
  have i3: "generateImages provider_bare 3 = Inr example_image"
    by (simp add: provider_bare_def)
  have hyp: "JSON_parse example_engine (response_text (Some example_text_bare)) = Inr example_textData_bare \<and>
        getProp example_textData_bare (js ''instagram'') = Inr (JObj []) \<and> JObj [] \<noteq> JUndefined \<and> JObj [] \<noteq> JNull \<and>
        (ai example_world \<noteq> None \<or> (\<exists>k. API_KEY example_env = Some k \<and> k \<noteq> [])) \<and>
        ((None :: UploadedMedia option) = None \<longrightarrow>
           (\<forall>i < 4. \<exists>r g gs im. generateImages provider_bare i = Inr r \<and>
                       generatedImages r = Some (g # gs) \<and> image_of g = Some im))"
    using pb ib kb im by blast
  from C5_undecodable_response_fails [OF gb, where E = example_engine and td = example_textData_bare
      and ig = "JObj []" and ev = example_env and um = None and w = example_world
      and idea = "js ''Friday pizza special''", THEN conjunct2, THEN mp, OF hyp]
  obtain ip posts w' where
    ip: "getProp (JObj []) (js ''image_prompt'') = Inr ip"
    and r: "generateSocialPosts example_engine example_env provider_bare
          (js ''Friday pizza special'') None example_world = (Inr posts, w')"
    and pr: "map prompt (image_requests (events w')) =
                      map prompt (image_requests (events example_world)) @
                      replicate 4 (if truthy ip then ip
                                   else JStr (js ''A visually stunning image representing: ''
                                              @ js ''Friday pizza special'' @ js ''.''))"
    by auto
  from ip have "ip = JUndefined" by simp
  with pr r have prompts: "map prompt (image_requests (events (snd (generateSocialPosts example_engine
          example_env provider_bare (js ''Friday pizza special'') None example_world)))) =
       replicate 4 (JStr (js ''A visually stunning image representing: Friday pizza special.''))"
    by (simp add: example_world_def js_append)
  have posts: "fst (generateSocialPosts example_engine example_env provider_bare
          (js ''Friday pizza special'') None example_world) =
       Inr [\<lparr> platform = LinkedIn, post_text = JUndefined, hashtags = None,
              media = \<lparr> url = js ''data:image/jpeg;base64,AAAA'', type = Image_type \<rparr> \<rparr>,
            \<lparr> platform = Facebook, post_text = JUndefined, hashtags = None,
              media = \<lparr> url = js ''data:image/jpeg;base64,AAAA'', type = Image_type \<rparr> \<rparr>,
            \<lparr> platform = Twitter, post_text = JUndefined, hashtags = None,
              media = \<lparr> url = js ''data:image/jpeg;base64,AAAA'', type = Image_type \<rparr> \<rparr>,
            \<lparr> platform = Instagram, post_text = JUndefined, hashtags = Some JUndefined,
              media = \<lparr> url = js ''data:image/jpeg;base64,AAAA'', type = Image_type \<rparr> \<rparr>]"
    by (simp add: generateSocialPosts_def generateSocialPosts_try_def getAIClient_def Let_def
      example_engine_def provider_bare_def response_text_def example_text_def
      example_text_no_linkedin_def example_text_bare_def example_textData_bare_def
      imagePrompt_def bindE_def PLATFORMS_def Promise_all_def
      generatedMediaData_def imageUrl_def js_append example_image_def finalPosts_def
      mediaType_of_def example_env_def example_world_def)
  from g p m gb pb ib(1) kb(1) i3 posts prompts show ?thesis by simp
qed



subsection \<open>Generation: the direct call against the proxy\<close>

lemma content_requests_append:
  "content_requests (xs @ ys) = content_requests xs @ content_requests ys"
  by (induction xs rule: content_requests.induct) simp_all

lemma getAIClient_ok:
  assumes "API_KEY ev = Some k" "k \<noteq> []"
  shows "\<exists>c w1. getAIClient ev w = (Inr c, w1) \<and> ai w1 = Some c \<and>
           image_requests (events w1) = image_requests (events w) \<and>
           content_requests (events w1) = content_requests (events w)"
  using assms
  by (auto simp: getAIClient_def Let_def image_requests_append content_requests_append
      split: option.splits)

lemma api_body_props:
  "getProp (api_body idea um) (js ''idea'') = Inr (JStr idea)"
  "getProp (api_body idea None) (js ''uploadedMedia'') = Inr JNull"
  "getProp (api_body idea (Some m)) (js ''uploadedMedia'') =
     Inr (JObj [(js ''base64'', JStr (base64 m)), (js ''mimeType'', JStr (mimeType m))])"
  by (simp_all add: api_body_def)

lemma trim_nonempty: "trim s \<noteq> [] \<Longrightarrow> s \<noteq> []"
  by (auto simp: trim_def)

lemma handler_valid:
  assumes "GEMINI_API_KEY ev' = Some k'" "k' \<noteq> []" "trim idea \<noteq> []"
    "getProp (api_body idea um) (js ''uploadedMedia'') = Inr u"
  shows "handler E ev' P \<lparr> http_method = js ''POST'', body = api_body idea um \<rparr> =
     (case handler_generate E P idea u [Read_key] of
        (Inl e, evs) \<Rightarrow> (respond 500 (Error_json (Failed_to_generate_content e)), evs)
      | (Inr posts, evs) \<Rightarrow> (respond 200 (Posts_json posts), evs))"
  using assms trim_nonempty [of idea]
  by (simp add: handler_def api_body_props bindE_def)

lemma prompts_agree_up_to_spaces:
  "filter (\<lambda>c. c \<noteq> of_char (CHR '' '')) (buildPrompt idea mt) =
   filter (\<lambda>c. c \<noteq> of_char (CHR '' '')) (buildPrompt_api idea mt)"
  by (simp add: buildPrompt_def buildPrompt_api_def js_def)

lemma aspect_ratios_agree:
  "p \<noteq> LinkedIn \<Longrightarrow> PLATFORM_ASPECT_RATIOS p = PLATFORM_ASPECT_RATIOS_api p"
  by (cases p) simp_all

lemma paths_agree:
  assumes key: "API_KEY ev = Some k" "k \<noteq> []"
    and u: "getProp (api_body idea um) (js ''uploadedMedia'') = Inr u"
    and d: "generateSocialPosts_try E ev P idea um w = (rd, wd)"
    and p: "handler_generate E P idea u evs0 = (rp, evs)"
  shows "rd = rp \<and>
    (\<exists>mp. content_requests (events wd) = content_requests (events w) @
            [\<lparr> model = js ''gemini-2.5-pro'',
               parts = mp @ [Text (buildPrompt idea (mediaType_of um))],
               responseMimeType = js ''application/json'', schema_of = responseSchema \<rparr>] \<and>
          content_requests evs = content_requests evs0 @
            [\<lparr> model = js ''gemini-2.5-pro'',
               parts = mp @ [Text (buildPrompt_api idea (mediaType_of um))],
               responseMimeType = js ''application/json'', schema_of = responseSchema \<rparr>]) \<and>
    (\<exists>pr ps. image_requests (events wd) = image_requests (events w) @
            map (\<lambda>p. \<lparr> image_model = js ''imagen-4.0-generate-001'', prompt = pr,
                        numberOfImages = 1, outputMimeType = js ''image/jpeg'',
                        aspectRatio = PLATFORM_ASPECT_RATIOS p \<rparr>) ps \<and>
          image_requests evs = image_requests evs0 @
            map (\<lambda>p. \<lparr> image_model = js ''imagen-4.0-generate-001'', prompt = pr,
                        numberOfImages = 1, outputMimeType = js ''image/jpeg'',
                        aspectRatio = PLATFORM_ASPECT_RATIOS_api p \<rparr>) ps \<and>
          (ps = [] \<or> ps = PLATFORMS))"
proof -
  from getAIClient_ok [OF key, of w] obtain c w1 where
    g: "getAIClient ev w = (Inr c, w1)" and c: "ai w1 = Some c"
    and i1: "image_requests (events w1) = image_requests (events w)"
    and c1: "content_requests (events w1) = content_requests (events w)"
    by blast
  have c2: "\<And>evs. ai (w1\<lparr> events := events w1 @ evs \<rparr>) = Some c" using c by simp
  show ?thesis
  proof (cases um)
    case (Some m)
    with u have u': "u = JObj [(js ''base64'', JStr (base64 m)), (js ''mimeType'', JStr (mimeType m))]"
      by (simp add: api_body_props)
    have "rd = rp" using d p g Some u'
      by (auto simp: generateSocialPosts_try_def handler_generate_def Let_def bindE_def
          template_str_def mediaType_of_def
          split: sum.splits option.splits)
    moreover have "\<exists>mp. content_requests (events wd) = content_requests (events w) @
            [\<lparr> model = js ''gemini-2.5-pro'',
               parts = mp @ [Text (buildPrompt idea (mediaType_of um))],
               responseMimeType = js ''application/json'', schema_of = responseSchema \<rparr>] \<and>
          content_requests evs = content_requests evs0 @
            [\<lparr> model = js ''gemini-2.5-pro'',
               parts = mp @ [Text (buildPrompt_api idea (mediaType_of um))],
               responseMimeType = js ''application/json'', schema_of = responseSchema \<rparr>]"
      using d p g Some u' c1
      by (intro exI [of _ "[InlineData (mimeType m) (JStr (base64 m))]"])
         (auto simp: generateSocialPosts_try_def handler_generate_def Let_def bindE_def
          mediaType_of_def content_requests_append
          split: sum.splits option.splits)
    moreover have "image_requests (events wd) = image_requests (events w) @ map (\<lambda>p. \<lparr> image_model = js ''imagen-4.0-generate-001'', prompt = JNull,
                        numberOfImages = 1, outputMimeType = js ''image/jpeg'',
                        aspectRatio = PLATFORM_ASPECT_RATIOS p \<rparr>) [] \<and>
          image_requests evs = image_requests evs0 @ map (\<lambda>p. \<lparr> image_model = js ''imagen-4.0-generate-001'', prompt = JNull,
                        numberOfImages = 1, outputMimeType = js ''image/jpeg'',
                        aspectRatio = PLATFORM_ASPECT_RATIOS_api p \<rparr>) []"
      using d p g Some u' i1
      by (auto simp: generateSocialPosts_try_def handler_generate_def Let_def bindE_def
          mediaType_of_def image_requests_append
          split: sum.splits option.splits)
    ultimately show ?thesis by blast
  next
    case None
    with u have u': "u = JNull" by (simp add: api_body_props)
    have "rd = rp" using d p g None u'
      by (auto simp: generateSocialPosts_try_def handler_generate_def Let_def
          mediaType_of_def imagePromises_cached [OF c2] imagePromises_api_eq
          split: sum.splits option.splits)
    moreover have "\<exists>mp. content_requests (events wd) = content_requests (events w) @
            [\<lparr> model = js ''gemini-2.5-pro'',
               parts = mp @ [Text (buildPrompt idea (mediaType_of um))],
               responseMimeType = js ''application/json'', schema_of = responseSchema \<rparr>] \<and>
          content_requests evs = content_requests evs0 @
            [\<lparr> model = js ''gemini-2.5-pro'',
               parts = mp @ [Text (buildPrompt_api idea (mediaType_of um))],
               responseMimeType = js ''application/json'', schema_of = responseSchema \<rparr>]"
      using d p g None u' c1
      by (intro exI [of _ "[]"])
         (auto simp: generateSocialPosts_try_def handler_generate_def Let_def
          mediaType_of_def content_requests_append
          imagePromises_cached [OF c2] imagePromises_api_eq
          split: sum.splits option.splits)
    moreover have "\<exists>pr ps. image_requests (events wd) = image_requests (events w) @
            map (\<lambda>p. \<lparr> image_model = js ''imagen-4.0-generate-001'', prompt = pr,
                        numberOfImages = 1, outputMimeType = js ''image/jpeg'',
                        aspectRatio = PLATFORM_ASPECT_RATIOS p \<rparr>) ps \<and>
          image_requests evs = image_requests evs0 @
            map (\<lambda>p. \<lparr> image_model = js ''imagen-4.0-generate-001'', prompt = pr,
                        numberOfImages = 1, outputMimeType = js ''image/jpeg'',
                        aspectRatio = PLATFORM_ASPECT_RATIOS_api p \<rparr>) ps \<and>
          (ps = [] \<or> ps = PLATFORMS)"
    proof (cases "\<exists>t td pr. generateContent P = Inr t \<and> JSON_parse E (response_text t) = Inr td
                    \<and> imagePrompt td idea = Inr pr")
      case True
      then obtain t td pr where "generateContent P = Inr t" "JSON_parse E (response_text t) = Inr td"
         "imagePrompt td idea = Inr pr" by blast
      with d p g None u' i1 show ?thesis
        by (intro exI [of _ pr] exI [of _ PLATFORMS])
           (auto simp: generateSocialPosts_try_def handler_generate_def Let_def
          mediaType_of_def image_requests_append
          imagePromises_cached [OF c2] imagePromises_api_eq
          split: sum.splits option.splits)
    next
      case False
      with d p g None u' i1 show ?thesis
        by (intro exI [of _ JNull] exI [of _ "[]"])
           (auto simp: generateSocialPosts_try_def handler_generate_def Let_def
          mediaType_of_def image_requests_append
          split: sum.splits option.splits)
    qed
    ultimately show ?thesis by blast
  qed
qed

text \<open>
  C4, as stated, fails: for the same idea and the same provider answers the direct call asks
  for a \<open>4:3\<close> LinkedIn image where the proxy asks for \<open>1:1\<close>, and the two prompts are not
  the same string. For an idea of three spaces the direct call generates posts where the
  proxy answers \<open>400\<close>.
\<close>

theorem C4_counterexample:
  "map aspectRatio (image_requests (events (snd
      (generateSocialPosts example_engine example_env example_provider
         (js ''Friday pizza special'') None example_world))))
     = [js ''4:3'', js ''1:1'', js ''16:9'', js ''1:1'']
   \<and> map aspectRatio (image_requests (snd
      (handler example_engine \<lparr> GEMINI_API_KEY = Some (js ''key'') \<rparr> example_provider
         \<lparr> http_method = js ''POST'', body = api_body (js ''Friday pizza special'') None \<rparr>)))
     = [js ''1:1'', js ''1:1'', js ''16:9'', js ''1:1'']
   \<and> buildPrompt (js ''Friday pizza special'') None \<noteq> buildPrompt_api (js ''Friday pizza special'') None
   \<and> fst (generateSocialPosts example_engine example_env example_provider
         (js ''   '') None example_world) = Inr example_posts
   \<and> fst (handler example_engine \<lparr> GEMINI_API_KEY = Some (js ''key'') \<rparr> example_provider
         \<lparr> http_method = js ''POST'', body = api_body (js ''   '') None \<rparr>)
     = respond 400 (Error_json (Message (js ''Idea is required'')))"
proof (intro conjI)
  show "fst (generateSocialPosts example_engine example_env example_provider
         (js ''   '') None example_world) = Inr example_posts"
    by (simp add: generateSocialPosts_def generateSocialPosts_try_def getAIClient_def Let_def
      example_engine_def example_provider_def response_text_def example_text_def
      example_textData_def imagePrompt_def bindE_def PLATFORMS_def Promise_all_def
      generatedMediaData_def imageUrl_def js_append example_image_def finalPosts_def example_posts_def
      mediaType_of_def example_env_def example_world_def)
  show "fst (handler example_engine \<lparr> GEMINI_API_KEY = Some (js ''key'') \<rparr> example_provider
         \<lparr> http_method = js ''POST'', body = api_body (js ''   '') None \<rparr>)
     = respond 400 (Error_json (Message (js ''Idea is required'')))"
    by (simp add: handler_def api_body_def bindE_def trim_example trim_blank)
  show "map aspectRatio (image_requests (events (snd
      (generateSocialPosts example_engine example_env example_provider
         (js ''Friday pizza special'') None example_world))))
     = [js ''4:3'', js ''1:1'', js ''16:9'', js ''1:1'']"
    by (simp add: generateSocialPosts_def generateSocialPosts_try_def getAIClient_def Let_def
      example_engine_def example_provider_def response_text_def example_text_def
      example_textData_def imagePrompt_def bindE_def PLATFORMS_def Promise_all_def
      generatedMediaData_def imageUrl_def js_append example_image_def finalPosts_def
      mediaType_of_def example_env_def example_world_def)
  show "map aspectRatio (image_requests (snd
      (handler example_engine \<lparr> GEMINI_API_KEY = Some (js ''key'') \<rparr> example_provider
         \<lparr> http_method = js ''POST'', body = api_body (js ''Friday pizza special'') None \<rparr>)))
     = [js ''1:1'', js ''1:1'', js ''16:9'', js ''1:1'']"
    by (simp add: handler_def handler_generate_def Let_def api_body_def
      example_engine_def example_provider_def response_text_def example_text_def
      example_textData_def imagePrompt_def bindE_def PLATFORMS_def Promise_all_def
      generatedMediaData_def imageUrl_def js_append example_image_def finalPosts_def
      trim_example trim_blank)
  show "buildPrompt (js ''Friday pizza special'') None \<noteq> buildPrompt_api (js ''Friday pizza special'') None"
    by (simp add: buildPrompt_def buildPrompt_api_def js_def)
qed

text \<open>
  C4, amended. For a configured key, an idea that is not blank, the same uploaded media and
  the same provider answers, the direct call returns a post list exactly when the proxy
  answers \<open>200\<close> with the same list, and rejects with a caught value exactly when the proxy
  answers \<open>500\<close> for the same value. Both send one text request with the same model, media
  part, response MIME type and schema, and with prompts that agree up to space characters.
  Both issue image requests in the same cases, for the same platforms in the same order and
  with the same model, image prompt, count and output MIME type; the aspect ratios of the
  two tables agree for Facebook, Twitter and Instagram.
\<close>

theorem C4_paths_agree_up_to_table_and_spacing:
  assumes "API_KEY ev = Some k" and "k \<noteq> []"
    and "GEMINI_API_KEY ev' = Some k'" and "k' \<noteq> []"
    and "trim idea \<noteq> []"
    and "generateSocialPosts E ev P idea um w = (rd, wd)"
    and "handler E ev' P \<lparr> http_method = js ''POST'', body = api_body idea um \<rparr> = (rp, evs)"
  shows "(case rd of
            Inr posts \<Rightarrow> rp = respond 200 (Posts_json posts)
          | Inl f \<Rightarrow> \<exists>e. f = catch_wrap e \<and>
                         rp = respond 500 (Error_json (Failed_to_generate_content e)))
    \<and> filter (\<lambda>c. c \<noteq> of_char (CHR '' '')) (buildPrompt idea (mediaType_of um)) =
      filter (\<lambda>c. c \<noteq> of_char (CHR '' '')) (buildPrompt_api idea (mediaType_of um))
    \<and> (\<exists>mp. content_requests (events wd) = content_requests (events w) @
            [\<lparr> model = js ''gemini-2.5-pro'',
               parts = mp @ [Text (buildPrompt idea (mediaType_of um))],
               responseMimeType = js ''application/json'', schema_of = responseSchema \<rparr>] \<and>
          content_requests evs =
            [\<lparr> model = js ''gemini-2.5-pro'',
               parts = mp @ [Text (buildPrompt_api idea (mediaType_of um))],
               responseMimeType = js ''application/json'', schema_of = responseSchema \<rparr>])
    \<and> (\<exists>pr ps. image_requests (events wd) = image_requests (events w) @
            map (\<lambda>p. \<lparr> image_model = js ''imagen-4.0-generate-001'', prompt = pr,
                        numberOfImages = 1, outputMimeType = js ''image/jpeg'',
                        aspectRatio = PLATFORM_ASPECT_RATIOS p \<rparr>) ps \<and>
          image_requests evs =
            map (\<lambda>p. \<lparr> image_model = js ''imagen-4.0-generate-001'', prompt = pr,
                        numberOfImages = 1, outputMimeType = js ''image/jpeg'',
                        aspectRatio = PLATFORM_ASPECT_RATIOS_api p \<rparr>) ps \<and>
          (ps = [] \<or> ps = PLATFORMS))
    \<and> (\<forall>p. p \<noteq> LinkedIn \<longrightarrow> PLATFORM_ASPECT_RATIOS p = PLATFORM_ASPECT_RATIOS_api p)"
proof -
  obtain u where u: "getProp (api_body idea um) (js ''uploadedMedia'') = Inr u"
    by (cases um) (simp_all add: api_body_props)
  obtain r0 w0 where t: "generateSocialPosts_try E ev P idea um w = (r0, w0)"
    by (cases "generateSocialPosts_try E ev P idea um w")
  obtain rh eh where h: "handler_generate E P idea u [Read_key] = (rh, eh)"
    by (cases "handler_generate E P idea u [Read_key]")
  from assms(6) t have rd: "rd = (case r0 of Inl e \<Rightarrow> Inl (catch_wrap e) | Inr ps \<Rightarrow> Inr ps)"
    and wd: "wd = w0"
    by (auto simp: generateSocialPosts_def split: sum.splits)
  from handler_valid [OF assms(3,4,5) u, of E P] assms(7) h
  have rp: "rp = (case rh of Inl e \<Rightarrow> respond 500 (Error_json (Failed_to_generate_content e))
                   | Inr ps \<Rightarrow> respond 200 (Posts_json ps))"
    and evs: "evs = eh"
    by (auto split: sum.splits)
  from paths_agree [OF assms(1,2) u t h] have eq: "r0 = rh"
    and creq: "\<exists>mp. content_requests (events w0) = content_requests (events w) @
            [\<lparr> model = js ''gemini-2.5-pro'',
               parts = mp @ [Text (buildPrompt idea (mediaType_of um))],
               responseMimeType = js ''application/json'', schema_of = responseSchema \<rparr>] \<and>
          content_requests eh = content_requests [Read_key] @
            [\<lparr> model = js ''gemini-2.5-pro'',
               parts = mp @ [Text (buildPrompt_api idea (mediaType_of um))],
               responseMimeType = js ''application/json'', schema_of = responseSchema \<rparr>]"
    and ireq: "\<exists>pr ps. image_requests (events w0) = image_requests (events w) @
            map (\<lambda>p. \<lparr> image_model = js ''imagen-4.0-generate-001'', prompt = pr,
                        numberOfImages = 1, outputMimeType = js ''image/jpeg'',
                        aspectRatio = PLATFORM_ASPECT_RATIOS p \<rparr>) ps \<and>
          image_requests eh = image_requests [Read_key] @
            map (\<lambda>p. \<lparr> image_model = js ''imagen-4.0-generate-001'', prompt = pr,
                        numberOfImages = 1, outputMimeType = js ''image/jpeg'',
                        aspectRatio = PLATFORM_ASPECT_RATIOS_api p \<rparr>) ps \<and>
          (ps = [] \<or> ps = PLATFORMS)"
    by blast+
  have a: "(case rd of
            Inr posts \<Rightarrow> rp = respond 200 (Posts_json posts)
          | Inl f \<Rightarrow> \<exists>e. f = catch_wrap e \<and>
                         rp = respond 500 (Error_json (Failed_to_generate_content e)))"
    using rd rp eq by (auto split: sum.splits)
  from creq wd evs have b: "\<exists>mp. content_requests (events wd) = content_requests (events w) @
            [\<lparr> model = js ''gemini-2.5-pro'',
               parts = mp @ [Text (buildPrompt idea (mediaType_of um))],
               responseMimeType = js ''application/json'', schema_of = responseSchema \<rparr>] \<and>
          content_requests evs =
            [\<lparr> model = js ''gemini-2.5-pro'',
               parts = mp @ [Text (buildPrompt_api idea (mediaType_of um))],
               responseMimeType = js ''application/json'', schema_of = responseSchema \<rparr>]"
    by simp
  from ireq wd evs have c: "\<exists>pr ps. image_requests (events wd) = image_requests (events w) @
            map (\<lambda>p. \<lparr> image_model = js ''imagen-4.0-generate-001'', prompt = pr,
                        numberOfImages = 1, outputMimeType = js ''image/jpeg'',
                        aspectRatio = PLATFORM_ASPECT_RATIOS p \<rparr>) ps \<and>
          image_requests evs =
            map (\<lambda>p. \<lparr> image_model = js ''imagen-4.0-generate-001'', prompt = pr,
                        numberOfImages = 1, outputMimeType = js ''image/jpeg'',
                        aspectRatio = PLATFORM_ASPECT_RATIOS_api p \<rparr>) ps \<and>
          (ps = [] \<or> ps = PLATFORMS)"
    by simp
  show ?thesis
    using a b c prompts_agree_up_to_spaces [of idea "mediaType_of um"] aspect_ratios_agree
    by (intro conjI allI impI)
qed

theorem C4_witness:
  "API_KEY example_env = Some (js ''key'') \<and> (js ''key'') \<noteq> []
   \<and> GEMINI_API_KEY \<lparr> GEMINI_API_KEY = Some (js ''key'') \<rparr> = Some (js ''key'')
   \<and> trim (js ''Friday pizza special'') \<noteq> []
   \<and> fst (generateSocialPosts example_engine example_env example_provider
          (js ''Friday pizza special'') None example_world) = Inr example_posts
   \<and> fst (handler example_engine \<lparr> GEMINI_API_KEY = Some (js ''key'') \<rparr> example_provider
          \<lparr> http_method = js ''POST'', body = api_body (js ''Friday pizza special'') None \<rparr>)
       = respond 200 (Posts_json example_posts)"
proof -
  have k: "API_KEY example_env = Some (js ''key'')" "js ''key'' \<noteq> []"
    "GEMINI_API_KEY \<lparr> GEMINI_API_KEY = Some (js ''key'') \<rparr> = Some (js ''key'')"
    by (simp_all add: example_env_def)
  have d: "fst (generateSocialPosts example_engine example_env example_provider
          (js ''Friday pizza special'') None example_world) = Inr example_posts"
    using example_direct by (simp add: example_env_def example_world_def)
  from C4_paths_agree_up_to_table_and_spacing
      [where E = example_engine and ev = example_env and P = example_provider
         and idea = "js ''Friday pizza special''" and um = None and w = example_world
         and ev' = "\<lparr> GEMINI_API_KEY = Some (js ''key'') \<rparr>",
       OF k(1,2) k(3) k(2) trim_example prod.collapse [symmetric] prod.collapse [symmetric]]
  have "case fst (generateSocialPosts example_engine example_env example_provider
          (js ''Friday pizza special'') None example_world) of
            Inr posts \<Rightarrow> fst (handler example_engine \<lparr> GEMINI_API_KEY = Some (js ''key'') \<rparr> example_provider
          \<lparr> http_method = js ''POST'', body = api_body (js ''Friday pizza special'') None \<rparr>) = respond 200 (Posts_json posts)
          | Inl f \<Rightarrow> \<exists>e. f = catch_wrap e \<and>
                         fst (handler example_engine \<lparr> GEMINI_API_KEY = Some (js ''key'') \<rparr> example_provider
          \<lparr> http_method = js ''POST'', body = api_body (js ''Friday pizza special'') None \<rparr>) = respond 500 (Error_json (Failed_to_generate_content e))"
    by blast
  with d have "fst (handler example_engine \<lparr> GEMINI_API_KEY = Some (js ''key'') \<rparr> example_provider
          \<lparr> http_method = js ''POST'', body = api_body (js ''Friday pizza special'') None \<rparr>)
       = respond 200 (Posts_json example_posts)"
    by simp
  with k d trim_example show ?thesis by blast
qed


subsection \<open>Proxy: validation of the idea\<close>

text \<open>A \<open>POST\<close> whose body is an object (or any value other than \<open>undefined\<close> and \<open>null\<close>)
  and has no \<open>idea\<close>, an \<open>idea\<close> that is not a string, or one that is empty or only white
  space is answered with status \<open>400\<close> and \<open>{ error: 'Idea is required' }\<close>; nothing has been
  read from the configuration or sent to the provider.\<close>

lemma idea_required:
  assumes "http_method req = js ''POST''"
    and "getProp (body req) (js ''idea'') = Inr idea"
    and "\<forall>s. idea = JStr s \<longrightarrow> trim s = []"
  shows "handler E ev P req = (respond 400 (Error_json (Message (js ''Idea is required''))), [])"
proof -
  from assms(2) have "body req \<noteq> JUndefined" "body req \<noteq> JNull" by auto
  then obtain um where "getProp (body req) (js ''uploadedMedia'') = Inr um"
    by (cases "body req") auto
  with assms show ?thesis
    by (cases idea) (auto simp: handler_def bindE_def)
qed

lemma idea_required_examples:
  "handler example_engine \<lparr> GEMINI_API_KEY = None \<rparr> example_provider
     \<lparr> http_method = js ''POST'', body = JObj [(js ''idea'', JStr (js ''   ''))] \<rparr>
     = (respond 400 (Error_json (Message (js ''Idea is required''))), [])
   \<and> handler example_engine \<lparr> GEMINI_API_KEY = None \<rparr> example_provider
     \<lparr> http_method = js ''POST'', body = JObj [(js ''uploadedMedia'', JNull)] \<rparr>
     = (respond 400 (Error_json (Message (js ''Idea is required''))), [])
   \<and> handler example_engine \<lparr> GEMINI_API_KEY = None \<rparr> example_provider
     \<lparr> http_method = js ''POST'', body = JObj [(js ''idea'', JNum 42)] \<rparr>
     = (respond 400 (Error_json (Message (js ''Idea is required''))), [])"
proof -
  have "handler example_engine \<lparr> GEMINI_API_KEY = None \<rparr> example_provider
     \<lparr> http_method = js ''POST'', body = JObj [(js ''idea'', JStr (js ''   ''))] \<rparr>
     = (respond 400 (Error_json (Message (js ''Idea is required''))), [])"
    by (rule idea_required [where idea = "JStr (js ''   '')"]) (simp_all add: trim_blank)
  moreover have "handler example_engine \<lparr> GEMINI_API_KEY = None \<rparr> example_provider
     \<lparr> http_method = js ''POST'', body = JObj [(js ''uploadedMedia'', JNull)] \<rparr>
     = (respond 400 (Error_json (Message (js ''Idea is required''))), [])"
    by (rule idea_required [where idea = JUndefined]) simp_all
  moreover have "handler example_engine \<lparr> GEMINI_API_KEY = None \<rparr> example_provider
     \<lparr> http_method = js ''POST'', body = JObj [(js ''idea'', JNum 42)] \<rparr>
     = (respond 400 (Error_json (Message (js ''Idea is required''))), [])"
    by (rule idea_required [where idea = "JNum 42"]) simp_all
  ultimately show ?thesis by blast
qed

text \<open>A blank idea may consist of any white space, also outside ASCII.\<close>

lemma trim_wide_blank: "trim [0x3000, 0x2003, 0xFEFF, 0x20] = []"
  by (simp add: trim_def isWhiteSpace_def)

text \<open>
  C10 fails for a \<open>POST\<close> that has no body (\<open>req.body\<close> is \<open>undefined\<close>) or whose body is the
  JSON value \<open>null\<close>. The \<open>idea\<close> is missing, but the handler does not answer \<open>400\<close> with
  \<open>Idea is required\<close>: the destructuring of \<open>req.body\<close> throws before the check is reached,
  the \<open>catch\<close> block takes over and the answer is \<open>500\<close> with the message
  \<open>Failed to generate content: ...\<close> of the \<open>TypeError\<close>.
\<close>

theorem C10_missing_body_answers_500:
  "handler E ev P \<lparr> http_method = js ''POST'', body = JUndefined \<rparr>
     = (respond 500 (Error_json (Failed_to_generate_content TypeError)), [])
   \<and> handler E ev P \<lparr> http_method = js ''POST'', body = JNull \<rparr>
     = (respond 500 (Error_json (Failed_to_generate_content TypeError)), [])
   \<and> status (respond 500 (Error_json (Failed_to_generate_content TypeError))) \<noteq> 400"
  by (simp add: handler_def bindE_def respond_def)


subsection \<open>Rounding to doubles, and the compression loop\<close>

lemma scale_up_normal:
  "0 < x \<Longrightarrow> 2 ^ 52 \<le> x * 2 ^ m \<Longrightarrow> x * 2 ^ m < 2 ^ 53 \<Longrightarrow> m \<le> n \<Longrightarrow>
     scale_up n x j = (x * 2 ^ m, j + m)"
proof (induction n arbitrary: x j m)
  case 0
  then show ?case by simp
next
  case (Suc n)
  show ?case
  proof (cases "2 ^ 52 \<le> x")
    case True
    have "m = 0"
    proof (rule ccontr)
      assume "m \<noteq> 0"
      then have "(2::rat) ^ 1 \<le> 2 ^ m" by (intro power_increasing) auto
      then have "x * 2 \<le> x * 2 ^ m" using Suc.prems(1) by simp
      with True Suc.prems(3) show False by simp
    qed
    with True show ?thesis by simp
  next
    case False
    then have "m \<noteq> 0" using Suc.prems(2) by (cases m) auto
    then obtain m' where m: "m = Suc m'" by (cases m) auto
    have "scale_up n (2 * x) (Suc j) = (2 * x * 2 ^ m', Suc j + m')"
      using Suc.prems m by (intro Suc.IH) (auto simp: mult_ac)
    with False m show ?thesis by (simp add: mult_ac)
  qed
qed

lemma fl_pos_normal:
  assumes "0 < x" "2 ^ 52 \<le> x * 2 ^ m" "x * 2 ^ m < 2 ^ 53" "m \<le> 1074"
  shows "fl_pos x = of_int (round_half_even (x * 2 ^ m)) / 2 ^ m"
  using scale_up_normal [OF assms, of 0] by (simp add: fl_pos_def)

lemma fl_normal:
  assumes "0 < x" "2 ^ 52 \<le> x * 2 ^ m" "x * 2 ^ m < 2 ^ 53" "m \<le> 1074"
  shows "fl x = of_int (round_half_even (x * 2 ^ m)) / 2 ^ m"
  using fl_pos_normal [OF assms] assms(1) by (simp add: fl_def)

lemma round_half_even_unique:
  assumes "\<bar>y - of_int z\<bar> < 1 / 2"
  shows "round_half_even y = z"
proof (cases "of_int z \<le> y")
  case True
  with assms have "\<lfloor>y\<rfloor> = z" by (intro floor_unique) auto
  with assms True show ?thesis by (simp add: round_half_even_def)
next
  case False
  with assms have "\<lfloor>y\<rfloor> = z - 1" by (intro floor_unique) auto
  with assms False show ?thesis by (simp add: round_half_even_def)
qed

lemma fl_unique:
  assumes "0 < x" "2 ^ 52 \<le> x * 2 ^ m" "x * 2 ^ m < 2 ^ 53" "m \<le> 1074"
    and "\<bar>x * 2 ^ m - of_int z\<bar> < 1 / 2"
  shows "fl x = of_int z / 2 ^ m"
  using fl_normal [OF assms(1-4)] round_half_even_unique [OF assms(5)] by simp

lemma fl_9_10: "fl (9 / 10) = 8106479329266893 / 9007199254740992"
  using fl_unique [of "9 / 10" 53 8106479329266893] by simp

lemma fl_1_10: "fl (1 / 10) = 3602879701896397 / 36028797018963968"
  using fl_unique [of "1 / 10" 56 7205759403792794] by simp

lemma fl_137_100: "fl (137 / 100) = 1542482872374395 / 1125899906842624"
  using fl_unique [of "137 / 100" 52 6169931489497580] by simp

lemma fl_int: "fl 10240 = 10240" "fl 10485760 = 10485760"
  using fl_unique [of 10240 39 "10240 * 2 ^ 39"] fl_unique [of 10485760 29 "10485760 * 2 ^ 29"]
  by simp_all

lemma size_limit_value: "size_limit = 7712414361871975 / 536870912"
  using fl_unique [of "10485760 * (1542482872374395 / 1125899906842624)" 29 7712414361871975]
  by (simp add: size_limit_def TARGET_SIZE_MB_def fl_int fl_137_100)

lemma round_half_even_tie:
  assumes "y = of_int f + 1 / 2"
  shows "round_half_even y = (if even f then f else f + 1)"
proof -
  from assms have "\<lfloor>y\<rfloor> = f" by (intro floor_unique) auto
  with assms show ?thesis by (simp add: round_half_even_def)
qed

lemma fl_tie:
  assumes "0 < x" "2 ^ 52 \<le> x * 2 ^ m" "x * 2 ^ m < 2 ^ 53" "m \<le> 1074"
    and "x * 2 ^ m = of_int f + 1 / 2"
  shows "fl x = of_int (if even f then f else f + 1) / 2 ^ m"
  using fl_normal [OF assms(1-4)] round_half_even_tie [OF assms(5)] by simp

text \<open>The qualities the loop can reach: \<open>0.9\<close>, \<open>0.8\<close>, \<open>0.7000000000000001\<close>,
  \<open>0.6000000000000001\<close>, \<open>0.5000000000000001\<close> and \<open>0.40000000000000013\<close>. Each lemma
  rounds the exact difference of the previous quality and the double nearest to \<open>0.1\<close>.\<close>

lemma fl_difference_1:
  "fl (28823037615171175 / 36028797018963968) = 3602879701896397 / 4503599627370496"
  using fl_unique [of "28823037615171175 / 36028797018963968" 53 7205759403792794] by simp

lemma fl_difference_2:
  "fl (25220157913274779 / 36028797018963968) = 6305039478318695 / 9007199254740992"
  using fl_unique [of "25220157913274779 / 36028797018963968" 53 6305039478318695] by simp

lemma fl_difference_3:
  "fl (21617278211378383 / 36028797018963968) = 1351079888211149 / 2251799813685248"
  using fl_unique [of "21617278211378383 / 36028797018963968" 53 5404319552844596] by simp

lemma fl_difference_4:
  "fl (18014398509481987 / 36028797018963968) = 4503599627370497 / 9007199254740992"
  using fl_unique [of "18014398509481987 / 36028797018963968" 53 4503599627370497] by simp

lemma fl_difference_5:
  "fl (14411518807585591 / 36028797018963968) = 1801439850948199 / 4503599627370496"
  using fl_tie [of "14411518807585591 / 36028797018963968" 54 7205759403792795] by simp

lemmas fl_values =
  fl_9_10 fl_1_10 fl_difference_1 fl_difference_2 fl_difference_3 fl_difference_4 fl_difference_5

lemma quality_sequence:
  "fl (fl (9 / 10) - fl (1 / 10)) = 3602879701896397 / 4503599627370496"
  "fl (3602879701896397 / 4503599627370496 - fl (1 / 10)) = 6305039478318695 / 9007199254740992"
  "fl (6305039478318695 / 9007199254740992 - fl (1 / 10)) = 1351079888211149 / 2251799813685248"
  "fl (1351079888211149 / 2251799813685248 - fl (1 / 10)) = 4503599627370497 / 9007199254740992"
  "fl (4503599627370497 / 9007199254740992 - fl (1 / 10)) = 1801439850948199 / 4503599627370496"
  by (simp_all add: fl_values)

lemma reduce_quality_stop:
  "\<not> (size_limit < of_nat (length b) \<and> 1 / 2 < q) \<Longrightarrow> reduce_quality enc q b n = Some (b, q, n)"
  by (subst reduce_quality.simps) auto

lemma reduce_quality_step:
  "size_limit < of_nat (length b) \<Longrightarrow> 1 / 2 < q \<Longrightarrow> q' = fl (q - fl (1 / 10)) \<Longrightarrow>
     reduce_quality enc q b n = reduce_quality enc q' (enc q') (Suc n)"
  by (subst reduce_quality.simps) (simp add: Let_def)

lemma oversized_too_large: "size_limit < of_nat (length oversized)"
  by (simp add: size_limit_value oversized_def)

text \<open>
  C6. With an encoder whose output stays above the size target the loop body runs five
  times, not four, and the encoding returned was made at quality
  \<open>0.40000000000000013\<close>, below the floor of \<open>0.5\<close>: after four subtractions of \<open>0.1\<close> the
  quality is the double \<open>0.5000000000000001\<close>, which still passes the test \<open>quality > 0.5\<close>.
\<close>

theorem C6_quality_falls_below_floor:
  "reduce_quality (\<lambda>q. oversized) (fl (9 / 10)) oversized 0
     = Some (oversized, 1801439850948199 / 4503599627370496, 5)
   \<and> (1801439850948199 / 4503599627370496 :: rat) < 1 / 2"
proof -
  note big = oversized_too_large
  have "reduce_quality (\<lambda>q. oversized) (fl (9 / 10)) oversized 0
     = reduce_quality (\<lambda>q. oversized) (3602879701896397 / 4503599627370496) oversized 1"
    by (subst reduce_quality_step [OF big _ quality_sequence(1) [symmetric]])
       (simp_all add: fl_9_10)
  also have "\<dots> = reduce_quality (\<lambda>q. oversized) (6305039478318695 / 9007199254740992) oversized (Suc 1)"
    by (subst reduce_quality_step [OF big _ quality_sequence(2) [symmetric]]) simp_all
  also have "\<dots> = reduce_quality (\<lambda>q. oversized) (1351079888211149 / 2251799813685248) oversized (Suc (Suc 1))"
    by (subst reduce_quality_step [OF big _ quality_sequence(3) [symmetric]]) simp_all
  also have "\<dots> = reduce_quality (\<lambda>q. oversized) (4503599627370497 / 9007199254740992) oversized (Suc (Suc (Suc 1)))"
    by (subst reduce_quality_step [OF big _ quality_sequence(4) [symmetric]]) simp_all
  also have "\<dots> = reduce_quality (\<lambda>q. oversized) (1801439850948199 / 4503599627370496) oversized (Suc (Suc (Suc (Suc 1))))"
    by (subst reduce_quality_step [OF big _ quality_sequence(5) [symmetric]]) simp_all
  also have "\<dots> = Some (oversized, 1801439850948199 / 4503599627370496, Suc (Suc (Suc (Suc 1))))"
    by (rule reduce_quality_stop) simp
  finally show ?thesis by simp
qed

text \<open>Whatever the encoder returns, the loop ends after at most five reductions, at one of
  the six qualities above.\<close>

lemma reduce_quality_from_5:
  "reduce_quality enc (1801439850948199 / 4503599627370496) b n
     = Some (b, 1801439850948199 / 4503599627370496, n)"
  by (rule reduce_quality_stop) simp

lemma reduce_quality_from_4:
  "\<exists>b' q' n'. reduce_quality enc (4503599627370497 / 9007199254740992) b n = Some (b', q', n')
     \<and> n' \<le> n + 1 \<and> 1801439850948199 / 4503599627370496 \<le> q'"
proof (cases "size_limit < of_nat (length b)")
  case True
  from reduce_quality_step [OF True _ quality_sequence(5) [symmetric], of enc n]
  have "reduce_quality enc (4503599627370497 / 9007199254740992) b n
          = Some (enc (1801439850948199 / 4503599627370496), 1801439850948199 / 4503599627370496, Suc n)"
    by (simp add: reduce_quality_from_5)
  then show ?thesis
    by (intro exI [of _ "enc (1801439850948199 / 4503599627370496)"] exI [of _ "1801439850948199 / 4503599627370496"] exI [of _ "Suc n"]) simp
next
  case False
  then have "reduce_quality enc (4503599627370497 / 9007199254740992) b n = Some (b, 4503599627370497 / 9007199254740992, n)"
    by (simp add: reduce_quality_stop)
  then show ?thesis
    by (intro exI [of _ b] exI [of _ "4503599627370497 / 9007199254740992"] exI [of _ n]) simp
qed

lemma reduce_quality_from_3:
  "\<exists>b' q' n'. reduce_quality enc (1351079888211149 / 2251799813685248) b n = Some (b', q', n')
     \<and> n' \<le> n + 2 \<and> 1801439850948199 / 4503599627370496 \<le> q'"
proof (cases "size_limit < of_nat (length b)")
  case True
  from reduce_quality_from_4 [of enc "enc (4503599627370497 / 9007199254740992)" "Suc n"]
  obtain b' q' n' where
    "reduce_quality enc (4503599627370497 / 9007199254740992) (enc (4503599627370497 / 9007199254740992)) (Suc n) = Some (b', q', n')"
    "n' \<le> Suc n + 1" "1801439850948199 / 4503599627370496 \<le> q'"
    by blast
  with reduce_quality_step [OF True _ quality_sequence(4) [symmetric], of enc n]
  have "reduce_quality enc (1351079888211149 / 2251799813685248) b n = Some (b', q', n')
     \<and> n' \<le> n + 2 \<and> 1801439850948199 / 4503599627370496 \<le> q'"
    by simp
  then show ?thesis by blast
next
  case False
  then have "reduce_quality enc (1351079888211149 / 2251799813685248) b n = Some (b, 1351079888211149 / 2251799813685248, n)"
    by (simp add: reduce_quality_stop)
  then show ?thesis
    by (intro exI [of _ b] exI [of _ "1351079888211149 / 2251799813685248"] exI [of _ n]) simp
qed

lemma reduce_quality_from_2:
  "\<exists>b' q' n'. reduce_quality enc (6305039478318695 / 9007199254740992) b n = Some (b', q', n')
     \<and> n' \<le> n + 3 \<and> 1801439850948199 / 4503599627370496 \<le> q'"
proof (cases "size_limit < of_nat (length b)")
  case True
  from reduce_quality_from_3 [of enc "enc (1351079888211149 / 2251799813685248)" "Suc n"]
  obtain b' q' n' where
    "reduce_quality enc (1351079888211149 / 2251799813685248) (enc (1351079888211149 / 2251799813685248)) (Suc n) = Some (b', q', n')"
    "n' \<le> Suc n + 2" "1801439850948199 / 4503599627370496 \<le> q'"
    by blast
  with reduce_quality_step [OF True _ quality_sequence(3) [symmetric], of enc n]
  have "reduce_quality enc (6305039478318695 / 9007199254740992) b n = Some (b', q', n')
     \<and> n' \<le> n + 3 \<and> 1801439850948199 / 4503599627370496 \<le> q'"
    by simp
  then show ?thesis by blast
next
  case False
  then have "reduce_quality enc (6305039478318695 / 9007199254740992) b n = Some (b, 6305039478318695 / 9007199254740992, n)"
    by (simp add: reduce_quality_stop)
  then show ?thesis
    by (intro exI [of _ b] exI [of _ "6305039478318695 / 9007199254740992"] exI [of _ n]) simp
qed

lemma reduce_quality_from_1:
  "\<exists>b' q' n'. reduce_quality enc (3602879701896397 / 4503599627370496) b n = Some (b', q', n')
     \<and> n' \<le> n + 4 \<and> 1801439850948199 / 4503599627370496 \<le> q'"
proof (cases "size_limit < of_nat (length b)")
  case True
  from reduce_quality_from_2 [of enc "enc (6305039478318695 / 9007199254740992)" "Suc n"]
  obtain b' q' n' where
    "reduce_quality enc (6305039478318695 / 9007199254740992) (enc (6305039478318695 / 9007199254740992)) (Suc n) = Some (b', q', n')"
    "n' \<le> Suc n + 3" "1801439850948199 / 4503599627370496 \<le> q'"
    by blast
  with reduce_quality_step [OF True _ quality_sequence(2) [symmetric], of enc n]
  have "reduce_quality enc (3602879701896397 / 4503599627370496) b n = Some (b', q', n')
     \<and> n' \<le> n + 4 \<and> 1801439850948199 / 4503599627370496 \<le> q'"
    by simp
  then show ?thesis by blast
next
  case False
  then have "reduce_quality enc (3602879701896397 / 4503599627370496) b n = Some (b, 3602879701896397 / 4503599627370496, n)"
    by (simp add: reduce_quality_stop)
  then show ?thesis
    by (intro exI [of _ b] exI [of _ "3602879701896397 / 4503599627370496"] exI [of _ n]) simp
qed

lemma reduce_quality_bounded:
  "\<exists>b' q' n'. reduce_quality enc (fl (9 / 10)) b 0 = Some (b', q', n')
     \<and> n' \<le> 5 \<and> 1801439850948199 / 4503599627370496 \<le> q'"
proof (cases "size_limit < of_nat (length b)")
  case True
  have half: "1 / 2 < fl (9 / 10)" by (simp add: fl_9_10)
  from reduce_quality_from_1 [of enc "enc (3602879701896397 / 4503599627370496)" "Suc 0"]
  obtain b' q' n' where
    "reduce_quality enc (3602879701896397 / 4503599627370496)
       (enc (3602879701896397 / 4503599627370496)) (Suc 0) = Some (b', q', n')"
    "n' \<le> Suc 0 + 4" "1801439850948199 / 4503599627370496 \<le> q'"
    by blast
  with reduce_quality_step [OF True half quality_sequence(1) [symmetric], of enc 0]
  have "reduce_quality enc (fl (9 / 10)) b 0 = Some (b', q', n')
     \<and> n' \<le> 5 \<and> 1801439850948199 / 4503599627370496 \<le> q'"
    by simp
  then show ?thesis by blast
next
  case False
  then have "reduce_quality enc (fl (9 / 10)) b 0 = Some (b, fl (9 / 10), 0)"
    by (simp add: reduce_quality_stop)
  then show ?thesis
    by (intro exI [of _ b] exI [of _ "fl (9 / 10)"] exI [of _ 0]) (simp add: fl_9_10)
qed

lemma compressImage_settles: "compressImage B f \<noteq> Pending"
proof -
  have "(case reduce_quality enc (fl (9 / 10)) b 0 of
           None \<Rightarrow> Pending
         | Some (b64, _, _) \<Rightarrow> Resolved \<lparr> base64 = b64, mimeType = js ''image/jpeg'' \<rparr>) \<noteq> Pending"
    for enc b
  proof -
    from reduce_quality_bounded [of enc b] obtain b' q' n' where
      "reduce_quality enc (fl (9 / 10)) b 0 = Some (b', q', n')" by blast
    then show ?thesis by simp
  qed
  then show ?thesis
    by (simp add: compressImage_def Let_def split: option.splits prod.splits)
qed


subsection \<open>The resize step\<close>

lemma round_half_even_error: "\<bar>of_int (round_half_even y) - y\<bar> \<le> 1 / 2"
proof -
  have "of_int \<lfloor>y\<rfloor> \<le> y" "y < of_int \<lfloor>y\<rfloor> + 1" by linarith+
  then show ?thesis by (auto simp: round_half_even_def Let_def)
qed

lemma round_half_even_of_int: "round_half_even (of_int n) = n"
  by (rule round_half_even_unique) simp

lemma normal_exponent:
  fixes x :: rat
  assumes "0 < x" "x < 2 ^ 53" "2 ^ 52 \<le> x * 2 ^ M"
  shows "\<exists>m \<le> M. 2 ^ 52 \<le> x * 2 ^ m \<and> x * 2 ^ m < 2 ^ 53"
proof -
  define m where "m = (LEAST m. 2 ^ 52 \<le> x * 2 ^ m)"
  have le: "m \<le> M" unfolding m_def using assms(3) by (rule Least_le)
  have lo: "2 ^ 52 \<le> x * 2 ^ m" unfolding m_def using assms(3) by (rule LeastI)
  have hi: "x * 2 ^ m < 2 ^ 53"
  proof (cases m)
    case 0
    with assms(2) show ?thesis by simp
  next
    case (Suc m')
    have "\<not> 2 ^ 52 \<le> x * 2 ^ m'"
    proof
      assume "2 ^ 52 \<le> x * 2 ^ m'"
      then have "m \<le> m'" unfolding m_def by (rule Least_le)
      with Suc show False by simp
    qed
    then have "x * 2 ^ m' < 2 ^ 52" by simp
    with Suc show ?thesis by simp
  qed
  from le lo hi show ?thesis by blast
qed

text \<open>A quotient of two naturals below \<open>2^32\<close>, at most one, is rounded with an error of at
  most \<open>2^-53\<close>, to a double with a 53-bit significand and an exponent in range.\<close>

lemma fl_quotient:
  fixes a b :: nat
  assumes "0 < a" "a \<le> b" "b < 2 ^ 32"
  shows "\<exists>m r. 52 \<le> m \<and> m \<le> 84 \<and> 2 ^ 52 \<le> r \<and> r \<le> 2 ^ 53 \<and>
           fl (of_nat a / of_nat b) = of_int r / 2 ^ m \<and>
           r = round_half_even (of_nat a / of_nat b * 2 ^ m) \<and>
           \<bar>fl (of_nat a / of_nat b) - of_nat a / of_nat b\<bar> \<le> 1 / 2 ^ 53"
proof -
  let ?x = "of_nat a / of_nat b :: rat"
  have b: "0 < b" using assms by simp
  have x0: "0 < ?x" using assms b by simp
  have x1: "?x \<le> 1" using assms b by simp
  have "(of_nat b :: rat) < of_nat (2 ^ 32)" using assms(3) by (simp only: of_nat_less_iff)
  then have "(of_nat b :: rat) < 2 ^ 32" by simp
  then have "(of_nat b :: rat) * 2 ^ 52 \<le> 2 ^ 84" by simp
  also have "\<dots> \<le> of_nat a * 2 ^ 84" using assms(1) by simp
  finally have "2 ^ 52 \<le> ?x * 2 ^ 84" using b by (simp add: field_simps)
  from normal_exponent [OF x0 _ this] x1 obtain m where
    m: "m \<le> 84" "2 ^ 52 \<le> ?x * 2 ^ m" "?x * 2 ^ m < 2 ^ 53"
    by auto
  have m52: "52 \<le> m"
  proof (rule ccontr)
    assume "\<not> 52 \<le> m"
    then have "m \<le> 51" by simp
    then have "(2::rat) ^ m \<le> 2 ^ 51" by (intro power_increasing) auto
    moreover have "?x * 2 ^ m \<le> 1 * 2 ^ m" using x1 by (intro mult_right_mono) auto
    ultimately show False using m(2) by simp
  qed
  define r where "r = round_half_even (?x * 2 ^ m)"
  have fl: "fl ?x = of_int r / 2 ^ m"
    unfolding r_def using m by (intro fl_normal [OF x0]) auto
  have err: "\<bar>of_int r - ?x * 2 ^ m\<bar> \<le> 1 / 2" unfolding r_def by (rule round_half_even_error)
  have "(2::rat) ^ 52 - 1 / 2 \<le> of_int r" using err m(2) by linarith
  then have "(2::rat) ^ 52 - 1 < of_int r" by simp
  then have "(of_int (2 ^ 52 - 1) :: rat) < of_int r" by simp
  then have "(2::int) ^ 52 - 1 < r" by (simp only: of_int_less_iff)
  then have r_lo: "2 ^ 52 \<le> r" by simp
  have "of_int r < (2::rat) ^ 53 + 1 / 2" using err m(3) by linarith
  then have "of_int r < (2::rat) ^ 53 + 1" by simp
  then have "(of_int r :: rat) < of_int (2 ^ 53 + 1)" by simp
  then have "r < (2::int) ^ 53 + 1" by (simp only: of_int_less_iff)
  then have r_hi: "r \<le> 2 ^ 53" by simp
  have "\<bar>fl ?x - ?x\<bar> = \<bar>of_int r - ?x * 2 ^ m\<bar> / 2 ^ m"
    by (simp add: fl field_simps abs_divide)
  also have "\<dots> \<le> (1 / 2) / 2 ^ m" using err by (intro divide_right_mono) auto
  also have "\<dots> \<le> (1 / 2) / 2 ^ 52"
    using m52 by (intro divide_left_mono power_increasing) auto
  finally have "\<bar>fl ?x - ?x\<bar> \<le> 1 / 2 ^ 53" by simp
  with m(1) m52 r_lo r_hi fl r_def show ?thesis by blast
qed

text \<open>A 53-bit integer scaled by a power of two is a double.\<close>

lemma fl_dyadic:
  assumes "2 ^ 52 \<le> r" "r \<le> 2 ^ 53" "1 \<le> j" "j \<le> 1074"
  shows "fl (of_int r / 2 ^ j) = of_int r / 2 ^ j"
proof (cases "r = 2 ^ 53")
  case True
  from assms(3) obtain j' where j: "j = Suc j'" by (cases j) auto
  have x: "(of_int r :: rat) / 2 ^ j = 2 ^ 52 / 2 ^ j'" using True j by simp
  have "fl (2 ^ 52 / 2 ^ j') = of_int (2 ^ 52) / 2 ^ j'"
  proof (rule fl_unique)
    show "(0::rat) < 2 ^ 52 / 2 ^ j'" by simp
    show "(2::rat) ^ 52 \<le> 2 ^ 52 / 2 ^ j' * 2 ^ j'" by simp
    show "(2::rat) ^ 52 / 2 ^ j' * 2 ^ j' < 2 ^ 53" by simp
    show "j' \<le> 1074" using assms(4) j by simp
    show "\<bar>(2::rat) ^ 52 / 2 ^ j' * 2 ^ j' - of_int (2 ^ 52)\<bar> < 1 / 2" by simp
  qed
  with x show ?thesis by simp
next
  case False
  with assms(2) have "r < 2 ^ 53" by simp
  then have "(of_int r :: rat) < of_int (2 ^ 53)" by (simp only: of_int_less_iff)
  then have hi: "(of_int r :: rat) < 2 ^ 53" by simp
  from assms(1) have "(of_int (2 ^ 52) :: rat) \<le> of_int r" by (simp only: of_int_le_iff)
  then have lo: "(2::rat) ^ 52 \<le> of_int r" by simp
  have "(0::rat) < 2 ^ 52" by simp
  with lo have pos: "(0::rat) < of_int r" by linarith
  show ?thesis
  proof (rule fl_unique)
    show "(0::rat) < of_int r / 2 ^ j" using pos by simp
    show "(2::rat) ^ 52 \<le> of_int r / 2 ^ j * 2 ^ j" using lo by simp
    show "(of_int r :: rat) / 2 ^ j * 2 ^ j < 2 ^ 53" using hi by simp
    show "j \<le> 1074" by (rule assms(4))
    show "\<bar>(of_int r :: rat) / 2 ^ j * 2 ^ j - of_int r\<bar> < 1 / 2" by simp
  qed
qed

lemma scaled_short_side:
  fixes a b :: nat
  assumes "0 < a" "a \<le> b" "b < 2 ^ 32"
  shows "fl (fl (of_nat a / of_nat b) * MAX_DIMENSION) = fl (of_nat a / of_nat b) * 2048"
    and "\<bar>fl (of_nat a / of_nat b) * 2048 - of_nat a * 2048 / of_nat b\<bar> \<le> 1 / 2 ^ 42"
proof -
  let ?x = "of_nat a / of_nat b :: rat"
  from fl_quotient [OF assms] obtain m r where
    m: "52 \<le> m" "m \<le> 84" and r: "2 ^ 52 \<le> r" "r \<le> 2 ^ 53"
    and fl: "fl ?x = of_int r / 2 ^ m" and err: "\<bar>fl ?x - ?x\<bar> \<le> 1 / 2 ^ 53"
    by blast
  define j where "j = m - 11"
  have j: "m = j + 11" using m(1) by (simp add: j_def)
  have "fl ?x * 2048 = of_int r / 2 ^ j"
    by (simp add: fl j power_add)
  moreover have "fl (of_int r / 2 ^ j) = of_int r / 2 ^ j"
  proof (rule fl_dyadic [OF r])
    show "1 \<le> j" using m(1) j by simp
    show "j \<le> 1074" using m(2) j by simp
  qed
  ultimately show "fl (fl ?x * MAX_DIMENSION) = fl ?x * 2048"
    by (simp add: MAX_DIMENSION_def)
  have eq: "fl ?x * 2048 - of_nat a * 2048 / of_nat b = (fl ?x - ?x) * 2048"
    by (simp add: left_diff_distrib)
  have "\<bar>(fl ?x - ?x) * 2048\<bar> = \<bar>fl ?x - ?x\<bar> * 2048"
    by (subst abs_mult) simp
  also have "\<dots> \<le> 1 / 2 ^ 53 * 2048" using err by (intro mult_right_mono) auto
  finally have "\<bar>(fl ?x - ?x) * 2048\<bar> \<le> 1 / 2 ^ 42" by simp
  with eq show "\<bar>fl ?x * 2048 - of_nat a * 2048 / of_nat b\<bar> \<le> 1 / 2 ^ 42" by simp
qed

lemma scaled_short_side_floor:
  fixes a b :: nat
  assumes "0 < a" "a \<le> b" "b < 2 ^ 32"
  shows "\<lfloor>fl (of_nat a / of_nat b) * 2048\<rfloor> = int (a * 2048 div b)"
proof -
  let ?x = "of_nat a / of_nat b :: rat"
  let ?y = "fl ?x * 2048"
  define k where "k = a * 2048 div b"
  define d where "d = a * 2048 mod b"
  have b0: "0 < b" using assms by simp
  have B: "(0::rat) < of_nat b" using b0 by simp
  have split: "a * 2048 = k * b + d" and d: "d < b"
    using b0 by (simp_all add: k_def d_def)
  show ?thesis
  proof (cases "d = 0")
    case True
    with split have "(of_nat a :: rat) * 2048 = of_nat k * of_nat b"
      by (metis of_nat_mult of_nat_numeral add.right_neutral)
    then have x: "?x = of_nat k / 2048" using B by (simp add: field_simps)
    from fl_quotient [OF assms] obtain m r where
      m: "52 \<le> m" and fl: "fl ?x = of_int r / 2 ^ m"
      and r: "r = round_half_even (?x * 2 ^ m)"
      by blast
    define j where "j = m - 11"
    have j: "m = j + 11" using m by (simp add: j_def)
    have "?x * 2 ^ m = of_int (int k * 2 ^ j)" by (simp add: x j power_add)
    then have "r = int k * 2 ^ j" using r by (simp only: round_half_even_of_int)
    then have "fl ?x = of_nat k / 2048" by (simp add: fl j power_add)
    then have "?y = of_int (int k)" by simp
    then have "\<lfloor>?y\<rfloor> = int k" by (simp only: floor_of_int)
    then show ?thesis by (simp add: k_def)
  next
    case False
    have err: "\<bar>?y - of_nat a * 2048 / of_nat b\<bar> \<le> 1 / 2 ^ 42"
      by (rule scaled_short_side(2) [OF assms])
    have "(of_nat b :: rat) < of_nat (2 ^ 32)" using assms(3) by (simp only: of_nat_less_iff)
    then have b32: "(of_nat b :: rat) < 2 ^ 32" by simp
    have gap: "1 / 2 ^ 42 < 1 / (of_nat b :: rat)"
    proof -
      have "(of_nat b :: rat) < 2 ^ 42" using b32 by simp
      then show ?thesis using B by (simp add: field_simps)
    qed
    from False split have "k * b + 1 \<le> a * 2048" by simp
    then have "(of_nat (k * b + 1) :: rat) \<le> of_nat (a * 2048)" by (simp only: of_nat_le_iff)
    then have "of_nat k * of_nat b + 1 \<le> (of_nat a :: rat) * 2048" by simp
    then have "(of_nat k * of_nat b + 1) / of_nat b \<le> (of_nat a :: rat) * 2048 / of_nat b"
      using B by (intro divide_right_mono) auto
    moreover have "(of_nat k * of_nat b + 1) / of_nat b = (of_nat k :: rat) + 1 / of_nat b"
      using B by (simp add: add_divide_distrib)
    ultimately have lo: "of_nat k + 1 / of_nat b \<le> (of_nat a :: rat) * 2048 / of_nat b"
      by simp
    from d split have "a * 2048 + 1 \<le> (k + 1) * b" by simp
    then have "(of_nat (a * 2048 + 1) :: rat) \<le> of_nat ((k + 1) * b)" by (simp only: of_nat_le_iff)
    then have "(of_nat a :: rat) * 2048 + 1 \<le> (of_nat k + 1) * of_nat b"
      by (simp add: algebra_simps)
    then have "(of_nat a :: rat) * 2048 \<le> (of_nat k + 1) * of_nat b - 1" by linarith
    then have "(of_nat a :: rat) * 2048 / of_nat b \<le> ((of_nat k + 1) * of_nat b - 1) / of_nat b"
      using B by (intro divide_right_mono) auto
    moreover have "((of_nat k + 1) * of_nat b - 1) / of_nat b = (of_nat k :: rat) + 1 - 1 / of_nat b"
      using B by (simp add: diff_divide_distrib)
    ultimately have hi: "(of_nat a :: rat) * 2048 / of_nat b \<le> of_nat k + 1 - 1 / of_nat b"
      by simp
    from err have e1: "?y - of_nat a * 2048 / of_nat b \<le> 1 / 2 ^ 42"
      and e2: "of_nat a * 2048 / of_nat b - ?y \<le> 1 / 2 ^ 42"
      by (simp_all only: abs_le_iff minus_diff_eq)
    have kk: "(of_int (int k) :: rat) = of_nat k" by simp
    have "of_int (int k) \<le> ?y" unfolding kk using e2 lo gap by linarith
    moreover have "?y < of_int (int k) + 1" unfolding kk using e1 hi gap by linarith
    ultimately have "\<lfloor>?y\<rfloor> = int k" by (rule floor_unique)
    then show ?thesis by (simp add: k_def)
  qed
qed

lemma fl_zero: "fl 0 = 0"
  by (simp add: fl_def)

lemma scaled_short_side_all:
  fixes a b :: nat
  assumes "a \<le> b" "2048 < b" "b < 2 ^ 32"
  shows "nat \<lfloor>fl (fl (of_nat a / of_nat b) * MAX_DIMENSION)\<rfloor> = a * 2048 div b"
    and "\<bar>fl (fl (of_nat a / of_nat b) * MAX_DIMENSION) - of_nat a * 2048 / of_nat b\<bar> \<le> 1 / 2 ^ 42"
proof -
  show "nat \<lfloor>fl (fl (of_nat a / of_nat b) * MAX_DIMENSION)\<rfloor> = a * 2048 div b"
  proof (cases "a = 0")
    case True
    then show ?thesis by (simp add: fl_zero)
  next
    case False
    then have a: "0 < a" by simp
    from scaled_short_side(1) [OF a assms(1,3)] scaled_short_side_floor [OF a assms(1,3)]
    show ?thesis by simp
  qed
  show "\<bar>fl (fl (of_nat a / of_nat b) * MAX_DIMENSION) - of_nat a * 2048 / of_nat b\<bar> \<le> 1 / 2 ^ 42"
  proof (cases "a = 0")
    case True
    then show ?thesis by (simp add: fl_zero)
  next
    case False
    then have a: "0 < a" by simp
    from scaled_short_side [OF a assms(1,3)] show ?thesis by simp
  qed
qed

lemma floor_MAX_DIMENSION: "nat \<lfloor>MAX_DIMENSION\<rfloor> = 2048"
  by (simp add: MAX_DIMENSION_def)

lemma canvas_size_downscaled:
  assumes "w < 2 ^ 32" and "h < 2 ^ 32"
  shows "(w \<le> 2048 \<and> h \<le> 2048 \<longrightarrow>
            scaled_size w h = (of_nat w, of_nat h) \<and> canvas_size w h = (w, h))
    \<and> (2048 < w \<or> 2048 < h \<longrightarrow>
          canvas_size w h =
            (if h < w then (2048, h * 2048 div w) else (w * 2048 div h, 2048))
        \<and> max (fst (canvas_size w h)) (snd (canvas_size w h)) = 2048
        \<and> (h < w \<longrightarrow> fst (scaled_size w h) = 2048 \<and>
              \<bar>snd (scaled_size w h) - of_nat h * 2048 / of_nat w\<bar> \<le> 1 / 2 ^ 42)
        \<and> (w \<le> h \<longrightarrow> snd (scaled_size w h) = 2048 \<and>
              \<bar>fst (scaled_size w h) - of_nat w * 2048 / of_nat h\<bar> \<le> 1 / 2 ^ 42))"
proof (intro conjI impI)
  assume small: "w \<le> 2048 \<and> h \<le> 2048"
  then have "\<not> (MAX_DIMENSION < of_nat w \<or> MAX_DIMENSION < of_nat h)"
    by (simp add: MAX_DIMENSION_def not_less)
  then show "scaled_size w h = (of_nat w, of_nat h)"
    by (simp add: scaled_size_def Let_def)
  then show "canvas_size w h = (w, h)"
    by (simp add: canvas_size_def)
next
  assume big: "2048 < w \<or> 2048 < h"
  then have cond: "MAX_DIMENSION < of_nat w \<or> MAX_DIMENSION < of_nat h"
    by (simp add: MAX_DIMENSION_def)
  show cs: "canvas_size w h =
            (if h < w then (2048, h * 2048 div w) else (w * 2048 div h, 2048))"
  proof (cases "h < w")
    case True
    with big have "h \<le> w" "2048 < w" by auto
    from scaled_short_side_all(1) [OF this assms(1)] True cond show ?thesis
      by (simp add: canvas_size_def scaled_size_def Let_def floor_MAX_DIMENSION)
  next
    case False
    with big have "w \<le> h" "2048 < h" by auto
    from scaled_short_side_all(1) [OF this assms(2)] False cond show ?thesis
      by (simp add: canvas_size_def scaled_size_def Let_def floor_MAX_DIMENSION)
  qed
  show "max (fst (canvas_size w h)) (snd (canvas_size w h)) = 2048"
  proof (cases "h < w")
    case True
    then have "h * 2048 div w \<le> 2048"
      by (metis div_le_mono div_mult_self_is_m less_imp_le_nat mult.commute mult_le_mono2 not_gr_zero not_less_zero)
    with True cs show ?thesis by simp
  next
    case False
    with big have "w \<le> h" "0 < h" by auto
    then have "w * 2048 div h \<le> 2048"
      by (metis div_le_mono div_mult_self_is_m mult.commute mult_le_mono2)
    with False cs show ?thesis by simp
  qed
next
  assume big: "2048 < w \<or> 2048 < h" and lt: "h < w"
  then have cond: "MAX_DIMENSION < of_nat w \<or> MAX_DIMENSION < of_nat h"
    by (simp add: MAX_DIMENSION_def)
  from cond lt show "fst (scaled_size w h) = 2048"
    by (simp add: scaled_size_def Let_def MAX_DIMENSION_def)
  from big lt have "h \<le> w" "2048 < w" by auto
  from scaled_short_side_all(2) [OF this assms(1)] cond lt
  show "\<bar>snd (scaled_size w h) - of_nat h * 2048 / of_nat w\<bar> \<le> 1 / 2 ^ 42"
    by (simp add: scaled_size_def Let_def)
next
  assume big: "2048 < w \<or> 2048 < h" and le: "w \<le> h"
  then have cond: "MAX_DIMENSION < of_nat w \<or> MAX_DIMENSION < of_nat h"
    by (simp add: MAX_DIMENSION_def)
  from cond le show "snd (scaled_size w h) = 2048"
    by (simp add: scaled_size_def Let_def MAX_DIMENSION_def not_less)
  from big le have "w \<le> h" "2048 < h" by auto
  from scaled_short_side_all(2) [OF this assms(2)] cond le
  show "\<bar>fst (scaled_size w h) - of_nat w * 2048 / of_nat h\<bar> \<le> 1 / 2 ^ 42"
    by (simp add: scaled_size_def Let_def not_less)
qed


lemma reduce_quality_encoding:
  assumes "reduce_quality enc q b n = Some (b', q', n')" and "b = enc q"
  shows "b' = enc q'"
proof -
  have "b = enc q \<longrightarrow> fst y = enc (fst (snd y))" if "reduce_quality enc q b n = Some y" for y
    by (rule reduce_quality.raw_induct
          [where P = "\<lambda>enc q b n y. b = enc q \<longrightarrow> fst y = enc (fst (snd y))", OF _ that])
       (auto simp: Let_def split: if_splits)
  from this [OF assms(1)] assms(2) show ?thesis by simp
qed

lemma compressImage_encodes:
  assumes "readAsDataURL B f = Some src" and "loadImage B src = Some (w, h)" and "getContext2d B"
  shows "\<exists>q. compressImage B f =
           Resolved \<lparr> base64 = payload (toDataURL B src (canvas_size w h) q),
                      mimeType = js ''image/jpeg'' \<rparr>"
proof -
  let ?enc = "\<lambda>q. payload (toDataURL B src (canvas_size w h) q)"
  from reduce_quality_bounded [of ?enc "?enc (fl (9 / 10))"] obtain b' q' n' where
    r: "reduce_quality ?enc (fl (9 / 10)) (?enc (fl (9 / 10))) 0 = Some (b', q', n')" by blast
  from reduce_quality_encoding [OF r] have "b' = ?enc q'" by simp
  with r assms have "compressImage B f =
           Resolved \<lparr> base64 = payload (toDataURL B src (canvas_size w h) q'),
                      mimeType = js ''image/jpeg'' \<rparr>"
    by (simp add: compressImage_def Let_def)
  then show ?thesis by blast
qed

text \<open>
  C7. \<open>compressImage\<close> encodes a canvas of the size the resize step computes. For an image
  whose width and height are unsigned 32-bit values: when both are at most \<open>2048\<close> the
  encoder is given the image's own size. Otherwise it is given \<open>2048\<close> for the longer side
  and, for the other one, the exactly scaled value \<open>short * 2048 / long\<close> rounded down to an
  integer; the longer canvas side is \<open>2048\<close>. The numbers the image is drawn with are \<open>2048\<close>
  and the exactly scaled value up to a rounding error of at most \<open>2^-42\<close>.
\<close>

theorem C7_downscaled_dimensions:
  assumes "readAsDataURL B f = Some src" and "loadImage B src = Some (w, h)" and "getContext2d B"
    and "w < 2 ^ 32" and "h < 2 ^ 32"
  shows "(w \<le> 2048 \<and> h \<le> 2048 \<longrightarrow>
            (\<exists>q. compressImage B f =
               Resolved \<lparr> base64 = payload (toDataURL B src (w, h) q),
                          mimeType = js ''image/jpeg'' \<rparr>))
    \<and> (2048 < w \<or> 2048 < h \<longrightarrow>
            (\<exists>q. compressImage B f =
               Resolved \<lparr> base64 = payload (toDataURL B src
                            (if h < w then (2048, h * 2048 div w) else (w * 2048 div h, 2048)) q),
                          mimeType = js ''image/jpeg'' \<rparr>)
          \<and> max (if h < w then 2048 else w * 2048 div h) (if h < w then h * 2048 div w else 2048) = 2048)
    \<and> (w \<le> 2048 \<and> h \<le> 2048 \<longrightarrow>
            scaled_size w h = (of_nat w, of_nat h) \<and> canvas_size w h = (w, h))
    \<and> (2048 < w \<or> 2048 < h \<longrightarrow>
          canvas_size w h =
            (if h < w then (2048, h * 2048 div w) else (w * 2048 div h, 2048))
        \<and> max (fst (canvas_size w h)) (snd (canvas_size w h)) = 2048
        \<and> (h < w \<longrightarrow> fst (scaled_size w h) = 2048 \<and>
              \<bar>snd (scaled_size w h) - of_nat h * 2048 / of_nat w\<bar> \<le> 1 / 2 ^ 42)
        \<and> (w \<le> h \<longrightarrow> snd (scaled_size w h) = 2048 \<and>
              \<bar>fst (scaled_size w h) - of_nat w * 2048 / of_nat h\<bar> \<le> 1 / 2 ^ 42))"
proof -
  note cs = canvas_size_downscaled [OF assms(4,5)]
  from compressImage_encodes [OF assms(1-3)] obtain q where
    c: "compressImage B f =
           Resolved \<lparr> base64 = payload (toDataURL B src (canvas_size w h) q),
                      mimeType = js ''image/jpeg'' \<rparr>" by blast
  have 1: "w \<le> 2048 \<and> h \<le> 2048 \<longrightarrow>
            (\<exists>q. compressImage B f =
               Resolved \<lparr> base64 = payload (toDataURL B src (w, h) q),
                          mimeType = js ''image/jpeg'' \<rparr>)"
  proof
    assume "w \<le> 2048 \<and> h \<le> 2048"
    with cs have "canvas_size w h = (w, h)" by blast
    with c show "\<exists>q. compressImage B f =
               Resolved \<lparr> base64 = payload (toDataURL B src (w, h) q),
                          mimeType = js ''image/jpeg'' \<rparr>"
      by auto
  qed
  have 2: "2048 < w \<or> 2048 < h \<longrightarrow>
            (\<exists>q. compressImage B f =
               Resolved \<lparr> base64 = payload (toDataURL B src
                            (if h < w then (2048, h * 2048 div w) else (w * 2048 div h, 2048)) q),
                          mimeType = js ''image/jpeg'' \<rparr>)
          \<and> max (if h < w then 2048 else w * 2048 div h) (if h < w then h * 2048 div w else 2048) = 2048"
  proof
    assume big: "2048 < w \<or> 2048 < h"
    with cs have eq: "canvas_size w h =
            (if h < w then (2048, h * 2048 div w) else (w * 2048 div h, 2048))"
      and mx: "max (fst (canvas_size w h)) (snd (canvas_size w h)) = 2048"
      by blast+
    from c eq have "\<exists>q. compressImage B f =
               Resolved \<lparr> base64 = payload (toDataURL B src
                            (if h < w then (2048, h * 2048 div w) else (w * 2048 div h, 2048)) q),
                          mimeType = js ''image/jpeg'' \<rparr>"
      by (simp only:) blast
    moreover from mx eq
    have "max (if h < w then 2048 else w * 2048 div h) (if h < w then h * 2048 div w else 2048) = 2048"
      by (simp split: if_splits)
    ultimately show "(\<exists>q. compressImage B f =
               Resolved \<lparr> base64 = payload (toDataURL B src
                            (if h < w then (2048, h * 2048 div w) else (w * 2048 div h, 2048)) q),
                          mimeType = js ''image/jpeg'' \<rparr>)
          \<and> max (if h < w then 2048 else w * 2048 div h) (if h < w then h * 2048 div w else 2048) = 2048"
      by blast
  qed
  from 1 2 cs show ?thesis by blast
qed

theorem C7_witness:
  "readAsDataURL (sized_browser (5000, 3333) (2048, 1365)) png_file = Some (js ''data:image/png;base64,QUJD'')
   \<and> loadImage (sized_browser (5000, 3333) (2048, 1365)) (js ''data:image/png;base64,QUJD'') = Some (5000, 3333)
   \<and> getContext2d (sized_browser (5000, 3333) (2048, 1365))
   \<and> (5000::nat) < 2 ^ 32 \<and> (3333::nat) < 2 ^ 32 \<and> (2048::nat) < 5000
   \<and> compressImage (sized_browser (5000, 3333) (2048, 1365)) png_file =
        Resolved \<lparr> base64 = js ''TUFUQ0g='', mimeType = js ''image/jpeg'' \<rparr>
   \<and> compressImage (sized_browser (3333, 5000) (1365, 2048)) png_file =
        Resolved \<lparr> base64 = js ''TUFUQ0g='', mimeType = js ''image/jpeg'' \<rparr>
   \<and> compressImage (sized_browser (1920, 1080) (1920, 1080)) png_file =
        Resolved \<lparr> base64 = js ''TUFUQ0g='', mimeType = js ''image/jpeg'' \<rparr>
   \<and> compressImage (sized_browser (5000, 3333) (5000, 3333)) png_file =
        Resolved \<lparr> base64 = js ''T1RIRVI='', mimeType = js ''image/jpeg'' \<rparr>
   \<and> canvas_size 5000 3333 = (2048, 1365)
   \<and> canvas_size 3333 5000 = (1365, 2048)
   \<and> canvas_size 1920 1080 = (1920, 1080)"
proof -
  have h: "readAsDataURL (sized_browser s e) png_file = Some (js ''data:image/png;base64,QUJD'')"
    "loadImage (sized_browser s e) (js ''data:image/png;base64,QUJD'') = Some s"
    "getContext2d (sized_browser s e)" for s e
    by (simp_all add: sized_browser_def)
  have b: "(5000::nat) < 2 ^ 32" "(3333::nat) < 2 ^ 32" "(1920::nat) < 2 ^ 32" "(1080::nat) < 2 ^ 32"
    by simp_all
  have p: "payload (js ''data:image/jpeg;base64,TUFUQ0g='') = js ''TUFUQ0g=''"
    "payload (js ''data:image/jpeg;base64,T1RIRVI='') = js ''T1RIRVI=''"
    by (simp_all add: payload_def js_def)
  from C7_downscaled_dimensions [OF h b(1,2), of "(2048, 1365)"]
  have "\<exists>q. compressImage (sized_browser (5000, 3333) (2048, 1365)) png_file =
               Resolved \<lparr> base64 = payload (toDataURL (sized_browser (5000, 3333) (2048, 1365))
                            (js ''data:image/png;base64,QUJD'')
                            (if (3333::nat) < 5000 then (2048, 3333 * 2048 div 5000)
                             else (5000 * 2048 div 3333, 2048)) q),
                          mimeType = js ''image/jpeg'' \<rparr>"
    by simp
  then have c1: "compressImage (sized_browser (5000, 3333) (2048, 1365)) png_file =
        Resolved \<lparr> base64 = js ''TUFUQ0g='', mimeType = js ''image/jpeg'' \<rparr>"
    by (simp add: sized_browser_def p)
  from C7_downscaled_dimensions [OF h b(2,1), of "(1365, 2048)"]
  have "\<exists>q. compressImage (sized_browser (3333, 5000) (1365, 2048)) png_file =
               Resolved \<lparr> base64 = payload (toDataURL (sized_browser (3333, 5000) (1365, 2048))
                            (js ''data:image/png;base64,QUJD'')
                            (if (5000::nat) < 3333 then (2048, 5000 * 2048 div 3333)
                             else (3333 * 2048 div 5000, 2048)) q),
                          mimeType = js ''image/jpeg'' \<rparr>"
    by simp
  then have c2: "compressImage (sized_browser (3333, 5000) (1365, 2048)) png_file =
        Resolved \<lparr> base64 = js ''TUFUQ0g='', mimeType = js ''image/jpeg'' \<rparr>"
    by (simp add: sized_browser_def p)
  from C7_downscaled_dimensions [OF h b(3,4), of "(1920, 1080)"]
  have "\<exists>q. compressImage (sized_browser (1920, 1080) (1920, 1080)) png_file =
               Resolved \<lparr> base64 = payload (toDataURL (sized_browser (1920, 1080) (1920, 1080))
                            (js ''data:image/png;base64,QUJD'') (1920, 1080) q),
                          mimeType = js ''image/jpeg'' \<rparr>"
    by simp
  then have c3: "compressImage (sized_browser (1920, 1080) (1920, 1080)) png_file =
        Resolved \<lparr> base64 = js ''TUFUQ0g='', mimeType = js ''image/jpeg'' \<rparr>"
    by (simp add: sized_browser_def p)
  from C7_downscaled_dimensions [OF h b(1,2), of "(5000, 3333)"]
  have "\<exists>q. compressImage (sized_browser (5000, 3333) (5000, 3333)) png_file =
               Resolved \<lparr> base64 = payload (toDataURL (sized_browser (5000, 3333) (5000, 3333))
                            (js ''data:image/png;base64,QUJD'')
                            (if (3333::nat) < 5000 then (2048, 3333 * 2048 div 5000)
                             else (5000 * 2048 div 3333, 2048)) q),
                          mimeType = js ''image/jpeg'' \<rparr>"
    by simp
  then have c4: "compressImage (sized_browser (5000, 3333) (5000, 3333)) png_file =
        Resolved \<lparr> base64 = js ''T1RIRVI='', mimeType = js ''image/jpeg'' \<rparr>"
    by (simp add: sized_browser_def p)
  have "canvas_size 5000 3333 = (2048, 1365)"
    using canvas_size_downscaled [OF b(1,2)] by simp
  moreover have "canvas_size 3333 5000 = (1365, 2048)"
    using canvas_size_downscaled [OF b(2,1)] by simp
  moreover have "canvas_size 1920 1080 = (1920, 1080)"
    using canvas_size_downscaled [OF b(3,4)] by simp
  ultimately show ?thesis using h b c1 c2 c3 c4 by simp
qed


subsection \<open>Rejected files\<close>

lemma updates_append: "updates (xs @ ys) = updates xs + updates ys"
  by (induction xs rule: updates.induct) simp_all

text \<open>
  C8. A file above the size ceiling (100MB in the compressing variant, 20MB in the other) is
  refused with an alert and \<open>setUploadedMedia\<close> is not called: the state differs from the
  prior one in the added alert only, so the prior \<open>uploadedMedia\<close>, \<open>null\<close> included, stays.
  The same holds for a file whose type is not in the allow-list; its alert names the type
  (unless the file is also too large).
\<close>

theorem C8_rejected_file_leaves_media:
  "(100 * 1024 * 1024 < file_size f \<or> file_type f \<notin> set acceptedTypes \<longrightarrow>
      processFile B (Some f) st =
        alert (if 100 * 1024 * 1024 < file_size f
               then js ''File is too large. Please select a file under 100MB.''
               else js ''Unsupported file type: '' @ file_type f
                    @ js ''. Please use PNG, JPG, WEBP, HEIC, MP4, or WEBM.'') st
      \<and> uploadedMedia (processFile B (Some f) st) = uploadedMedia st
      \<and> updates (ui_log (processFile B (Some f) st)) = updates (ui_log st))
   \<and> (20 * 1024 * 1024 < file_size f \<or> file_type f \<notin> set acceptedTypes_20MB \<longrightarrow>
      processFile_20MB B (Some f) st =
        alert (if 20 * 1024 * 1024 < file_size f
               then js ''File is too large. Please select a file under 20MB.''
               else js ''Unsupported file type: '' @ file_type f
                    @ js ''. Please use PNG, JPG, WEBP, MP4, or WEBM.'') st
      \<and> uploadedMedia (processFile_20MB B (Some f) st) = uploadedMedia st
      \<and> updates (ui_log (processFile_20MB B (Some f) st)) = updates (ui_log st))"
  by (auto simp: processFile_def processFile_20MB_def alert_def updates_append)

theorem C8_witness:
  "100 * 1024 * 1024 < file_size huge_file
   \<and> 20 * 1024 * 1024 < file_size medium_file
   \<and> file_type gif_file \<notin> set acceptedTypes
   \<and> file_type gif_file \<notin> set acceptedTypes_20MB
   \<and> processFile example_browser (Some huge_file) example_state =
        \<lparr> uploadedMedia = Some example_media,
          ui_log = [Alert (js ''File is too large. Please select a file under 100MB.'')] \<rparr>
   \<and> processFile_20MB example_browser (Some medium_file) example_state =
        \<lparr> uploadedMedia = Some example_media,
          ui_log = [Alert (js ''File is too large. Please select a file under 20MB.'')] \<rparr>
   \<and> processFile example_browser (Some gif_file) example_state =
        \<lparr> uploadedMedia = Some example_media,
          ui_log = [Alert (js ''Unsupported file type: image/gif. Please use PNG, JPG, WEBP, HEIC, MP4, or WEBM.'')] \<rparr>
   \<and> processFile_20MB example_browser (Some gif_file) example_state =
        \<lparr> uploadedMedia = Some example_media,
          ui_log = [Alert (js ''Unsupported file type: image/gif. Please use PNG, JPG, WEBP, MP4, or WEBM.'')] \<rparr>"
proof -
  have h: "100 * 1024 * 1024 < file_size huge_file" "20 * 1024 * 1024 < file_size medium_file"
    "file_type gif_file \<notin> set acceptedTypes" "file_type gif_file \<notin> set acceptedTypes_20MB"
    by (simp_all add: huge_file_def medium_file_def gif_file_def acceptedTypes_def
        acceptedTypes_20MB_def)
  from C8_rejected_file_leaves_media [of huge_file example_browser example_state] h(1)
  have 1: "processFile example_browser (Some huge_file) example_state =
        \<lparr> uploadedMedia = Some example_media,
          ui_log = [Alert (js ''File is too large. Please select a file under 100MB.'')] \<rparr>"
    by (simp add: example_state_def alert_def)
  from C8_rejected_file_leaves_media [of medium_file example_browser example_state] h(2)
  have 2: "processFile_20MB example_browser (Some medium_file) example_state =
        \<lparr> uploadedMedia = Some example_media,
          ui_log = [Alert (js ''File is too large. Please select a file under 20MB.'')] \<rparr>"
    by (simp add: example_state_def alert_def)
  from C8_rejected_file_leaves_media [of gif_file example_browser example_state] h(3,4)
  have 3: "processFile example_browser (Some gif_file) example_state =
        \<lparr> uploadedMedia = Some example_media,
          ui_log = [Alert (js ''Unsupported file type: image/gif. Please use PNG, JPG, WEBP, HEIC, MP4, or WEBM.'')] \<rparr>"
    "processFile_20MB example_browser (Some gif_file) example_state =
        \<lparr> uploadedMedia = Some example_media,
          ui_log = [Alert (js ''Unsupported file type: image/gif. Please use PNG, JPG, WEBP, MP4, or WEBM.'')] \<rparr>"
    by (simp_all add: example_state_def alert_def gif_file_def js_append)
  from h 1 2 3 show ?thesis by blast
qed


subsection \<open>Paste\<close>

lemma processFile_updates:
  "updates (ui_log (processFile B file st)) \<le> updates (ui_log st) + 1"
  by (auto simp: processFile_def alert_def setUploadedMedia_def updates_append
      split: option.splits settled.splits)

lemma first_image_file_nth:
  assumes "i < length items"
    and "kind (items ! i) = js ''file''" and "startsWith (item_type (items ! i)) (js ''image/'')"
    and "getAsFile (items ! i) = Some f"
    and "\<forall>j < i. \<not> (kind (items ! j) = js ''file'' \<and> startsWith (item_type (items ! j)) (js ''image/'')
                     \<and> getAsFile (items ! j) \<noteq> None)"
  shows "first_image_file items = Some f"
  using assms
proof (induction items arbitrary: i)
  case Nil
  then show ?case by simp
next
  case (Cons item items)
  show ?case
  proof (cases i)
    case 0
    with Cons.prems show ?thesis by simp
  next
    case (Suc i')
    from Cons.prems(5) Suc have first: "\<not> (kind item = js ''file'' \<and> startsWith (item_type item) (js ''image/'')
                     \<and> getAsFile item \<noteq> None)"
      by force
    have "first_image_file items = Some f"
    proof (rule Cons.IH [of i'])
      show "i' < length items" using Cons.prems(1) Suc by simp
      show "kind (items ! i') = js ''file''" using Cons.prems(2) Suc by simp
      show "startsWith (item_type (items ! i')) (js ''image/'')" using Cons.prems(3) Suc by simp
      show "getAsFile (items ! i') = Some f" using Cons.prems(4) Suc by simp
      show "\<forall>j < i'. \<not> (kind (items ! j) = js ''file'' \<and> startsWith (item_type (items ! j)) (js ''image/'')
                     \<and> getAsFile (items ! j) \<noteq> None)"
      proof (intro allI impI)
        fix j assume "j < i'"
        then have "Suc j < i" using Suc by simp
        with Cons.prems(5) show "\<not> (kind (items ! j) = js ''file'' \<and> startsWith (item_type (items ! j)) (js ''image/'')
                     \<and> getAsFile (items ! j) \<noteq> None)"
          by force
      qed
    qed
    with first show ?thesis by (auto split: option.splits)
  qed
qed

lemma compress_example:
  "compressImage example_browser f = Resolved \<lparr> base64 = js ''SlBH'', mimeType = js ''image/jpeg'' \<rparr>"
  by (simp add: compressImage_def example_browser_def Let_def payload_def
      reduce_quality_stop size_limit_value js_def)

text \<open>
  C9, as stated, fails: while a generation is loading the handler returns at once, and a paste
  of two image files processes none of them. (The same paste is processed when nothing is
  loading.) And an image item whose \<open>getAsFile()\<close> gives \<open>null\<close> is passed over: when it comes
  first, the file taken is that of the next image item.
\<close>

theorem C9_counterexample:
  "kind png_item = js ''file'' \<and> startsWith (item_type png_item) (js ''image/'')
   \<and> kind jpeg_item = js ''file'' \<and> startsWith (item_type jpeg_item) (js ''image/'')
   \<and> handlePaste example_browser True (Some [png_item, jpeg_item]) example_state = example_state
   \<and> ui_log example_state = []
   \<and> handlePaste example_browser False (Some [png_item, jpeg_item]) example_state
       = \<lparr> uploadedMedia = Some \<lparr> base64 = js ''SlBH'', mimeType = js ''image/jpeg'' \<rparr>,
           ui_log = [Prevent_default,
                     Set_uploaded_media \<lparr> base64 = js ''SlBH'', mimeType = js ''image/jpeg'' \<rparr>] \<rparr>
   \<and> kind empty_png_item = js ''file'' \<and> startsWith (item_type empty_png_item) (js ''image/'')
   \<and> first_image_file [empty_png_item, jpeg_item] = Some jpeg_file"
  by (simp add: handlePaste_def png_item_def jpeg_item_def startsWith_def example_state_def
      processFile_def compress_example png_file_def acceptedTypes_def setUploadedMedia_def
      empty_png_item_def)

lemma first_image_file_None:
  "first_image_file items = None \<longleftrightarrow>
     (\<forall>item \<in> set items. \<not> (kind item = js ''file'' \<and> startsWith (item_type item) (js ''image/'')
                     \<and> getAsFile item \<noteq> None))"
  by (induction items) (auto split: option.splits)

text \<open>
  C9, amended. While a generation is loading the handler does nothing, whatever is pasted.
  While none is loading, a paste holding an item whose kind is \<open>file\<close>, whose type starts
  with \<open>image/\<close> and whose \<open>getAsFile()\<close> yields a file is handled by processing exactly one
  file, that of the first such item in index order: the handler's effect is that of
  \<open>preventDefault\<close> followed by one \<open>processFile\<close> call, so \<open>setUploadedMedia\<close> is called at
  most once. A paste without such an item, or without clipboard data, changes nothing.
\<close>

theorem C9_paste_takes_first_image:
  "(isLoading \<longrightarrow> handlePaste B isLoading clipboardData st = st)
   \<and> (\<not> isLoading \<and> i < length items \<and>
       kind (items ! i) = js ''file'' \<and> startsWith (item_type (items ! i)) (js ''image/'') \<and>
       getAsFile (items ! i) = Some f \<and>
       (\<forall>j < i. \<not> (kind (items ! j) = js ''file'' \<and> startsWith (item_type (items ! j)) (js ''image/'')
                     \<and> getAsFile (items ! j) \<noteq> None)) \<longrightarrow>
         handlePaste B isLoading (Some items) st =
           processFile B (Some f) (st\<lparr> ui_log := ui_log st @ [Prevent_default] \<rparr>)
         \<and> updates (ui_log (handlePaste B isLoading (Some items) st)) \<le> updates (ui_log st) + 1)
   \<and> ((\<forall>item \<in> set items'. \<not> (kind item = js ''file'' \<and> startsWith (item_type item) (js ''image/'')
                     \<and> getAsFile item \<noteq> None)) \<longrightarrow>
         handlePaste B isLoading (Some items') st = st)
   \<and> handlePaste B isLoading None st = st"
proof (intro conjI impI)
  assume isLoading
  then show "handlePaste B isLoading clipboardData st = st"
    by (simp add: handlePaste_def)
next
  assume a: "\<not> isLoading \<and> i < length items \<and>
       kind (items ! i) = js ''file'' \<and> startsWith (item_type (items ! i)) (js ''image/'') \<and>
       getAsFile (items ! i) = Some f \<and>
       (\<forall>j < i. \<not> (kind (items ! j) = js ''file'' \<and> startsWith (item_type (items ! j)) (js ''image/'')
                     \<and> getAsFile (items ! j) \<noteq> None))"
  then have "first_image_file items = Some f"
    using first_image_file_nth [of i items f] by blast
  with a show eq: "handlePaste B isLoading (Some items) st =
           processFile B (Some f) (st\<lparr> ui_log := ui_log st @ [Prevent_default] \<rparr>)"
    by (simp add: handlePaste_def)
  from processFile_updates [of B "Some f" "st\<lparr> ui_log := ui_log st @ [Prevent_default] \<rparr>"]
  have "updates (ui_log (processFile B (Some f) (st\<lparr> ui_log := ui_log st @ [Prevent_default] \<rparr>)))
          \<le> updates (ui_log st) + 1"
    by (simp add: updates_append)
  with eq show "updates (ui_log (handlePaste B isLoading (Some items) st)) \<le> updates (ui_log st) + 1"
    by simp
next
  assume "\<forall>item \<in> set items'. \<not> (kind item = js ''file'' \<and> startsWith (item_type item) (js ''image/'')
                     \<and> getAsFile item \<noteq> None)"
  then have "first_image_file items' = None"
    by (simp only: first_image_file_None)
  then show "handlePaste B isLoading (Some items') st = st"
    by (simp add: handlePaste_def)
next
  show "handlePaste B isLoading None st = st"
    by (simp add: handlePaste_def)
qed

theorem C9_witness:
  "(1::nat) < length [text_item, png_item, jpeg_item]
   \<and> kind ([text_item, png_item, jpeg_item] ! 1) = js ''file''
   \<and> startsWith (item_type ([text_item, png_item, jpeg_item] ! 1)) (js ''image/'')
   \<and> getAsFile ([text_item, png_item, jpeg_item] ! 1) = Some png_file
   \<and> kind ([text_item, png_item, jpeg_item] ! 0) \<noteq> js ''file''
   \<and> handlePaste example_browser False (Some [text_item, png_item, jpeg_item]) example_state
       = \<lparr> uploadedMedia = Some \<lparr> base64 = js ''SlBH'', mimeType = js ''image/jpeg'' \<rparr>,
           ui_log = [Prevent_default,
                     Set_uploaded_media \<lparr> base64 = js ''SlBH'', mimeType = js ''image/jpeg'' \<rparr>] \<rparr>
   \<and> handlePaste example_browser True (Some [text_item, png_item, jpeg_item]) example_state
       = example_state
   \<and> kind text_item \<noteq> js ''file''
   \<and> handlePaste example_browser False (Some [text_item, text_item]) example_state = example_state
   \<and> handlePaste example_browser False None example_state = example_state"
proof -
  let ?items = "[text_item, png_item, jpeg_item]"
  note th = C9_paste_takes_first_image [where B = example_browser and st = example_state
      and i = 1 and items = ?items and f = png_file and items' = "[text_item, text_item]"]
  have h: "(1::nat) < length ?items" "kind (?items ! 1) = js ''file''"
    "startsWith (item_type (?items ! 1)) (js ''image/'')" "getAsFile (?items ! 1) = Some png_file"
    "kind (?items ! 0) \<noteq> js ''file''" "kind text_item \<noteq> js ''file''"
    by (simp_all add: png_item_def text_item_def startsWith_def)
  have first: "\<forall>j < (1::nat). \<not> (kind (?items ! j) = js ''file'' \<and> startsWith (item_type (?items ! j)) (js ''image/'')
                     \<and> getAsFile (?items ! j) \<noteq> None)"
    by (simp add: text_item_def)
  have none: "\<forall>item \<in> set [text_item, text_item].
                \<not> (kind item = js ''file'' \<and> startsWith (item_type item) (js ''image/'')
                     \<and> getAsFile item \<noteq> None)"
    by (simp add: text_item_def)
  from th [where isLoading = False and clipboardData = None, THEN conjunct2, THEN conjunct1]
    h(1-4) first
  have "handlePaste example_browser False (Some ?items) example_state =
           processFile example_browser (Some png_file)
             (example_state\<lparr> ui_log := ui_log example_state @ [Prevent_default] \<rparr>)"
    by blast
  also have "\<dots> = \<lparr> uploadedMedia = Some \<lparr> base64 = js ''SlBH'', mimeType = js ''image/jpeg'' \<rparr>,
           ui_log = [Prevent_default,
                     Set_uploaded_media \<lparr> base64 = js ''SlBH'', mimeType = js ''image/jpeg'' \<rparr>] \<rparr>"
    by (simp add: processFile_def compress_example png_file_def acceptedTypes_def startsWith_def
        setUploadedMedia_def example_state_def)
  finally have a: "handlePaste example_browser False (Some ?items) example_state
       = \<lparr> uploadedMedia = Some \<lparr> base64 = js ''SlBH'', mimeType = js ''image/jpeg'' \<rparr>,
           ui_log = [Prevent_default,
                     Set_uploaded_media \<lparr> base64 = js ''SlBH'', mimeType = js ''image/jpeg'' \<rparr>] \<rparr>" .
  from th [where isLoading = True and clipboardData = "Some ?items", THEN conjunct1]
  have b: "handlePaste example_browser True (Some ?items) example_state = example_state"
    by simp
  from th [where isLoading = False and clipboardData = None, THEN conjunct2, THEN conjunct2,
      THEN conjunct1] none
  have c: "handlePaste example_browser False (Some [text_item, text_item]) example_state = example_state"
    by blast
  from th [where isLoading = False and clipboardData = None, THEN conjunct2, THEN conjunct2,
      THEN conjunct2]
  have d: "handlePaste example_browser False None example_state = example_state" .
  from h a b c d show ?thesis by blast
qed

end
